theory Spec2Isabelle
  imports Complex_Main "HOL-Library.Monad_Syntax"
begin

section \<open>Dense vectors and matrices\<close>

text \<open>
  The filter of \<^verbatim>\<open>ukf.cpp\<close> works on Eigen's \<^verbatim>\<open>VectorXd\<close> and \<^verbatim>\<open>MatrixXd\<close>.
  A vector is the list of its coefficients, a matrix the list of its rows; \<^verbatim>\<open>double\<close> and
  \<^verbatim>\<open>float\<close> are the real numbers (no rounding, no NaN, no infinity). This reading is
  used for the properties that rounding does not decide: which branches run, which members
  are read and written, which residuals are normalized. The sum of the weights, the end of
  the angle loops and the symmetry of the predicted covariance depend on rounding; for them
  the code is read on binary64 numbers in the next section.
\<close>

type_synonym vec = "real list"
type_synonym mat = "real list list"

definition zero_vec :: "nat \<Rightarrow> vec" where
  "zero_vec n = replicate n 0"

definition zero_mat :: "nat \<Rightarrow> nat \<Rightarrow> mat" where
  "zero_mat r c = replicate r (replicate c 0)"

definition identity_mat :: "nat \<Rightarrow> mat" where
  "identity_mat n = map (\<lambda>i. map (\<lambda>j. if i = j then 1 else 0) [0..<n]) [0..<n]"

definition vec_add :: "vec \<Rightarrow> vec \<Rightarrow> vec" where
  "vec_add u v = map2 (+) u v"

definition vec_sub :: "vec \<Rightarrow> vec \<Rightarrow> vec" where
  "vec_sub u v = map2 (-) u v"

definition vec_scale :: "real \<Rightarrow> vec \<Rightarrow> vec" where
  "vec_scale c v = map ((*) c) v"

definition dot :: "vec \<Rightarrow> vec \<Rightarrow> real" where
  "dot u v = sum_list (map2 (*) u v)"

definition mat_add :: "mat \<Rightarrow> mat \<Rightarrow> mat" where
  "mat_add A B = map2 vec_add A B"

definition mat_sub :: "mat \<Rightarrow> mat \<Rightarrow> mat" where
  "mat_sub A B = map2 vec_sub A B"

text \<open>\<^verbatim>\<open>M.col(j)\<close> and the number of columns.\<close>

definition col :: "mat \<Rightarrow> nat \<Rightarrow> vec" where
  "col M j = map (\<lambda>r. r ! j) M"

definition ncols :: "mat \<Rightarrow> nat" where
  "ncols M = (case M of [] \<Rightarrow> 0 | r # _ \<Rightarrow> length r)"

definition cols :: "mat \<Rightarrow> vec list" where
  "cols M = map (col M) [0..<ncols M]"

definition transpose_mat :: "mat \<Rightarrow> mat" where
  "transpose_mat M = cols M"

text \<open>A matrix given by its columns, as the loops over sigma points write it.\<close>

definition of_cols :: "nat \<Rightarrow> vec list \<Rightarrow> mat" where
  "of_cols r cs = map (\<lambda>i. map (\<lambda>c. c ! i) cs) [0..<r]"

definition mat_vec :: "mat \<Rightarrow> vec \<Rightarrow> vec" where
  "mat_vec M v = map (\<lambda>r. dot r v) M"

definition mat_mul :: "mat \<Rightarrow> mat \<Rightarrow> mat" where
  "mat_mul A B = map (\<lambda>r. map (\<lambda>c. dot r c) (cols B)) A"

text \<open>\<^verbatim>\<open>u * v.transpose()\<close>.\<close>

definition outer :: "vec \<Rightarrow> vec \<Rightarrow> mat" where
  "outer u v = map (\<lambda>a. map (\<lambda>b. a * b) v) u"

text \<open>
  \<^verbatim>\<open>M.inverse()\<close>: the inverse as adjugate over determinant, the determinant by expansion
  along the first row. Eigen computes the same matrix by an LU decomposition when the
  matrix is invertible; on a singular matrix Eigen returns non-finite coefficients, where
  this definition divides by zero (\<open>x / 0 = 0\<close> in HOL).
\<close>

definition drop_nth :: "nat \<Rightarrow> 'a list \<Rightarrow> 'a list" where
  "drop_nth j xs = take j xs @ drop (Suc j) xs"

definition minor_mat :: "mat \<Rightarrow> nat \<Rightarrow> nat \<Rightarrow> mat" where
  "minor_mat M i j = map (drop_nth j) (drop_nth i M)"

function det :: "mat \<Rightarrow> real" where
  "det M = (case M of
      [] \<Rightarrow> 1
    | r # rs \<Rightarrow> sum_list (map (\<lambda>j. (- 1) ^ j * (r ! j) * det (map (drop_nth j) rs))
                             [0..<length M]))"
  by pat_completeness auto
termination
  by (relation "measure length") auto

declare det.simps [simp del]

definition inverse_mat :: "mat \<Rightarrow> mat" where
  "inverse_mat M =
     map (\<lambda>i. map (\<lambda>j. (- 1) ^ (i + j) * det (minor_mat M j i) / det M) [0..<length M])
       [0..<length M]"

section \<open>The filter\<close>

datatype SensorType = LASER | RADAR

record MeasurementPackage =
  timestamp_m :: int
  sensor_type_m :: SensorType
  raw_measurements_m :: vec

text \<open>
  The members of class \<^verbatim>\<open>UKF\<close> that \<^verbatim>\<open>ukf.cpp\<close> reads or writes; a member
  \<^verbatim>\<open>name_\<close> of the source is the field \<open>name_m\<close> here (an Isabelle name cannot end
  with an underscore). The header that declares them is not part of the sources;
  \<^verbatim>\<open>lambda_\<close> and the standard deviations are taken as \<^verbatim>\<open>double\<close> (the weight
  \<^verbatim>\<open>lambda_ / (lambda_ + n_aug_)\<close> is a real division), the dimensions as natural
  numbers and the time stamps as integers.
\<close>

record UKF =
  is_initialized_m :: bool
  previous_timestamp_m :: int
  use_laser_m :: bool
  use_radar_m :: bool
  std_a_m :: real
  std_yawdd_m :: real
  std_laspx_m :: real
  std_laspy_m :: real
  std_radr_m :: real
  std_radphi_m :: real
  std_radrd_m :: real
  n_x_m :: nat
  n_aug_m :: nat
  lambda_m :: real
  x_m :: vec
  P_m :: mat
  Xsig_pred_m :: mat
  weights_m :: vec
  time_us_m :: int

subsection \<open>Constructor\<close>

text \<open>
  The loop of the constructor that fills \<^verbatim>\<open>weights_(1)\<close> to \<^verbatim>\<open>weights_(2 * n_aug_)\<close>.
\<close>

definition fill_weights :: "real \<Rightarrow> nat \<Rightarrow> vec \<Rightarrow> vec" where
  "fill_weights lam naug w =
     fold (\<lambda>i w. w[i := 0.5 / (real naug + lam)]) [1..<2 * naug + 1] w"

text \<open>
  \<^verbatim>\<open>UKF::UKF()\<close>. \<^verbatim>\<open>VectorXd(5)\<close> and \<^verbatim>\<open>MatrixXd(n, m)\<close> leave their coefficients
  uninitialised; they are zero here. The weights are the exact quotients \<open>-4/3\<close> and
  \<open>1/6\<close>; the rounded quotients that the program stores are those of \<open>UKF_new_d\<close>.
\<close>

definition UKF_new :: UKF where
  "UKF_new =
     (let n_x = 5;
          n_aug = 7;
          lam = 3 - real n_aug;
          weight_0 = lam / (lam + real n_aug);
          w = (zero_vec (2 * n_aug + 1))[0 := weight_0]
      in \<lparr> is_initialized_m = False,
           previous_timestamp_m = 0,
           use_laser_m = True,
           use_radar_m = True,
           std_a_m = 0.5,
           std_yawdd_m = 1.0,
           std_laspx_m = 0.15,
           std_laspy_m = 0.15,
           std_radr_m = 0.3,
           std_radphi_m = 0.03,
           std_radrd_m = 0.3,
           n_x_m = n_x,
           n_aug_m = n_aug,
           lambda_m = lam,
           x_m = zero_vec 5,
           P_m = identity_mat 5,
           Xsig_pred_m = zero_mat n_x (2 * n_aug + 1),
           weights_m = fill_weights lam n_aug w,
           time_us_m = 0 \<rparr>)"

subsection \<open>Angle normalization\<close>

text \<open>
  The two loops written at every angle difference:
  \<^verbatim>\<open>while (a > M_PI) a -= 2. * M_PI; while (a < -M_PI) a += 2. * M_PI;\<close>.
  A loop that does not end is the value \<open>None\<close>. On real numbers each iteration moves the
  angle by \<open>2 * pi\<close>; on binary64 numbers it may leave a large angle unchanged, which
  \<open>sub_loop_d\<close> and \<open>add_loop_d\<close> show.
\<close>

partial_function (option) sub_loop :: "real \<Rightarrow> real option" where
  "sub_loop a = (if a > pi then sub_loop (a - 2 * pi) else Some a)"

partial_function (option) add_loop :: "real \<Rightarrow> real option" where
  "add_loop a = (if a < - pi then add_loop (a + 2 * pi) else Some a)"

definition angle_normalization :: "real \<Rightarrow> real option" where
  "angle_normalization a = sub_loop a \<bind> add_loop"

text \<open>The loops run on coefficient \<open>k\<close> of a vector, in place.\<close>

definition normalize_at :: "nat \<Rightarrow> vec \<Rightarrow> vec option" where
  "normalize_at k v = map_option (\<lambda>a. v[k := a]) (angle_normalization (v ! k))"

subsection \<open>Initialization\<close>

text \<open>
  \<^verbatim>\<open>UKF::Initialize\<close>. The last assignment of the laser branch writes \<^verbatim>\<open>x_(2)\<close> a second
  time, as the source does.
\<close>

definition Initialize :: "UKF \<Rightarrow> MeasurementPackage \<Rightarrow> UKF" where
  "Initialize s meas_package =
     (let x0 = zero_vec (length (x_m s));
          raw = raw_measurements_m meas_package;
          x1 = (if sensor_type_m meas_package = RADAR then
                  (let rho = raw ! 0; phi = raw ! 1; rho_dot = raw ! 2
                   in x0[0 := rho * cos phi, 1 := rho * sin phi,
                         2 := rho_dot * cos phi, 3 := rho_dot * sin phi, 4 := 0])
                else if sensor_type_m meas_package = LASER then
                  x0[0 := raw ! 0, 1 := raw ! 1, 2 := 0, 3 := 0, 2 := 0]
                else x0)
      in s\<lparr> x_m := x1,
            previous_timestamp_m := timestamp_m meas_package,
            is_initialized_m := True \<rparr>)"

subsection \<open>Sigma points\<close>

text \<open>
  \<^verbatim>\<open>P_aug.llt().matrixL()\<close>: the lower Cholesky factor, row by row,
  \<open>L i j = (A i j - (\<Sum>k<j. L i k * L j k)) / L j j\<close> below the diagonal and
  \<open>L i i = sqrt (A i i - (\<Sum>k<i. (L i k)\<^sup>2))\<close> on it. Only the lower triangle of \<open>A\<close>
  is read. It is the factor Eigen computes when \<open>A\<close> is positive definite; on any other
  matrix Eigen stops early and leaves the factor unfinished.
\<close>

definition llt_below :: "mat \<Rightarrow> mat \<Rightarrow> nat \<Rightarrow> vec" where
  "llt_below A Ls i =
     fold (\<lambda>j row. row @ [(A ! i ! j - dot row (take j (Ls ! j))) / (Ls ! j ! j)]) [0..<i] []"

definition llt_row :: "mat \<Rightarrow> mat \<Rightarrow> nat \<Rightarrow> vec" where
  "llt_row A Ls i =
     (let row = llt_below A Ls i
      in row @ [sqrt (A ! i ! i - dot row row)] @ replicate (length A - Suc i) 0)"

definition llt_matrixL :: "mat \<Rightarrow> mat" where
  "llt_matrixL A = fold (\<lambda>i Ls. Ls @ [llt_row A Ls i]) [0..<length A] []"

text \<open>\<^verbatim>\<open>UKF::AugmentedSigmaPoints\<close>; the sizes 7 and 5 are literals of the source.\<close>

definition augmented_covariance :: "UKF \<Rightarrow> mat" where
  "augmented_covariance s =
     map (\<lambda>i. map (\<lambda>j. if i < 5 \<and> j < 5 then P_m s ! i ! j
                       else if i = 5 \<and> j = 5 then std_a_m s * std_a_m s
                       else if i = 6 \<and> j = 6 then std_yawdd_m s * std_yawdd_m s
                       else 0) [0..<7]) [0..<7]"

definition AugmentedSigmaPoints :: "UKF \<Rightarrow> mat" where
  "AugmentedSigmaPoints s =
     (let x_aug = take 5 (x_m s) @ [0, 0];
          P_aug = augmented_covariance s;
          L = llt_matrixL P_aug;
          c = sqrt (lambda_m s + real (n_aug_m s));
          cs0 = (replicate (2 * n_aug_m s + 1) (zero_vec (n_aug_m s)))[0 := x_aug];
          cs = fold (\<lambda>i cs. cs[i + 1 := vec_add x_aug (vec_scale c (col L i)),
                                i + 1 + n_aug_m s := vec_sub x_aug (vec_scale c (col L i))])
                 [0..<n_aug_m s] cs0
      in of_cols (n_aug_m s) cs)"

text \<open>
  The body of the loop of \<^verbatim>\<open>UKF::SigmaPointPrediction\<close>: the CTRV motion model on one
  augmented sigma point.
\<close>

definition ctrv :: "real \<Rightarrow> vec \<Rightarrow> vec" where
  "ctrv delta_t c =
     (let p_x = c ! 0; p_y = c ! 1; v = c ! 2; yaw = c ! 3; yawd = c ! 4;
          nu_a = c ! 5; nu_yawdd = c ! 6;
          px_p = (if \<bar>yawd\<bar> > 0.001
                  then p_x + v / yawd * (sin (yaw + yawd * delta_t) - sin yaw)
                  else p_x + v * delta_t * cos yaw);
          py_p = (if \<bar>yawd\<bar> > 0.001
                  then p_y + v / yawd * (cos yaw - cos (yaw + yawd * delta_t))
                  else p_y + v * delta_t * sin yaw);
          v_p = v;
          yaw_p = yaw + yawd * delta_t;
          yawd_p = yawd;
          px_p = px_p + 0.5 * nu_a * delta_t * delta_t * cos yaw;
          py_p = py_p + 0.5 * nu_a * delta_t * delta_t * sin yaw;
          v_p = v_p + nu_a * delta_t;
          yaw_p = yaw_p + 0.5 * nu_yawdd * delta_t * delta_t;
          yawd_p = yawd_p + nu_yawdd * delta_t
      in [px_p, py_p, v_p, yaw_p, yawd_p])"

definition SigmaPointPrediction :: "UKF \<Rightarrow> real \<Rightarrow> mat" where
  "SigmaPointPrediction s delta_t =
     (let Xsig_aug = AugmentedSigmaPoints s
      in of_cols (n_x_m s)
           (map (\<lambda>i. ctrv delta_t (col Xsig_aug i)) [0..<2 * n_aug_m s + 1]))"

subsection \<open>Predicted mean and covariance\<close>

text \<open>
  \<^verbatim>\<open>UKF::PredictMeanAndCovariance\<close>: the two loops over the sigma points. The products of
  the outer product are exact here; with the roundings of binary64 they are those of
  \<open>predicted_covariance_d\<close>.
\<close>

definition predicted_mean :: "UKF \<Rightarrow> vec" where
  "predicted_mean s =
     fold (\<lambda>i x. vec_add x (vec_scale (weights_m s ! i) (col (Xsig_pred_m s) i)))
       [0..<2 * n_aug_m s + 1] (zero_vec (n_x_m s))"

definition predicted_covariance :: "UKF \<Rightarrow> vec \<Rightarrow> mat option" where
  "predicted_covariance s x =
     fold (\<lambda>i Po. do {
             P \<leftarrow> Po;
             x_diff \<leftarrow> normalize_at 3 (vec_sub (col (Xsig_pred_m s) i) x);
             Some (mat_add P (outer (vec_scale (weights_m s ! i) x_diff) x_diff))
           })
       [0..<2 * n_aug_m s + 1] (Some (zero_mat (n_x_m s) (n_x_m s)))"

definition PredictMeanAndCovariance :: "UKF \<Rightarrow> (vec \<times> mat) option" where
  "PredictMeanAndCovariance s =
     (let x = predicted_mean s
      in map_option (\<lambda>P. (x, P)) (predicted_covariance s x))"

text \<open>\<^verbatim>\<open>UKF::Prediction\<close>.\<close>

definition Prediction :: "UKF \<Rightarrow> real \<Rightarrow> UKF option" where
  "Prediction s delta_t =
     (let s1 = s\<lparr> Xsig_pred_m := SigmaPointPrediction s delta_t \<rparr>
      in map_option (\<lambda>(x, P). s1\<lparr> x_m := x, P_m := P \<rparr>) (PredictMeanAndCovariance s1))"

subsection \<open>Measurement update\<close>

text \<open>
  The loop of \<^verbatim>\<open>UKF::UpdateState\<close> that accumulates the cross correlation \<^verbatim>\<open>Tc\<close>. It runs
  the angle normalization on coefficient 1 of the measurement residual and on coefficient 3
  of the state difference, whatever \<^verbatim>\<open>n_z\<close> is.
\<close>

definition cross_correlation :: "UKF \<Rightarrow> nat \<Rightarrow> mat \<Rightarrow> vec \<Rightarrow> mat option" where
  "cross_correlation s n_z Zsig z_pred =
     fold (\<lambda>i Tco. do {
             Tc \<leftarrow> Tco;
             z_diff \<leftarrow> normalize_at 1 (vec_sub (col Zsig i) z_pred);
             x_diff \<leftarrow> normalize_at 3 (vec_sub (col (Xsig_pred_m s) i) (x_m s));
             Some (mat_add Tc (outer (vec_scale (weights_m s ! i) x_diff) z_diff))
           })
       [0..<2 * n_aug_m s + 1] (Some (zero_mat (n_x_m s) n_z))"

text \<open>
  \<^verbatim>\<open>UKF::UpdateState\<close>: the new filter and the returned residual \<^verbatim>\<open>z - z_pred\<close>.
\<close>

definition UpdateState ::
  "UKF \<Rightarrow> nat \<Rightarrow> vec \<Rightarrow> mat \<Rightarrow> mat \<Rightarrow> vec \<Rightarrow> (UKF \<times> vec) option" where
  "UpdateState s n_z z Zsig S z_pred =
     do {
       Tc \<leftarrow> cross_correlation s n_z Zsig z_pred;
       let K = mat_mul Tc (inverse_mat S);
       let z_diff = vec_sub z z_pred;
       Some (s\<lparr> x_m := vec_add (x_m s) (mat_vec K z_diff),
                P_m := mat_sub (P_m s) (mat_mul (mat_mul K S) (transpose_mat K)) \<rparr>,
             z_diff)
     }"

text \<open>
  \<^verbatim>\<open>z_diff.transpose() * S.inverse() * z_diff\<close>, the value of the local variable
  \<^verbatim>\<open>nis\<close> of both update functions.
\<close>

definition nis_value :: "vec \<Rightarrow> mat \<Rightarrow> real" where
  "nis_value z_diff S = dot (mat_vec (transpose_mat (inverse_mat S)) z_diff) z_diff"

text \<open>
  \<^verbatim>\<open>UKF::UpdateLidar\<close>. \<open>UpdateLidar_body\<close> is the body of the function: it ends with the
  filter and the local variable \<^verbatim>\<open>nis\<close>. The function returns \<^verbatim>\<open>void\<close>, so
  \<open>UpdateLidar\<close> keeps the filter only.
\<close>

definition lidar_Zsig :: "UKF \<Rightarrow> mat" where
  "lidar_Zsig s =
     of_cols 2 (map (\<lambda>i. (let px = Xsig_pred_m s ! 0 ! i; py = Xsig_pred_m s ! 1 ! i
                           in [px, py])) [0..<2 * n_aug_m s + 1])"

definition lidar_S :: "UKF \<Rightarrow> mat \<Rightarrow> vec \<Rightarrow> mat" where
  "lidar_S s Zsig z_pred =
     (let S = fold (\<lambda>i S. (let z_diff = vec_sub (col Zsig i) z_pred
                            in mat_add S (outer (vec_scale (weights_m s ! i) z_diff) z_diff)))
                [0..<2 * n_aug_m s + 1] (zero_mat 2 2);
          R = [[std_laspx_m s * std_laspx_m s, 0],
               [0, std_laspy_m s * std_laspy_m s]]
      in mat_add S R)"

definition UpdateLidar_body :: "UKF \<Rightarrow> MeasurementPackage \<Rightarrow> (UKF \<times> real) option" where
  "UpdateLidar_body s meas_package =
     (let n_z = 2;
          z = raw_measurements_m meas_package;
          Zsig = lidar_Zsig s;
          z_pred = mat_vec Zsig (weights_m s);
          S = lidar_S s Zsig z_pred
      in do {
           (s', z_diff) \<leftarrow> UpdateState s n_z z Zsig S z_pred;
           let nis = nis_value z_diff S;
           Some (s', nis)
         })"

definition UpdateLidar :: "UKF \<Rightarrow> MeasurementPackage \<Rightarrow> UKF option" where
  "UpdateLidar s meas_package = map_option fst (UpdateLidar_body s meas_package)"

text \<open>
  \<^verbatim>\<open>atan2\<close> of the C library on real numbers, with \<^verbatim>\<open>atan2(0, 0) = 0\<close>.
\<close>

definition atan2 :: "real \<Rightarrow> real \<Rightarrow> real" where
  "atan2 y x =
     (if x > 0 then arctan (y / x)
      else if x < 0 \<and> y \<ge> 0 then arctan (y / x) + pi
      else if x < 0 \<and> y < 0 then arctan (y / x) - pi
      else if y > 0 then pi / 2
      else if y < 0 then - pi / 2
      else 0)"

text \<open>\<^verbatim>\<open>UKF::UpdateRadar\<close>, split as \<^verbatim>\<open>UpdateLidar\<close> is.\<close>

definition radar_Zsig :: "UKF \<Rightarrow> mat" where
  "radar_Zsig s =
     of_cols 3 (map (\<lambda>i. (let p_x = Xsig_pred_m s ! 0 ! i;
                               p_y = Xsig_pred_m s ! 1 ! i;
                               v = Xsig_pred_m s ! 2 ! i;
                               yaw = Xsig_pred_m s ! 3 ! i;
                               v1 = cos yaw * v;
                               v2 = sin yaw * v
                           in [sqrt (p_x * p_x + p_y * p_y),
                               atan2 p_y p_x,
                               (p_x * v1 + p_y * v2) / sqrt (p_x * p_x + p_y * p_y)]))
                  [0..<2 * n_aug_m s + 1])"

definition radar_S :: "UKF \<Rightarrow> mat \<Rightarrow> vec \<Rightarrow> mat option" where
  "radar_S s Zsig z_pred =
     do {
       S \<leftarrow> fold (\<lambda>i So. do {
                    S \<leftarrow> So;
                    z_diff \<leftarrow> normalize_at 1 (vec_sub (col Zsig i) z_pred);
                    Some (mat_add S (outer (vec_scale (weights_m s ! i) z_diff) z_diff))
                  })
              [0..<2 * n_aug_m s + 1] (Some (zero_mat 3 3));
       let R = [[std_radr_m s * std_radr_m s, 0, 0],
                [0, std_radphi_m s * std_radphi_m s, 0],
                [0, 0, std_radrd_m s * std_radrd_m s]];
       Some (mat_add S R)
     }"

definition UpdateRadar_body :: "UKF \<Rightarrow> MeasurementPackage \<Rightarrow> (UKF \<times> real) option" where
  "UpdateRadar_body s meas_package =
     (let n_z = 3;
          z = raw_measurements_m meas_package;
          Zsig = radar_Zsig s;
          z_pred = mat_vec Zsig (weights_m s)
      in do {
           S \<leftarrow> radar_S s Zsig z_pred;
           (s', z_diff) \<leftarrow> UpdateState s n_z z Zsig S z_pred;
           let nis = nis_value z_diff S;
           Some (s', nis)
         })"

definition UpdateRadar :: "UKF \<Rightarrow> MeasurementPackage \<Rightarrow> UKF option" where
  "UpdateRadar s meas_package = map_option fst (UpdateRadar_body s meas_package)"

subsection \<open>Processing one record\<close>

text \<open>
  \<^verbatim>\<open>UKF::ProcessMeasurement\<close>. \<^verbatim>\<open>use_laser_\<close> and \<^verbatim>\<open>use_radar_\<close> are not read.
\<close>

definition ProcessMeasurement :: "UKF \<Rightarrow> MeasurementPackage \<Rightarrow> UKF option" where
  "ProcessMeasurement s meas_package =
     (if \<not> is_initialized_m s then Some (Initialize s meas_package)
      else
        (let dt = real_of_int (timestamp_m meas_package - previous_timestamp_m s) / 1000000;
             s1 = s\<lparr> previous_timestamp_m := timestamp_m meas_package \<rparr>
         in do {
              s2 \<leftarrow> Prediction s1 dt;
              if sensor_type_m meas_package = RADAR
              then UpdateRadar s2 meas_package
              else UpdateLidar s2 meas_package
            }))"


section \<open>Binary64 arithmetic\<close>

text \<open>
  The definitions above compute with real numbers. Three properties of the filter depend on
  the rounding of \<^verbatim>\<open>double\<close>: the sum of the weights, the end of the angle loops and the
  symmetry of the predicted covariance. For them the same code is read a second time on IEEE 754
  binary64 numbers, with the suffix \<open>_d\<close>.

  A finite \<^verbatim>\<open>double\<close> is the real number it denotes (a dyadic rational). An operation is the exact operation
  followed by rounding to the nearest \<^verbatim>\<open>double\<close>, ties to the even significand, and by
  overflow to an infinity. The two zeros are one value (their sign shows only in a division by
  zero, which the functions read here do not perform on a computed value). The operations are
  compiled one by one: no fused multiply-add and no excess precision.
\<close>

datatype double = Fin real | PInf | NInf | NaN

text \<open>The integer nearest to \<open>y\<close>, the even one of two at the same distance.\<close>

definition round_half_even :: "real \<Rightarrow> int" where
  "round_half_even y =
     (let n = \<lfloor>y\<rfloor>; f = y - of_int n
      in if f < 1 / 2 then n
         else if 1 / 2 < f then n + 1
         else if even n then n else n + 1)"

text \<open>The number of binary digits of \<open>n\<close>.\<close>

fun bit_length :: "nat \<Rightarrow> nat" where
  "bit_length n = (if n = 0 then 0 else Suc (bit_length (n div 2)))"

declare bit_length.simps [simp del]

text \<open>
  The exponent \<open>e\<close> of \<open>x \<noteq> 0\<close>, the integer with \<open>2\<^sup>e \<le> \<bar>x\<bar> < 2\<^sup>e\<^sup>+\<^sup>1\<close>, and the power of two
  with an integer exponent.
\<close>

definition exponent_of :: "real \<Rightarrow> int" where
  "exponent_of x =
     (let a = \<bar>x\<bar>
      in if 1 \<le> a then int (bit_length (nat \<lfloor>a\<rfloor>)) - 1
         else - int (bit_length (nat (\<lceil>1 / a\<rceil> - 1))))"

definition pow2 :: "int \<Rightarrow> real" where
  "pow2 e = (if 0 \<le> e then 2 ^ nat e else 1 / 2 ^ nat (- e))"

text \<open>
  Rounding to binary64: 53 significant bits, the least exponent of a normal number is
  \<open>-1022\<close> (below it the spacing stays \<open>2\<^sup>-\<^sup>1\<^sup>0\<^sup>7\<^sup>4\<close>), and a rounded magnitude of
  \<open>2\<^sup>1\<^sup>0\<^sup>2\<^sup>4\<close> or more is an infinity.
\<close>

definition round_to_double :: "real \<Rightarrow> double" where
  "round_to_double x =
     (if x = 0 then Fin 0
      else
        (let e = max (exponent_of x) (- 1022);
             q = pow2 (e - 52);
             r = of_int (round_half_even (x / q)) * q
         in if pow2 1024 \<le> \<bar>r\<bar> then (if 0 < x then PInf else NInf) else Fin r))"

fun fneg :: "double \<Rightarrow> double" where
  "fneg (Fin a) = Fin (- a)"
| "fneg PInf = NInf"
| "fneg NInf = PInf"
| "fneg NaN = NaN"

fun fadd :: "double \<Rightarrow> double \<Rightarrow> double" where
  "fadd (Fin a) (Fin b) = round_to_double (a + b)"
| "fadd NaN _ = NaN"
| "fadd _ NaN = NaN"
| "fadd PInf NInf = NaN"
| "fadd NInf PInf = NaN"
| "fadd PInf _ = PInf"
| "fadd _ PInf = PInf"
| "fadd NInf _ = NInf"
| "fadd _ NInf = NInf"

definition fsub :: "double \<Rightarrow> double \<Rightarrow> double" where
  "fsub a b = fadd a (fneg b)"

fun fmul :: "double \<Rightarrow> double \<Rightarrow> double" where
  "fmul (Fin a) (Fin b) = round_to_double (a * b)"
| "fmul NaN _ = NaN"
| "fmul _ NaN = NaN"
| "fmul (Fin a) PInf = (if a = 0 then NaN else if 0 < a then PInf else NInf)"
| "fmul (Fin a) NInf = (if a = 0 then NaN else if 0 < a then NInf else PInf)"
| "fmul PInf (Fin b) = (if b = 0 then NaN else if 0 < b then PInf else NInf)"
| "fmul NInf (Fin b) = (if b = 0 then NaN else if 0 < b then NInf else PInf)"
| "fmul PInf PInf = PInf"
| "fmul PInf NInf = NInf"
| "fmul NInf PInf = NInf"
| "fmul NInf NInf = PInf"

text \<open>A division by zero takes the zero as positive.\<close>

fun fdiv :: "double \<Rightarrow> double \<Rightarrow> double" where
  "fdiv (Fin a) (Fin b) =
     (if b = 0 then (if a = 0 then NaN else if 0 < a then PInf else NInf)
      else round_to_double (a / b))"
| "fdiv NaN _ = NaN"
| "fdiv _ NaN = NaN"
| "fdiv (Fin a) _ = Fin 0"
| "fdiv PInf (Fin b) = (if 0 \<le> b then PInf else NInf)"
| "fdiv NInf (Fin b) = (if 0 \<le> b then NInf else PInf)"
| "fdiv _ _ = NaN"

text \<open>\<^verbatim>\<open>a < b\<close> and \<^verbatim>\<open>a > b\<close>: false as soon as one side is not a number.\<close>

fun flt :: "double \<Rightarrow> double \<Rightarrow> bool" where
  "flt (Fin a) (Fin b) = (a < b)"
| "flt NaN _ = False"
| "flt _ NaN = False"
| "flt _ NInf = False"
| "flt NInf _ = True"
| "flt PInf _ = False"
| "flt _ PInf = True"

definition fgt :: "double \<Rightarrow> double \<Rightarrow> bool" where
  "fgt a b = flt b a"

text \<open>The conversion of an \<^verbatim>\<open>int\<close> to \<^verbatim>\<open>double\<close>.\<close>

definition double_of_int :: "int \<Rightarrow> double" where
  "double_of_int n = round_to_double (of_int n)"

text \<open>
  \<^verbatim>\<open>M_PI\<close> is a macro of the C library's \<^verbatim>\<open>math.h\<close>, the decimal literal
  \<^verbatim>\<open>3.14159265358979323846\<close>; the compiler rounds it to binary64.
\<close>

definition M_PI :: double where
  "M_PI = round_to_double (314159265358979323846 / 10 ^ 20)"

subsection \<open>Angle normalization on binary64\<close>

text \<open>
  \<^verbatim>\<open>while (a > M_PI) a -= 2. * M_PI;\<close> and \<^verbatim>\<open>while (a < -M_PI) a += 2. * M_PI;\<close>
\<close>

partial_function (option) sub_loop_d :: "double \<Rightarrow> double option" where
  "sub_loop_d a = (if fgt a M_PI then sub_loop_d (fsub a (fmul (Fin 2) M_PI)) else Some a)"

partial_function (option) add_loop_d :: "double \<Rightarrow> double option" where
  "add_loop_d a =
     (if flt a (fneg M_PI) then add_loop_d (fadd a (fmul (Fin 2) M_PI)) else Some a)"

definition angle_normalization_d :: "double \<Rightarrow> double option" where
  "angle_normalization_d a = sub_loop_d a \<bind> add_loop_d"

type_synonym dvec = "double list"
type_synonym dmat = "double list list"

definition normalize_at_d :: "nat \<Rightarrow> dvec \<Rightarrow> dvec option" where
  "normalize_at_d k v = map_option (\<lambda>a. v[k := a]) (angle_normalization_d (v ! k))"

subsection \<open>The weights and the accumulation loops on binary64\<close>

definition dzero_vec :: "nat \<Rightarrow> dvec" where
  "dzero_vec n = replicate n (Fin 0)"

definition dzero_mat :: "nat \<Rightarrow> nat \<Rightarrow> dmat" where
  "dzero_mat r c = replicate r (replicate c (Fin 0))"

definition dvec_add :: "dvec \<Rightarrow> dvec \<Rightarrow> dvec" where
  "dvec_add u v = map2 fadd u v"

definition dvec_sub :: "dvec \<Rightarrow> dvec \<Rightarrow> dvec" where
  "dvec_sub u v = map2 fsub u v"

definition dvec_scale :: "double \<Rightarrow> dvec \<Rightarrow> dvec" where
  "dvec_scale c v = map (fmul c) v"

definition dmat_add :: "dmat \<Rightarrow> dmat \<Rightarrow> dmat" where
  "dmat_add A B = map2 dvec_add A B"

definition dcol :: "dmat \<Rightarrow> nat \<Rightarrow> dvec" where
  "dcol M j = map (\<lambda>r. r ! j) M"

definition dtranspose :: "dmat \<Rightarrow> dmat" where
  "dtranspose M = map (dcol M) [0..<(case M of [] \<Rightarrow> 0 | r # _ \<Rightarrow> length r)]"

text \<open>
  \<^verbatim>\<open>u * v.transpose()\<close>, one rounded product for each coefficient. In
  \<^verbatim>\<open>weights_(i) * x_diff * x_diff.transpose()\<close> the left factor \<^verbatim>\<open>weights_(i) * x_diff\<close>
  is evaluated first, so coefficient \<open>(r, c)\<close> is \<open>(w * d\<^sub>r) * d\<^sub>c\<close> with two roundings.
\<close>

definition douter :: "dvec \<Rightarrow> dvec \<Rightarrow> dmat" where
  "douter u v = map (\<lambda>a. map (\<lambda>b. fmul a b) v) u"

text \<open>
  The members that the constructor's weight loop and the accumulation loops read or write.
\<close>

record UKF_d =
  n_x_d :: nat
  n_aug_d :: nat
  lambda_d :: double
  std_radr_d :: double
  std_radphi_d :: double
  std_radrd_d :: double
  x_d :: dvec
  Xsig_pred_d :: dmat
  weights_d :: dvec

definition fill_weights_d :: "double \<Rightarrow> nat \<Rightarrow> dvec \<Rightarrow> dvec" where
  "fill_weights_d lam naug w =
     fold (\<lambda>i w. w[i := fdiv (Fin (1 / 2)) (fadd (double_of_int (int naug)) lam)])
       [1..<2 * naug + 1] w"

text \<open>
  \<^verbatim>\<open>UKF::UKF()\<close>: \<^verbatim>\<open>3 - n_aug_\<close> is a subtraction of integers, converted to
  \<^verbatim>\<open>double\<close> by the assignment; the decimal literals are rounded by the compiler.
\<close>

definition UKF_new_d :: UKF_d where
  "UKF_new_d =
     (let n_x = 5;
          n_aug = 7;
          lam = double_of_int (3 - int n_aug);
          weight_0 = fdiv lam (fadd lam (double_of_int (int n_aug)));
          w = (dzero_vec (2 * n_aug + 1))[0 := weight_0]
      in \<lparr> n_x_d = n_x,
           n_aug_d = n_aug,
           lambda_d = lam,
           std_radr_d = round_to_double (3 / 10),
           std_radphi_d = round_to_double (3 / 100),
           std_radrd_d = round_to_double (3 / 10),
           x_d = dzero_vec 5,
           Xsig_pred_d = dzero_mat n_x (2 * n_aug + 1),
           weights_d = fill_weights_d lam n_aug w \<rparr>)"

text \<open>The two loops of \<^verbatim>\<open>UKF::PredictMeanAndCovariance\<close>.\<close>

definition predicted_mean_d :: "UKF_d \<Rightarrow> dvec" where
  "predicted_mean_d s =
     fold (\<lambda>i x. dvec_add x (dvec_scale (weights_d s ! i) (dcol (Xsig_pred_d s) i)))
       [0..<2 * n_aug_d s + 1] (dzero_vec (n_x_d s))"

definition predicted_covariance_d :: "UKF_d \<Rightarrow> dvec \<Rightarrow> dmat option" where
  "predicted_covariance_d s x =
     fold (\<lambda>i Po. do {
             P \<leftarrow> Po;
             x_diff \<leftarrow> normalize_at_d 3 (dvec_sub (dcol (Xsig_pred_d s) i) x);
             Some (dmat_add P (douter (dvec_scale (weights_d s ! i) x_diff) x_diff))
           })
       [0..<2 * n_aug_d s + 1] (Some (dzero_mat (n_x_d s) (n_x_d s)))"

definition PredictMeanAndCovariance_d :: "UKF_d \<Rightarrow> (dvec \<times> dmat) option" where
  "PredictMeanAndCovariance_d s =
     (let x = predicted_mean_d s
      in map_option (\<lambda>P. (x, P)) (predicted_covariance_d s x))"

text \<open>The loop of \<^verbatim>\<open>UKF::UpdateRadar\<close> that accumulates \<^verbatim>\<open>S\<close>, and the addition of \<^verbatim>\<open>R\<close>.\<close>

definition radar_S_d :: "UKF_d \<Rightarrow> dmat \<Rightarrow> dvec \<Rightarrow> dmat option" where
  "radar_S_d s Zsig z_pred =
     do {
       S \<leftarrow> fold (\<lambda>i So. do {
                    S \<leftarrow> So;
                    z_diff \<leftarrow> normalize_at_d 1 (dvec_sub (dcol Zsig i) z_pred);
                    Some (dmat_add S (douter (dvec_scale (weights_d s ! i) z_diff) z_diff))
                  })
              [0..<2 * n_aug_d s + 1] (Some (dzero_mat 3 3));
       let R = [[fmul (std_radr_d s) (std_radr_d s), Fin 0, Fin 0],
                [Fin 0, fmul (std_radphi_d s) (std_radphi_d s), Fin 0],
                [Fin 0, Fin 0, fmul (std_radrd_d s) (std_radrd_d s)]];
       Some (dmat_add S R)
     }"

text \<open>The loop of \<^verbatim>\<open>UKF::UpdateState\<close> that accumulates \<^verbatim>\<open>Tc\<close>.\<close>

definition cross_correlation_d :: "UKF_d \<Rightarrow> nat \<Rightarrow> dmat \<Rightarrow> dvec \<Rightarrow> dmat option" where
  "cross_correlation_d s n_z Zsig z_pred =
     fold (\<lambda>i Tco. do {
             Tc \<leftarrow> Tco;
             z_diff \<leftarrow> normalize_at_d 1 (dvec_sub (dcol Zsig i) z_pred);
             x_diff \<leftarrow> normalize_at_d 3 (dvec_sub (dcol (Xsig_pred_d s) i) (x_d s));
             Some (dmat_add Tc (douter (dvec_scale (weights_d s ! i) x_diff) z_diff))
           })
       [0..<2 * n_aug_d s + 1] (Some (dzero_mat (n_x_d s) n_z))"

text \<open>
  The angles on which both loops end: every finite angle of magnitude at most \<open>2\<^sup>5\<^sup>6\<close>, and
  \<^verbatim>\<open>NaN\<close>, on which both loop conditions are false.
\<close>

definition angle_in_range :: "double \<Rightarrow> bool" where
  "angle_in_range a = (case a of Fin v \<Rightarrow> \<bar>v\<bar> \<le> 2 ^ 56 | NaN \<Rightarrow> True | _ \<Rightarrow> False)"

text \<open>The real number that a finite \<^verbatim>\<open>double\<close> denotes.\<close>

fun fin_value :: "double \<Rightarrow> real" where
  "fin_value (Fin v) = v"
| "fin_value _ = 0"

text \<open>A finite \<^verbatim>\<open>double\<close> of magnitude at most \<open>M\<close>.\<close>

definition bounded_by :: "real \<Rightarrow> double \<Rightarrow> bool" where
  "bounded_by M a = (case a of Fin v \<Rightarrow> \<bar>v\<bar> \<le> M | _ \<Rightarrow> False)"

text \<open>
  The weighted sum that the covariance loop rounds: the sum over the sigma points of
  \<open>w\<^sub>i * (d\<^sub>i)\<^sub>r * (d\<^sub>i)\<^sub>c\<close>, where \<open>d\<^sub>i\<close> is the state difference that the loop computes
  for sigma point \<open>i\<close> (rounded subtraction, yaw normalized), the products and the sum
  being those of the real numbers. It is the same for \<open>(r, c)\<close> and \<open>(c, r)\<close>.
\<close>

definition covariance_sum :: "UKF_d \<Rightarrow> dvec \<Rightarrow> nat \<Rightarrow> nat \<Rightarrow> real" where
  "covariance_sum s x r c =
     sum_list (map (\<lambda>i. (let d = the (normalize_at_d 3 (dvec_sub (dcol (Xsig_pred_d s) i) x))
                          in fin_value (weights_d s ! i) * fin_value (d ! r) * fin_value (d ! c)))
                [0..<2 * n_aug_d s + 1])"
section \<open>Properties of matrices used in the statements\<close>

text \<open>
  A matrix is symmetric when it equals its transpose. \<open>square_sym\<close> says the same
  coefficient by coefficient, for a square matrix; it is the invariant of the loops that
  add up outer products.
\<close>

definition symmetric_mat :: "mat \<Rightarrow> bool" where
  "symmetric_mat P \<longleftrightarrow> transpose_mat P = P"

definition square_sym :: "mat \<Rightarrow> bool" where
  "square_sym P \<longleftrightarrow> (\<forall>r\<in>set P. length r = length P) \<and>
     (\<forall>i<length P. \<forall>j<length P. P ! i ! j = P ! j ! i)"

text \<open>
  Positive semi-definite and positive definite, by the quadratic form \<open>v\<^sup>T P v\<close>.
\<close>

definition quad_form :: "mat \<Rightarrow> vec \<Rightarrow> real" where
  "quad_form P v = dot v (mat_vec P v)"

definition psd :: "mat \<Rightarrow> bool" where
  "psd P \<longleftrightarrow> (\<forall>v. length v = length P \<longrightarrow> 0 \<le> quad_form P v)"

definition pos_def :: "mat \<Rightarrow> bool" where
  "pos_def P \<longleftrightarrow>
     (\<forall>v. length v = length P \<and> v \<noteq> zero_vec (length P) \<longrightarrow> 0 < quad_form P v)"

section \<open>Concrete filters and records\<close>

text \<open>A filter with other values of \<^verbatim>\<open>use_laser_\<close> and \<^verbatim>\<open>use_radar_\<close>.\<close>

definition with_flags :: "bool \<Rightarrow> bool \<Rightarrow> UKF \<Rightarrow> UKF" where
  "with_flags a b s = s\<lparr> use_laser_m := a, use_radar_m := b \<rparr>"

text \<open>
  A filter constructed, its \<^verbatim>\<open>use_laser_\<close> member set to \<open>b\<close>, that has processed a first
  laser record \<open>(p, q)\<close> with time stamp \<open>t\<close>; and a second laser record \<open>(2, 1)\<close>.
\<close>

definition laser_started :: "bool \<Rightarrow> int \<Rightarrow> real \<Rightarrow> real \<Rightarrow> UKF" where
  "laser_started b t p q =
     Initialize (UKF_new\<lparr> use_laser_m := b \<rparr>)
       \<lparr> timestamp_m = t, sensor_type_m = LASER, raw_measurements_m = [p, q] \<rparr>"

definition laser_record :: "int \<Rightarrow> MeasurementPackage" where
  "laser_record t = \<lparr> timestamp_m = t, sensor_type_m = LASER, raw_measurements_m = [2, 1] \<rparr>"

text \<open>
  The values the filter computes from that start for a time step \<open>d\<close> of one second forwards
  or backwards (the last one for \<open>p = q = 1\<close>): the predicted sigma points, their image in the measurement space of the laser,
  the predicted covariance and the covariance after the update with the second record.
\<close>

definition ex_Xsig_pred :: "real \<Rightarrow> real \<Rightarrow> real \<Rightarrow> mat" where
  "ex_Xsig_pred p q d =
     [[p, p + sqrt 3, p, p + sqrt 3 * d, p, p, p + sqrt 3 / 4, p,
       p - sqrt 3, p, p - sqrt 3 * d, p, p, p - sqrt 3 / 4, p],
      [q, q, q + sqrt 3, q, q, q, q, q, q, q - sqrt 3, q, q, q, q, q],
      [0, 0, 0, sqrt 3, 0, 0, sqrt 3 / 2 * d, 0,
       0, 0, - sqrt 3, 0, 0, - (sqrt 3 / 2 * d), 0],
      [0, 0, 0, 0, sqrt 3, sqrt 3 * d, 0, sqrt 3 / 2,
       0, 0, 0, - sqrt 3, - sqrt 3 * d, 0, - (sqrt 3 / 2)],
      [0, 0, 0, 0, 0, sqrt 3, 0, sqrt 3 * d,
       0, 0, 0, 0, - sqrt 3, 0, - sqrt 3 * d]]"

definition ex_Zsig :: "real \<Rightarrow> real \<Rightarrow> real \<Rightarrow> mat" where
  "ex_Zsig p q d =
     [[p, p + sqrt 3, p, p + sqrt 3 * d, p, p, p + sqrt 3 / 4, p,
       p - sqrt 3, p, p - sqrt 3 * d, p, p, p - sqrt 3 / 4, p],
      [q, q, q + sqrt 3, q, q, q, q, q, q, q - sqrt 3, q, q, q, q, q]]"

definition ex_P_pred :: "real \<Rightarrow> mat" where
  "ex_P_pred d =
     [[33 / 16, 0, 9 / 8 * d, 0, 0],
      [0, 1, 0, 0, 0],
      [9 / 8 * d, 0, 5 / 4, 0, 0],
      [0, 0, 0, 9 / 4, 3 / 2 * d],
      [0, 0, 0, 3 / 2 * d, 2]]"

definition ex_P_upd :: "real \<Rightarrow> mat" where
  "ex_P_upd d =
     [[99 / 4448, 0, 27 / 2224 * d, 0, 0],
      [0, 9 / 409, 0, 0, 0],
      [27 / 2224 * d, 0, 715 / 1112, 0, 0],
      [0, 0, 0, 9 / 4, 3 / 2 * d],
      [0, 0, 0, 3 / 2 * d, 2]]"

text \<open>
  A symmetric positive definite covariance and a filter that holds it, with speed 3.
\<close>

definition P7 :: mat where
  "P7 = [[3 / 4, 0, 0, 1, 0],
         [0, 3 / 4, 0, 1, 0],
         [0, 0, 3 / 4, 1, 0],
         [1, 1, 1, 16 / 3, 0],
         [0, 0, 0, 0, 1 / 12000000]]"

definition s7 :: UKF where
  "s7 = UKF_new\<lparr> is_initialized_m := True, x_m := [0, 0, 3, 0, 0], P_m := P7 \<rparr>"

text \<open>The sigma points that filter predicts for a time step of one second.\<close>

definition ex7_Xsig_pred :: mat where
  "ex7_Xsig_pred =
     [[3, 3 / 2 + 3 * cos 2, 3 * cos 2, 9 * cos 2 / 2, 3 * cos 2, 3, 3 + sqrt 3 / 4, 3,
       3 * cos 2 - 3 / 2, 3 * cos 2, 3 * cos 2 / 2, 3 * cos 2, 3, 3 - sqrt 3 / 4, 3],
      [0, 3 * sin 2, 3 / 2 + 3 * sin 2, 9 * sin 2 / 2, 3 * sin 2, 0, 0, 0,
       - (3 * sin 2), - (3 / 2) - 3 * sin 2, - (3 * sin 2 / 2), - (3 * sin 2), 0, 0, 0],
      [3, 3, 3, 9 / 2, 3, 3, 3 + sqrt 3 / 2, 3,
       3, 3, 3 / 2, 3, 3, 3 - sqrt 3 / 2, 3],
      [0, 2, 2, 2, 2, 1 / 2000, 0, sqrt 3 / 2,
       - 2, - 2, - 2, - 2, - (1 / 2000), 0, - (sqrt 3 / 2)],
      [0, 0, 0, 0, 0, 1 / 2000, 0, sqrt 3,
       0, 0, 0, 0, - (1 / 2000), 0, - sqrt 3]]"

text \<open>
  A constructed filter that is tracking, with the given state, covariance and predicted
  sigma points.
\<close>

definition tracking :: "vec \<Rightarrow> mat \<Rightarrow> mat \<Rightarrow> UKF" where
  "tracking x P X = UKF_new\<lparr> is_initialized_m := True, x_m := x, P_m := P, Xsig_pred_m := X \<rparr>"

text \<open>
  Predicted sigma points around the state \<open>[0, 0, 0, 3, 0]\<close> that spread along one direction,
  \<open>px\<close> and yaw together (columns 1 and 8), with their image in the measurement space of the
  laser and the covariance they give.
\<close>

definition ex2_Xsig_pred :: mat where
  "ex2_Xsig_pred =
     [[0, 1, 0, 0, 0, 0, 0, 0, - 1, 0, 0, 0, 0, 0, 0],
      [0, 0, 0, 0, 0, 0, 0, 0, 0, 0, 0, 0, 0, 0, 0],
      [0, 0, 0, 0, 0, 0, 0, 0, 0, 0, 0, 0, 0, 0, 0],
      [3, 4, 3, 3, 3, 3, 3, 3, 2, 3, 3, 3, 3, 3, 3],
      [0, 0, 0, 0, 0, 0, 0, 0, 0, 0, 0, 0, 0, 0, 0]]"

definition ex2_Zsig :: mat where
  "ex2_Zsig =
     [[0, 1, 0, 0, 0, 0, 0, 0, - 1, 0, 0, 0, 0, 0, 0],
      [0, 0, 0, 0, 0, 0, 0, 0, 0, 0, 0, 0, 0, 0, 0]]"

definition ex2_P :: mat where
  "ex2_P =
     [[1 / 3, 0, 0, 1 / 3, 0],
      [0, 0, 0, 0, 0],
      [0, 0, 0, 0, 0],
      [1 / 3, 0, 0, 1 / 3, 0],
      [0, 0, 0, 0, 0]]"

definition ex2_filter :: UKF where
  "ex2_filter = tracking [0, 0, 0, 3, 0] ex2_P ex2_Xsig_pred"

text \<open>
  A filter that has processed a first radar record with range 1, bearing \<open>pi / 2\<close> and range
  rate \<open>pi / 2\<close> at time 0: it stores the position \<open>(0, 1)\<close>, the speed 0 and the yaw
  \<open>pi / 2\<close>. The sigma points it predicts for a time step of 2.5 seconds, their image in the
  measurement space of the laser, and the filter after that prediction, with the predicted
  covariance \<open>P\<close>.
\<close>

definition radar_started :: UKF where
  "radar_started =
     Initialize UKF_new
       \<lparr> timestamp_m = 0, sensor_type_m = RADAR, raw_measurements_m = [1, pi / 2, pi / 2] \<rparr>"

definition ex3_Xsig_pred :: mat where
  "ex3_Xsig_pred =
    [[0, sqrt 3, 0, 0, 0, 0, 0, 0, - sqrt 3, 0, 0, 0, 0, 0, 0],
     [1, 1, 1 + sqrt 3, 1 + sqrt 3 * 5 / 2, 1, 1, 1 + 25 * sqrt 3 / 16, 1,
      1, 1 - sqrt 3, 1 - sqrt 3 * 5 / 2, 1, 1, 1 - 25 * sqrt 3 / 16, 1],
     [0, 0, 0, sqrt 3, 0, 0, sqrt 3 * 5 / 4, 0,
      0, 0, - sqrt 3, 0, 0, - (sqrt 3 * 5 / 4), 0],
     [pi / 2, pi / 2, pi / 2, pi / 2, pi / 2 + sqrt 3, pi / 2 + sqrt 3 * 5 / 2, pi / 2,
      pi / 2 + 25 * sqrt 3 / 8,
      pi / 2, pi / 2, pi / 2, pi / 2 - sqrt 3, pi / 2 - sqrt 3 * 5 / 2, pi / 2,
      pi / 2 - 25 * sqrt 3 / 8],
     [0, 0, 0, 0, 0, sqrt 3, 0, sqrt 3 * 5 / 2,
      0, 0, 0, 0, - sqrt 3, 0, - (sqrt 3 * 5 / 2)]]"

definition ex3_Zsig :: mat where
  "ex3_Zsig =
    [[0, sqrt 3, 0, 0, 0, 0, 0, 0, - sqrt 3, 0, 0, 0, 0, 0, 0],
     [1, 1, 1 + sqrt 3, 1 + sqrt 3 * 5 / 2, 1, 1, 1 + 25 * sqrt 3 / 16, 1,
      1, 1 - sqrt 3, 1 - sqrt 3 * 5 / 2, 1, 1, 1 - 25 * sqrt 3 / 16, 1]]"

definition ex3_filter :: "mat \<Rightarrow> UKF" where
  "ex3_filter P =
     radar_started
       \<lparr> previous_timestamp_m := 2500000, Xsig_pred_m := ex3_Xsig_pred,
          x_m := [0, 1, 0, pi / 2, 0], P_m := P \<rparr>"

text \<open>
  Predicted sigma points that all lie on the state \<open>[1, 1, 0, 0, 0]\<close>, with their image in
  the measurement space of the laser and the covariance they give; and a laser record
  \<open>(a, b)\<close>.
\<close>

definition ex9_Xsig_pred :: mat where
  "ex9_Xsig_pred =
     [[1, 1, 1, 1, 1, 1, 1, 1, 1, 1, 1, 1, 1, 1, 1],
      [1, 1, 1, 1, 1, 1, 1, 1, 1, 1, 1, 1, 1, 1, 1],
      [0, 0, 0, 0, 0, 0, 0, 0, 0, 0, 0, 0, 0, 0, 0],
      [0, 0, 0, 0, 0, 0, 0, 0, 0, 0, 0, 0, 0, 0, 0],
      [0, 0, 0, 0, 0, 0, 0, 0, 0, 0, 0, 0, 0, 0, 0]]"

definition ex9_Zsig :: mat where
  "ex9_Zsig =
     [[1, 1, 1, 1, 1, 1, 1, 1, 1, 1, 1, 1, 1, 1, 1],
      [1, 1, 1, 1, 1, 1, 1, 1, 1, 1, 1, 1, 1, 1, 1]]"

definition ex9_P :: mat where
  "ex9_P =
     [[0, 0, 0, 0, 0],
      [0, 0, 0, 0, 0],
      [0, 0, 0, 0, 0],
      [0, 0, 0, 0, 0],
      [0, 0, 0, 0, 0]]"

definition ex9_filter :: UKF where
  "ex9_filter = tracking [1, 1, 0, 0, 0] ex9_P ex9_Xsig_pred"

definition laser_at :: "real \<Rightarrow> real \<Rightarrow> MeasurementPackage" where
  "laser_at a b = \<lparr> timestamp_m = 0, sensor_type_m = LASER, raw_measurements_m = [a, b] \<rparr>"

text \<open>
  The filter that has processed a first laser record \<open>(-1, 0)\<close> at time 0 and has predicted
  one second ahead, and a radar record \<open>(1, -3, 0)\<close> at that time: a target just below the
  negative \<open>x\<close> axis.
\<close>

definition ex6_filter :: UKF where
  "ex6_filter =
     (laser_started True 0 (- 1) 0)
       \<lparr> previous_timestamp_m := 1000000, Xsig_pred_m := ex_Xsig_pred (- 1) 0 1,
          x_m := [- 1, 0, 0, 0, 0], P_m := ex_P_pred 1 \<rparr>"

definition ex6_record :: MeasurementPackage where
  "ex6_record =
     \<lparr> timestamp_m = 1000000, sensor_type_m = RADAR, raw_measurements_m = [1, - 3, 0] \<rparr>"

text \<open>
  The image of its sigma points in the measurement space of the radar (range, bearing and
  range rate), and the predicted measurement.
\<close>

definition ex6_Zsig :: mat where
  "ex6_Zsig =
     [[1, sqrt 3 - 1, 2, sqrt 3 - 1, 1, 1, 1 - sqrt 3 / 4, 1,
       1 + sqrt 3, 2, 1 + sqrt 3, 1, 1, 1 + sqrt 3 / 4, 1],
      [pi, 0, 2 * pi / 3, 0, pi, pi, pi, pi,
       pi, - (2 * pi / 3), pi, pi, pi, pi, pi],
      [0, 0, 0, sqrt 3, 0, 0, - (sqrt 3 / 2), 0,
       0, 0, sqrt 3, 0, 0, sqrt 3 / 2, 0]]"

definition ex6_z_pred :: vec where
  "ex6_z_pred = [2 / 3 + 2 * sqrt 3 / 3, pi / 3, sqrt 3 / 3]"


text \<open>
  A filter whose predicted sigma points all have the yaw 10 and the state zero, and sigma
  points of a radar measurement that are all zero.
\<close>

definition ex10_filter :: UKF_d where
  "ex10_filter =
     UKF_new_d\<lparr> Xsig_pred_d := [replicate 15 (Fin 0), replicate 15 (Fin 0), replicate 15 (Fin 0),
                                 replicate 15 (Fin 10), replicate 15 (Fin 0)] \<rparr>"

definition ex10_Zsig :: dmat where
  "ex10_Zsig = [replicate 15 (Fin 0), replicate 15 (Fin 0), replicate 15 (Fin 0)]"

text \<open>The same filter with the yaw \<open>10\<^sup>1\<^sup>7\<close> in every predicted sigma point.\<close>

definition ex17_filter :: UKF_d where
  "ex17_filter =
     UKF_new_d\<lparr> Xsig_pred_d := [replicate 15 (Fin 0), replicate 15 (Fin 0), replicate 15 (Fin 0),
                                 replicate 15 (Fin (10 ^ 17)), replicate 15 (Fin 0)] \<rparr>"

text \<open>
  The constructed filter with predicted sigma points that are zero but for the pair of
  columns 1 and 8, which are \<open>(3, 0, 7, 0, 0)\<close> and \<open>(-3, 0, -7, 0, 0)\<close>.
\<close>

definition ex_pair_filter :: UKF_d where
  "ex_pair_filter =
     UKF_new_d\<lparr> Xsig_pred_d :=
       [[Fin 0, Fin 3, Fin 0, Fin 0, Fin 0, Fin 0, Fin 0, Fin 0,
         Fin (- 3), Fin 0, Fin 0, Fin 0, Fin 0, Fin 0, Fin 0],
        [Fin 0, Fin 0, Fin 0, Fin 0, Fin 0, Fin 0, Fin 0, Fin 0,
         Fin 0, Fin 0, Fin 0, Fin 0, Fin 0, Fin 0, Fin 0],
        [Fin 0, Fin 7, Fin 0, Fin 0, Fin 0, Fin 0, Fin 0, Fin 0,
         Fin (- 7), Fin 0, Fin 0, Fin 0, Fin 0, Fin 0, Fin 0],
        [Fin 0, Fin 0, Fin 0, Fin 0, Fin 0, Fin 0, Fin 0, Fin 0,
         Fin 0, Fin 0, Fin 0, Fin 0, Fin 0, Fin 0, Fin 0],
        [Fin 0, Fin 0, Fin 0, Fin 0, Fin 0, Fin 0, Fin 0, Fin 0,
         Fin 0, Fin 0, Fin 0, Fin 0, Fin 0, Fin 0, Fin 0]] \<rparr>"

definition ex_pair_P :: dmat where
  "ex_pair_P =
     [[Fin 3, Fin 0, Fin 7, Fin 0, Fin 0],
      [Fin 0, Fin 0, Fin 0, Fin 0, Fin 0],
      [Fin (7 - 1 / 2 ^ 50), Fin 0, Fin (4597424619607381 / 2 ^ 48), Fin 0, Fin 0],
      [Fin 0, Fin 0, Fin 0, Fin 0, Fin 0],
      [Fin 0, Fin 0, Fin 0, Fin 0, Fin 0]]"
section \<open>The angle loops on real numbers\<close>

lemma sub_loop_bounded:
  "a \<le> pi + 2 * pi * real n \<Longrightarrow>
     \<exists>k\<le>n. sub_loop a = Some (a - 2 * pi * real k) \<and> a - 2 * pi * real k \<le> pi
            \<and> (\<forall>j<k. a - 2 * pi * real j > pi)"
proof (induction n arbitrary: a)
  case 0
  then have "sub_loop a = Some a" by (subst sub_loop.simps) simp
  with 0 show ?case by simp
next
  case (Suc n)
  show ?case
  proof (cases "a > pi")
    case False
    then have "sub_loop a = Some a" by (subst sub_loop.simps) simp
    with False show ?thesis by (intro exI[of _ 0]) simp
  next
    case True
    from Suc.prems have "a - 2 * pi \<le> pi + 2 * pi * real n" by (simp add: algebra_simps)
    from Suc.IH[OF this] obtain k where k: "k \<le> n"
      "sub_loop (a - 2 * pi) = Some (a - 2 * pi - 2 * pi * real k)"
      "a - 2 * pi - 2 * pi * real k \<le> pi"
      "\<forall>j<k. a - 2 * pi - 2 * pi * real j > pi" by blast
    have s: "sub_loop a = sub_loop (a - 2 * pi)" using True by (subst sub_loop.simps) simp
    have "\<forall>j<Suc k. a - 2 * pi * real j > pi"
    proof (intro allI impI)
      fix j assume "j < Suc k"
      show "a - 2 * pi * real j > pi"
      proof (cases j)
        case 0 then show ?thesis using True by simp
      next
        case (Suc j')
        with \<open>j < Suc k\<close> have "j' < k" by simp
        with k(4) have "a - 2 * pi - 2 * pi * real j' > pi" by blast
        then show ?thesis using Suc by (simp add: algebra_simps)
      qed
    qed
    with k s show ?thesis
      by (intro exI[of _ "Suc k"]) (simp add: algebra_simps)
  qed
qed

lemma sub_loop_terminates:
  "\<exists>k. sub_loop a = Some (a - 2 * pi * real k) \<and> a - 2 * pi * real k \<le> pi
       \<and> (\<forall>j<k. a - 2 * pi * real j > pi)"
proof -
  obtain n :: nat where "(a - pi) / (2 * pi) \<le> real n" using real_arch_simple by blast
  then have "a \<le> pi + 2 * pi * real n" by (simp add: field_simps)
  from sub_loop_bounded[OF this] show ?thesis by blast
qed

lemma add_loop_bounded:
  "- pi - 2 * pi * real n \<le> a \<Longrightarrow>
     \<exists>k\<le>n. add_loop a = Some (a + 2 * pi * real k) \<and> - pi \<le> a + 2 * pi * real k
            \<and> (\<forall>j<k. a + 2 * pi * real j < - pi)"
proof (induction n arbitrary: a)
  case 0
  then have "add_loop a = Some a" by (subst add_loop.simps) simp
  with 0 show ?case by simp
next
  case (Suc n)
  show ?case
  proof (cases "a < - pi")
    case False
    then have "add_loop a = Some a" by (subst add_loop.simps) simp
    with False show ?thesis by (intro exI[of _ 0]) simp
  next
    case True
    from Suc.prems have "- pi - 2 * pi * real n \<le> a + 2 * pi" by (simp add: algebra_simps)
    from Suc.IH[OF this] obtain k where k: "k \<le> n"
      "add_loop (a + 2 * pi) = Some (a + 2 * pi + 2 * pi * real k)"
      "- pi \<le> a + 2 * pi + 2 * pi * real k"
      "\<forall>j<k. a + 2 * pi + 2 * pi * real j < - pi" by blast
    have s: "add_loop a = add_loop (a + 2 * pi)" using True by (subst add_loop.simps) simp
    have "\<forall>j<Suc k. a + 2 * pi * real j < - pi"
    proof (intro allI impI)
      fix j assume "j < Suc k"
      show "a + 2 * pi * real j < - pi"
      proof (cases j)
        case 0 then show ?thesis using True by simp
      next
        case (Suc j')
        with \<open>j < Suc k\<close> have "j' < k" by simp
        with k(4) have "a + 2 * pi + 2 * pi * real j' < - pi" by blast
        then show ?thesis using Suc by (simp add: algebra_simps)
      qed
    qed
    with k s show ?thesis
      by (intro exI[of _ "Suc k"]) (simp add: algebra_simps)
  qed
qed

lemma add_loop_terminates:
  "\<exists>k. add_loop a = Some (a + 2 * pi * real k) \<and> - pi \<le> a + 2 * pi * real k
       \<and> (\<forall>j<k. a + 2 * pi * real j < - pi)"
proof -
  obtain n :: nat where "(- pi - a) / (2 * pi) \<le> real n" using real_arch_simple by blast
  then have "- pi - 2 * pi * real n \<le> a" by (simp add: field_simps)
  from add_loop_bounded[OF this] show ?thesis by blast
qed

lemma angle_normalization_in_range:
  "- pi \<le> a \<Longrightarrow> a \<le> pi \<Longrightarrow> angle_normalization a = Some a"
  unfolding angle_normalization_def
  by (subst sub_loop.simps, simp, subst add_loop.simps, simp)

lemma angle_normalization_above:
  "pi < a \<Longrightarrow> a \<le> 3 * pi \<Longrightarrow> angle_normalization a = Some (a - 2 * pi)"
  unfolding angle_normalization_def
  apply (subst sub_loop.simps, simp)
  apply (subst sub_loop.simps, simp)
  apply (subst add_loop.simps, simp)
  done

lemma angle_normalization_below:
  "a < - pi \<Longrightarrow> - 3 * pi \<le> a \<Longrightarrow> angle_normalization a = Some (a + 2 * pi)"
  unfolding angle_normalization_def
  apply (subst sub_loop.simps, simp)
  apply (subst add_loop.simps, simp)
  apply (subst add_loop.simps, simp)
  done

lemma angle_normalization_total:
  "\<exists>y. angle_normalization a = Some y \<and> - pi \<le> y \<and> y \<le> pi"
proof -
  obtain k where k: "sub_loop a = Some (a - 2 * pi * real k)" "a - 2 * pi * real k \<le> pi"
    using sub_loop_terminates by blast
  obtain l where l: "add_loop (a - 2 * pi * real k) = Some (a - 2 * pi * real k + 2 * pi * real l)"
    "- pi \<le> a - 2 * pi * real k + 2 * pi * real l"
    "\<forall>j<l. a - 2 * pi * real k + 2 * pi * real j < - pi"
    using add_loop_terminates by blast
  have "a - 2 * pi * real k + 2 * pi * real l \<le> pi"
  proof (cases l)
    case 0 with k show ?thesis by simp
  next
    case (Suc l')
    with l(3) have "a - 2 * pi * real k + 2 * pi * real l' < - pi" by simp
    then show ?thesis using Suc by (simp add: algebra_simps)
  qed
  with k l show ?thesis by (simp add: angle_normalization_def)
qed

lemma normalize_at_total: "\<exists>w. normalize_at k v = Some w \<and> length w = length v"
  using angle_normalization_total[of "v ! k"] by (auto simp: normalize_at_def)

section \<open>The predicted covariance on real numbers\<close>

lemma square_sym_symmetric: "square_sym P \<Longrightarrow> symmetric_mat P"
proof -
  assume a: "square_sym P"
  show ?thesis
  proof (cases P)
    case Nil
    then show ?thesis by (simp add: symmetric_mat_def transpose_mat_def cols_def ncols_def)
  next
    case (Cons r rs)
    with a have n: "ncols P = length P" by (simp add: square_sym_def ncols_def)
    show ?thesis
      unfolding symmetric_mat_def transpose_mat_def cols_def n
    proof (rule nth_equalityI)
      show "length (map (col P) [0..<length P]) = length P" by simp
    next
      fix i assume "i < length (map (col P) [0..<length P])"
      then have i: "i < length P" by simp
      have "col P i = P ! i"
      proof (rule nth_equalityI)
        show "length (col P i) = length (P ! i)" using a i by (simp add: col_def square_sym_def)
      next
        fix j assume "j < length (col P i)"
        then have j: "j < length P" by (simp add: col_def)
        with a i show "col P i ! j = P ! i ! j" by (simp add: col_def square_sym_def)
      qed
      with i show "map (col P) [0..<length P] ! i = P ! i" by simp
    qed
  qed
qed

lemma square_sym_zero: "square_sym (zero_mat n n)"
  by (simp add: square_sym_def zero_mat_def)

lemma square_sym_outer: "square_sym (outer (vec_scale w d) d)"
  by (auto simp: square_sym_def outer_def vec_scale_def)

lemma square_sym_add: "square_sym A \<Longrightarrow> square_sym B \<Longrightarrow> square_sym (mat_add A B)"
  unfolding square_sym_def mat_add_def vec_add_def
  by (auto simp: set_zip)

lemma predicted_covariance_loop:
  "square_sym P0 \<Longrightarrow>
   \<exists>P. fold (\<lambda>i Po. do {
             P \<leftarrow> Po;
             x_diff \<leftarrow> normalize_at 3 (vec_sub (col X i) x);
             Some (mat_add P (outer (vec_scale (w ! i) x_diff) x_diff))
           }) is (Some P0) = Some P \<and> square_sym P"
proof (induction "is" arbitrary: P0)
  case Nil
  then show ?case by simp
next
  case (Cons i "is")
  obtain d where d: "normalize_at 3 (vec_sub (col X i) x) = Some d"
    using normalize_at_total by blast
  have "square_sym (mat_add P0 (outer (vec_scale (w ! i) d) d))"
    using Cons.prems by (intro square_sym_add square_sym_outer)
  from Cons.IH[OF this] show ?case using d by simp
qed

lemma predicted_covariance_total:
  "\<exists>P. predicted_covariance s x = Some P \<and> symmetric_mat P"
  unfolding predicted_covariance_def
  using predicted_covariance_loop[OF square_sym_zero] square_sym_symmetric by blast

lemma Prediction_returns: "\<exists>s'. Prediction s dt = Some s' \<and> symmetric_mat (P_m s')"
proof -
  let ?s1 = "s\<lparr> Xsig_pred_m := SigmaPointPrediction s dt \<rparr>"
  obtain P where "predicted_covariance ?s1 (predicted_mean ?s1) = Some P" "symmetric_mat P"
    using predicted_covariance_total by blast
  then show ?thesis
    by (simp add: Prediction_def PredictMeanAndCovariance_def Let_def)
qed

section \<open>The update functions return\<close>

lemma cross_correlation_total: "\<exists>Tc. cross_correlation s n_z Zsig z_pred = Some Tc"
proof -
  have "\<exists>Tc. fold (\<lambda>i Tco. do {
             Tc \<leftarrow> Tco;
             z_diff \<leftarrow> normalize_at 1 (vec_sub (col Zsig i) z_pred);
             x_diff \<leftarrow> normalize_at 3 (vec_sub (col (Xsig_pred_m s) i) (x_m s));
             Some (mat_add Tc (outer (vec_scale (weights_m s ! i) x_diff) z_diff))
           }) is (Some T0) = Some Tc" for "is" T0
  proof (induction "is" arbitrary: T0)
    case Nil
    show ?case by simp
  next
    case (Cons i "is")
    obtain zd where zd: "normalize_at 1 (vec_sub (col Zsig i) z_pred) = Some zd"
      using normalize_at_total by blast
    obtain xd where xd: "normalize_at 3 (vec_sub (col (Xsig_pred_m s) i) (x_m s)) = Some xd"
      using normalize_at_total by blast
    from Cons.IH[of "mat_add T0 (outer (vec_scale (weights_m s ! i) xd) zd)"]
    show ?case using zd xd by simp
  qed
  then show ?thesis unfolding cross_correlation_def by blast
qed

lemma radar_S_total: "\<exists>S. radar_S s Zsig z_pred = Some S"
proof -
  have "\<exists>S. fold (\<lambda>i So. do {
                    S \<leftarrow> So;
                    z_diff \<leftarrow> normalize_at 1 (vec_sub (col Zsig i) z_pred);
                    Some (mat_add S (outer (vec_scale (weights_m s ! i) z_diff) z_diff))
                  }) is (Some S0) = Some S" for "is" S0
  proof (induction "is" arbitrary: S0)
    case Nil
    show ?case by simp
  next
    case (Cons i "is")
    obtain zd where zd: "normalize_at 1 (vec_sub (col Zsig i) z_pred) = Some zd"
      using normalize_at_total by blast
    from Cons.IH[of "mat_add S0 (outer (vec_scale (weights_m s ! i) zd) zd)"]
    show ?case using zd by simp
  qed
  then obtain S where "fold (\<lambda>i So. do {
                    S \<leftarrow> So;
                    z_diff \<leftarrow> normalize_at 1 (vec_sub (col Zsig i) z_pred);
                    Some (mat_add S (outer (vec_scale (weights_m s ! i) z_diff) z_diff))
                  }) [0..<2 * n_aug_m s + 1] (Some (zero_mat 3 3)) = Some S" by blast
  then show ?thesis unfolding radar_S_def by simp
qed


lemma UpdateState_frame:
  "\<exists>x P. UpdateState s n_z z Zsig S z_pred = Some (s\<lparr> x_m := x, P_m := P \<rparr>, vec_sub z z_pred)"
proof -
  obtain Tc where Tc: "cross_correlation s n_z Zsig z_pred = Some Tc"
    using cross_correlation_total by blast
  show ?thesis
    by (intro exI[of _ "vec_add (x_m s)
          (mat_vec (mat_mul Tc (inverse_mat S)) (vec_sub z z_pred))"]
        exI[of _ "mat_sub (P_m s) (mat_mul (mat_mul (mat_mul Tc (inverse_mat S)) S)
          (transpose_mat (mat_mul Tc (inverse_mat S))))"])
      (simp add: UpdateState_def Let_def Tc)
qed



lemma Prediction_total: "\<exists>s'. Prediction s dt = Some s'"
  using Prediction_returns by blast

section \<open>Initialization from a radar record\<close>

text \<open>
  On a first radar record \<open>(rho, phi, rho_dot)\<close> a filter with a state of size 5 stores
  \<open>[rho * cos phi, rho * sin phi, rho_dot * cos phi, rho_dot * sin phi, 0]\<close>, records the
  time stamp and sets the initialised flag; no other member changes.
\<close>

lemma Initialize_radar:
  assumes "length (x_m s) = 5"
  shows "Initialize s \<lparr> timestamp_m = t, sensor_type_m = RADAR,
                        raw_measurements_m = [rho, phi, rho_dot] \<rparr> =
         s\<lparr> x_m := [rho * cos phi, rho * sin phi, rho_dot * cos phi, rho_dot * sin phi, 0],
            previous_timestamp_m := t,
            is_initialized_m := True \<rparr>"
  using assms by (simp add: Initialize_def zero_vec_def Let_def eval_nat_numeral)

text \<open>
  Claim C5 on the first radar record \<open>(1, 1, 1)\<close>. The constructed filter stores the position
  \<open>(cos 1, sin 1)\<close>, \<open>cos 1\<close> in the speed slot and 0 in the yaw rate slot, as the claim says;
  in the yaw slot it stores \<open>rho_dot * sin phi = sin 1\<close>, which is not 0. On a first laser
  record the yaw slot is 0.
\<close>

theorem Initialize_radar_yaw_slot:
  "x_m (Initialize UKF_new \<lparr> timestamp_m = 0, sensor_type_m = RADAR,
                             raw_measurements_m = [1, 1, 1] \<rparr>) =
     [cos 1, sin 1, cos 1, sin 1, 0] \<and>
   sin (1::real) \<noteq> 0 \<and>
   x_m (Initialize UKF_new \<lparr> timestamp_m = 0, sensor_type_m = LASER,
                             raw_measurements_m = [1, 1] \<rparr>) = [1, 1, 0, 0, 0]"
proof -
  have "(0::real) < sin 1" using pi_ge_two by (intro sin_gt_zero) simp_all
  then show ?thesis
    by (simp add: Initialize_def UKF_new_def zero_vec_def Let_def eval_nat_numeral)
qed

section \<open>Evaluation on concrete inputs\<close>

text \<open>Rules that let the simplifier run the definitions on lists written out.\<close>

lemma upt_lits:
  "[0..<2] = [0, 1]" "[0..<3] = [0, 1, 2]" "[0..<5] = [0, 1, 2, 3, 4]"
  "[0..<7] = [0, 1, 2, 3, 4, 5, 6]"
  "[0..<15] = [0, 1, 2, 3, 4, 5, 6, 7, 8, 9, 10, 11, 12, 13, 14]"
  by (simp_all add: upt_rec)

lemma list_update_numeral: "(x # xs)[numeral n := v] = x # xs[pred_numeral n := v]"
  by (simp add: numeral_eq_Suc)

lemma replicate_numeral_Cons: "replicate (numeral n) x = x # replicate (pred_numeral n) x"
  by (simp add: numeral_eq_Suc)

lemmas ev = list_update_numeral replicate_numeral_Cons upt_lits Let_def

lemmas lin_defs = vec_add_def vec_sub_def vec_scale_def mat_add_def mat_sub_def
  zero_vec_def zero_mat_def outer_def col_def

lemma sqrt_quarter: "sqrt (1 / 4) = 1 / 2"
  by (rule real_sqrt_unique) (simp_all add: power2_eq_square)

lemma sqrt3_facts: "1 < sqrt 3 * 1000" "1 < sqrt 3" "sqrt 3 < 2" "sqrt 3 * sqrt 3 = 3"
proof -
  have "1 < sqrt 3" by (rule real_less_rsqrt) simp
  moreover have "sqrt 3 < 2" by (rule real_less_lsqrt) simp_all
  ultimately show "1 < sqrt 3 * 1000" "1 < sqrt 3" "sqrt 3 < 2" by linarith+
  show "sqrt 3 * sqrt 3 = 3" by simp
qed

lemma angle_normalization_sqrt3:
  "angle_normalization 0 = Some 0"
  "angle_normalization (sqrt 3) = Some (sqrt 3)"
  "angle_normalization (- sqrt 3) = Some (- sqrt 3)"
  "angle_normalization (sqrt 3 / 2) = Some (sqrt 3 / 2)"
  "angle_normalization (- (sqrt 3 / 2)) = Some (- (sqrt 3 / 2))"
  using sqrt3_facts pi_ge_two by (intro angle_normalization_in_range; linarith)+

lemma det2: "det [[a, b], [c, e]] = a * e - b * c"
  by (simp add: det.simps drop_nth_def upt_lits)

lemma inverse_mat2:
  "inverse_mat [[a, b], [c, e]] =
     [[e / (a * e - b * c), - b / (a * e - b * c)],
      [- c / (a * e - b * c), a / (a * e - b * c)]]"
  by (simp add: inverse_mat_def det2 minor_mat_def det.simps[of "[[_]]"] det.simps[of "[]"]
      drop_nth_def upt_lits)

lemma angle_normalization_small: "\<bar>a\<bar> \<le> 2 \<Longrightarrow> angle_normalization a = Some a"
  using pi_ge_two by (intro angle_normalization_in_range) linarith+

lemma angle_normalization_four:
  "angle_normalization 4 = Some (4 - 2 * pi)"
  "angle_normalization (- 4) = Some (- 4 + 2 * pi)"
  using pi_ge_two pi_less_4
  by (simp_all add: angle_normalization_above angle_normalization_below)

lemma tracking_fields:
  "x_m (tracking x P X) = x"
  "P_m (tracking x P X) = P"
  "Xsig_pred_m (tracking x P X) = X"
  "std_laspx_m (tracking x P X) = 3 / 20"
  "std_laspy_m (tracking x P X) = 3 / 20"
  "std_radr_m (tracking x P X) = 3 / 10"
  "std_radphi_m (tracking x P X) = 3 / 100"
  "std_radrd_m (tracking x P X) = 3 / 10"
  "n_x_m (tracking x P X) = 5"
  "n_aug_m (tracking x P X) = 7"
  "weights_m (tracking x P X) = (- 4 / 3) # replicate 14 (1 / 6)"
  "is_initialized_m (tracking x P X) = True"
  by (simp_all add: tracking_def UKF_new_def fill_weights_def zero_vec_def Let_def
      eval_nat_numeral)

section \<open>One second after a first laser record\<close>

lemma laser_started_fields:
  "x_m (laser_started b t p q) = [p, q, 0, 0, 0]"
  "P_m (laser_started b t p q) = identity_mat 5"
  "std_a_m (laser_started b t p q) = 1 / 2"
  "std_yawdd_m (laser_started b t p q) = 1"
  "std_laspx_m (laser_started b t p q) = 3 / 20"
  "std_laspy_m (laser_started b t p q) = 3 / 20"
  "n_x_m (laser_started b t p q) = 5"
  "n_aug_m (laser_started b t p q) = 7"
  "lambda_m (laser_started b t p q) = - 4"
  "weights_m (laser_started b t p q) = (- 4 / 3) # replicate 14 (1 / 6)"
  "is_initialized_m (laser_started b t p q) = True"
  "previous_timestamp_m (laser_started b t p q) = t"
  "use_laser_m (laser_started b t p q) = b"
  by (simp_all add: laser_started_def Initialize_def UKF_new_def fill_weights_def zero_vec_def
      Let_def eval_nat_numeral)

lemma augmented_covariance_unit:
  assumes "P_m s = identity_mat 5" "std_a_m s = 1 / 2" "std_yawdd_m s = 1"
  shows "augmented_covariance s =
    [[1, 0, 0, 0, 0, 0, 0], [0, 1, 0, 0, 0, 0, 0], [0, 0, 1, 0, 0, 0, 0],
     [0, 0, 0, 1, 0, 0, 0], [0, 0, 0, 0, 1, 0, 0], [0, 0, 0, 0, 0, 1 / 4, 0],
     [0, 0, 0, 0, 0, 0, 1]]"
  by (simp add: augmented_covariance_def assms identity_mat_def upt_lits)

lemma llt_unit:
  "llt_matrixL
    [[1, 0, 0, 0, 0, 0, 0], [0, 1, 0, 0, 0, 0, 0], [0, 0, 1, 0, 0, 0, 0],
     [0, 0, 0, 1, 0, 0, 0], [0, 0, 0, 0, 1, 0, 0], [0, 0, 0, 0, 0, 1 / 4, 0],
     [0, 0, 0, 0, 0, 0, 1]] =
    [[1, 0, 0, 0, 0, 0, 0], [0, 1, 0, 0, 0, 0, 0], [0, 0, 1, 0, 0, 0, 0],
     [0, 0, 0, 1, 0, 0, 0], [0, 0, 0, 0, 1, 0, 0], [0, 0, 0, 0, 0, 1 / 2, 0],
     [0, 0, 0, 0, 0, 0, 1]]"
  by (simp add: llt_matrixL_def llt_row_def llt_below_def dot_def Let_def upt_lits sqrt_quarter)

lemma AugmentedSigmaPoints_unit:
  assumes "x_m s = [p, q, 0, 0, 0]" "P_m s = identity_mat 5" "std_a_m s = 1 / 2"
    "std_yawdd_m s = 1" "n_aug_m s = 7" "lambda_m s = - 4"
  shows "AugmentedSigmaPoints s =
    [[p, p + sqrt 3, p, p, p, p, p, p, p - sqrt 3, p, p, p, p, p, p],
     [q, q, q + sqrt 3, q, q, q, q, q, q, q - sqrt 3, q, q, q, q, q],
     [0, 0, 0, sqrt 3, 0, 0, 0, 0, 0, 0, - sqrt 3, 0, 0, 0, 0],
     [0, 0, 0, 0, sqrt 3, 0, 0, 0, 0, 0, 0, - sqrt 3, 0, 0, 0],
     [0, 0, 0, 0, 0, sqrt 3, 0, 0, 0, 0, 0, 0, - sqrt 3, 0, 0],
     [0, 0, 0, 0, 0, 0, sqrt 3 / 2, 0, 0, 0, 0, 0, 0, - (sqrt 3 / 2), 0],
     [0, 0, 0, 0, 0, 0, 0, sqrt 3, 0, 0, 0, 0, 0, 0, - sqrt 3]]"
  by (simp add: AugmentedSigmaPoints_def augmented_covariance_unit llt_unit assms ev
      of_cols_def lin_defs)

lemma SigmaPointPrediction_unit:
  assumes "x_m s = [p, q, 0, 0, 0]" "P_m s = identity_mat 5" "std_a_m s = 1 / 2"
    "std_yawdd_m s = 1" "n_aug_m s = 7" "lambda_m s = - 4" "n_x_m s = 5"
    and d: "d = 1 \<or> d = - 1"
  shows "SigmaPointPrediction s d = ex_Xsig_pred p q d"
  using d
  by (elim disjE)
    (simp_all add: SigmaPointPrediction_def AugmentedSigmaPoints_unit assms(1-7) ev of_cols_def
      ctrv_def sqrt3_facts col_def ex_Xsig_pred_def)

lemma predicted_mean_unit:
  assumes "Xsig_pred_m s = ex_Xsig_pred p q d" "n_aug_m s = 7" "n_x_m s = 5"
    "weights_m s = (- 4 / 3) # replicate 14 (1 / 6)"
  shows "predicted_mean s = [p, q, 0, 0, 0]"
  by (simp add: predicted_mean_def assms ex_Xsig_pred_def ev lin_defs field_simps)

lemma predicted_covariance_unit:
  assumes "Xsig_pred_m s = ex_Xsig_pred p q d" "n_aug_m s = 7" "n_x_m s = 5"
    "weights_m s = (- 4 / 3) # replicate 14 (1 / 6)"
    and d: "d = 1 \<or> d = - 1"
  shows "predicted_covariance s [p, q, 0, 0, 0] = Some (ex_P_pred d)"
  using d
  by (elim disjE)
    (simp_all add: predicted_covariance_def assms(1-4) ex_Xsig_pred_def ex_P_pred_def ev
      lin_defs normalize_at_def angle_normalization_sqrt3 sqrt3_facts)

lemma Prediction_unit:
  assumes "x_m s = [p, q, 0, 0, 0]" "P_m s = identity_mat 5" "std_a_m s = 1 / 2"
    "std_yawdd_m s = 1" "n_aug_m s = 7" "lambda_m s = - 4" "n_x_m s = 5"
    "weights_m s = (- 4 / 3) # replicate 14 (1 / 6)"
    and d: "d = 1 \<or> d = - 1"
  shows "Prediction s d =
    Some (s\<lparr> Xsig_pred_m := ex_Xsig_pred p q d, x_m := [p, q, 0, 0, 0], P_m := ex_P_pred d \<rparr>)"
proof -
  let ?s1 = "s\<lparr> Xsig_pred_m := ex_Xsig_pred p q d \<rparr>"
  have m: "predicted_mean ?s1 = [p, q, 0, 0, 0]"
    by (rule predicted_mean_unit) (simp_all add: assms)
  have c: "predicted_covariance ?s1 [p, q, 0, 0, 0] = Some (ex_P_pred d)"
    by (rule predicted_covariance_unit) (simp_all add: assms)
  show ?thesis
    by (simp add: Prediction_def PredictMeanAndCovariance_def
        SigmaPointPrediction_unit[OF assms(1-4) assms(5) assms(6) assms(7) d] m c)
qed

lemma lidar_Zsig_unit:
  assumes "Xsig_pred_m s = ex_Xsig_pred p q d" "n_aug_m s = 7"
  shows "lidar_Zsig s = (ex_Zsig p q d)"
  by (simp add: lidar_Zsig_def assms ex_Xsig_pred_def ex_Zsig_def ev of_cols_def)

lemma lidar_z_pred_unit:
  "mat_vec (ex_Zsig p q d) (- (4 / 3) # replicate 14 (1 / 6)) = [p, q]"
  by (simp add: ex_Zsig_def mat_vec_def dot_def ev field_simps)

lemma lidar_S_unit:
  assumes "n_aug_m s = 7" "weights_m s = (- 4 / 3) # replicate 14 (1 / 6)"
    "std_laspx_m s = 3 / 20" "std_laspy_m s = 3 / 20"
    and d: "d = 1 \<or> d = - 1"
  shows "lidar_S s (ex_Zsig p q d) [p, q] =
           [[417 / 200, 0], [0, 409 / 400]]"
  using d
  by (elim disjE)
    (simp_all add: lidar_S_def assms(1-4) ex_Zsig_def ev lin_defs sqrt3_facts)

lemma cross_correlation_unit:
  assumes "Xsig_pred_m s = ex_Xsig_pred p q d" "n_aug_m s = 7" "n_x_m s = 5"
    "weights_m s = (- 4 / 3) # replicate 14 (1 / 6)" "x_m s = [p, q, 0, 0, 0]"
    and d: "d = 1 \<or> d = - 1"
  shows "cross_correlation s 2 (ex_Zsig p q d) [p, q] =
           Some [[33 / 16, 0], [0, 1], [9 / 8 * d, 0], [0, 0], [0, 0]]"
  using d
  by (elim disjE)
    (simp_all add: cross_correlation_def assms(1-5) ex_Xsig_pred_def ex_Zsig_def ev lin_defs
      sqrt3_facts
      normalize_at_def angle_normalization_sqrt3)

lemma UpdateLidar_body_unit:
  assumes "Xsig_pred_m s = ex_Xsig_pred 1 1 d" "n_aug_m s = 7" "n_x_m s = 5"
    "weights_m s = (- 4 / 3) # replicate 14 (1 / 6)" "x_m s = [1, 1, 0, 0, 0]"
    "P_m s = ex_P_pred d" "std_laspx_m s = 3 / 20" "std_laspy_m s = 3 / 20"
    and d: "d = 1 \<or> d = - 1"
  shows "UpdateLidar_body s (laser_record t) =
    Some (s\<lparr> x_m := [553 / 278, 1, 75 / 139 * d, 0, 0], P_m := ex_P_upd d \<rparr>, 200 / 417)"
proof -
  have Z: "lidar_Zsig s = (ex_Zsig 1 1 d)"
    by (rule lidar_Zsig_unit) (simp_all add: assms)
  have S: "lidar_S s (ex_Zsig 1 1 d) [1, 1] =
             [[417 / 200, 0], [0, 409 / 400]]"
    by (rule lidar_S_unit) (simp_all add: assms)
  have Tc: "cross_correlation s 2 (ex_Zsig 1 1 d) [1, 1] =
              Some [[33 / 16, 0], [0, 1], [9 / 8 * d, 0], [0, 0], [0, 0]]"
    by (rule cross_correlation_unit) (simp_all add: assms)
  have U: "UpdateState s 2 [2, 1] (ex_Zsig 1 1 d)
             [[417 / 200, 0], [0, 409 / 400]] [1, 1] =
           Some (s\<lparr> x_m := [553 / 278, 1, 75 / 139 * d, 0, 0], P_m := ex_P_upd d \<rparr>, [1, 0])"
    using d Tc
    by (elim disjE)
      (simp_all add: UpdateState_def inverse_mat2 assms(5,6) ex_P_pred_def ex_P_upd_def
        mat_mul_def mat_vec_def dot_def cols_def ncols_def transpose_mat_def lin_defs ev)
  have N: "nis_value [1, 0] [[417 / 200, 0], [0, 409 / 400]] = 200 / 417"
    by (simp add: nis_value_def inverse_mat2 mat_vec_def dot_def cols_def ncols_def
        transpose_mat_def lin_defs ev)
  show ?thesis
    by (simp add: UpdateLidar_body_def Let_def Z assms(4) lidar_z_pred_unit[of 1 1] S laser_record_def
        U N)
qed

lemma ProcessMeasurement_unit:
  assumes d: "d = 1 \<or> d = - 1" and t: "real_of_int (t1 - t0) / 1000000 = d"
  shows "ProcessMeasurement (laser_started b t0 1 1) (laser_record t1) =
    Some ((laser_started b t0 1 1)
           \<lparr> previous_timestamp_m := t1, Xsig_pred_m := ex_Xsig_pred 1 1 d,
              x_m := [553 / 278, 1, 75 / 139 * d, 0, 0], P_m := ex_P_upd d \<rparr>)"
proof -
  let ?s1 = "(laser_started b t0 1 1)\<lparr> previous_timestamp_m := t1 \<rparr>"
  let ?s2 = "?s1\<lparr> Xsig_pred_m := ex_Xsig_pred 1 1 d, x_m := [1, 1, 0, 0, 0], P_m := ex_P_pred d \<rparr>"
  have p: "Prediction ?s1 d = Some ?s2"
    by (rule Prediction_unit) (simp_all add: laser_started_fields d)
  have u: "UpdateLidar_body ?s2 (laser_record t1) =
     Some (?s2\<lparr> x_m := [553 / 278, 1, 75 / 139 * d, 0, 0], P_m := ex_P_upd d \<rparr>, 200 / 417)"
    by (rule UpdateLidar_body_unit) (simp_all add: laser_started_fields d)
  have l: "sensor_type_m (laser_record t1) = LASER" "timestamp_m (laser_record t1) = t1"
    by (simp_all add: laser_record_def)
  have t': "(real_of_int t1 - real_of_int t0) / 1000000 = d"
    using t by simp
  show ?thesis
    by (simp add: ProcessMeasurement_def laser_started_fields l t' p UpdateLidar_def u)
qed

section \<open>Records of a disabled sensor\<close>

text \<open>
  No function of the filter reads \<^verbatim>\<open>use_laser_\<close> or \<^verbatim>\<open>use_radar_\<close>: a filter with other
  values of the two members (\<open>with_flags\<close>) computes the same, and keeps its values.
\<close>

lemma SigmaPointPrediction_flags:
  "SigmaPointPrediction (with_flags a b s) d = SigmaPointPrediction s d"
  by (simp add: with_flags_def SigmaPointPrediction_def AugmentedSigmaPoints_def
      augmented_covariance_def cong: if_cong)

lemma with_flags_Xsig_pred:
  "(with_flags a b s)\<lparr> Xsig_pred_m := X \<rparr> = with_flags a b (s\<lparr> Xsig_pred_m := X \<rparr>)"
  by (simp add: with_flags_def)

lemma with_flags_timestamp:
  "(with_flags a b s)\<lparr> previous_timestamp_m := t \<rparr> =
     with_flags a b (s\<lparr> previous_timestamp_m := t \<rparr>)"
  by (simp add: with_flags_def)

lemma with_flags_x_P:
  "(with_flags a b s)\<lparr> x_m := x, P_m := P \<rparr> = with_flags a b (s\<lparr> x_m := x, P_m := P \<rparr>)"
  by (simp add: with_flags_def)

lemma predicted_mean_flags: "predicted_mean (with_flags a b s) = predicted_mean s"
  by (simp add: with_flags_def predicted_mean_def)

lemma predicted_covariance_flags:
  "predicted_covariance (with_flags a b s) x = predicted_covariance s x"
  by (simp add: with_flags_def predicted_covariance_def)

lemma Prediction_flags:
  "Prediction (with_flags a b s) d = map_option (with_flags a b) (Prediction s d)"
  by (simp add: Prediction_def PredictMeanAndCovariance_def SigmaPointPrediction_flags
      with_flags_Xsig_pred predicted_mean_flags predicted_covariance_flags with_flags_x_P
      option.map_comp comp_def split_def Let_def)

lemma cross_correlation_flags:
  "cross_correlation (with_flags a b s) n Zsig zp = cross_correlation s n Zsig zp"
  by (simp add: with_flags_def cross_correlation_def)

lemma UpdateState_flags:
  "UpdateState (with_flags a b s) n z Zsig S zp =
     map_option (\<lambda>(s', zd). (with_flags a b s', zd)) (UpdateState s n z Zsig S zp)"
  by (cases "cross_correlation s n Zsig zp")
    (simp_all add: UpdateState_def cross_correlation_flags Let_def, simp add: with_flags_def)

lemma lidar_flags:
  "lidar_Zsig (with_flags a b s) = lidar_Zsig s"
  "lidar_S (with_flags a b s) Zsig zp = lidar_S s Zsig zp"
  "radar_Zsig (with_flags a b s) = radar_Zsig s"
  "radar_S (with_flags a b s) Zsig zp = radar_S s Zsig zp"
  "weights_m (with_flags a b s) = weights_m s"
  by (simp_all add: with_flags_def lidar_Zsig_def lidar_S_def radar_Zsig_def radar_S_def)

lemma UpdateLidar_flags:
  "UpdateLidar (with_flags a b s) m = map_option (with_flags a b) (UpdateLidar s m)"
  by (cases "UpdateState s 2 (raw_measurements_m m) (lidar_Zsig s)
        (lidar_S s (lidar_Zsig s) (mat_vec (lidar_Zsig s) (weights_m s)))
        (mat_vec (lidar_Zsig s) (weights_m s))")
    (auto simp: UpdateLidar_def UpdateLidar_body_def UpdateState_flags lidar_flags Let_def)

lemma UpdateRadar_flags:
  "UpdateRadar (with_flags a b s) m = map_option (with_flags a b) (UpdateRadar s m)"
proof -
  let ?zp = "mat_vec (radar_Zsig s) (weights_m s)"
  obtain S where S: "radar_S s (radar_Zsig s) ?zp = Some S"
    using radar_S_total by blast
  show ?thesis
    by (cases "UpdateState s 3 (raw_measurements_m m) (radar_Zsig s) S ?zp")
      (auto simp: UpdateRadar_def UpdateRadar_body_def UpdateState_flags lidar_flags S Let_def)
qed

lemma ProcessMeasurement_flags:
  "ProcessMeasurement (with_flags a b s) m = map_option (with_flags a b) (ProcessMeasurement s m)"
proof (cases "is_initialized_m s")
  case False
  then show ?thesis by (simp add: ProcessMeasurement_def Initialize_def Let_def with_flags_def)
next
  case True
  let ?d = "real_of_int (timestamp_m m - previous_timestamp_m s) / 1000000"
  let ?s1 = "s\<lparr> previous_timestamp_m := timestamp_m m \<rparr>"
  have i: "is_initialized_m (with_flags a b s)" "previous_timestamp_m (with_flags a b s) =
    previous_timestamp_m s"
    using True by (simp_all add: with_flags_def)
  obtain s2 where s2: "Prediction ?s1 ?d = Some s2" using Prediction_total by blast
  show ?thesis
    using True
    by (simp add: ProcessMeasurement_def Let_def i with_flags_timestamp Prediction_flags s2
        UpdateLidar_flags UpdateRadar_flags del: of_int_diff)
qed

text \<open>
  Claim C1, on a filter whose \<^verbatim>\<open>use_laser_\<close> is false. The filter has processed a first
  laser record \<open>(1, 1)\<close> at time 0 and receives the laser record \<open>(2, 1)\<close> one second
  later. The prediction alone leaves the state at \<open>[1, 1, 0, 0, 0]\<close> with covariance
  \<open>ex_P_pred 1\<close>; \<open>ProcessMeasurement\<close> stores the state \<open>[553/278, 1, 75/139, 0, 0]\<close> and the
  covariance \<open>ex_P_upd 1\<close>: the laser update has run.
\<close>

theorem disabled_laser_record_updates:
  "use_laser_m (laser_started False 0 1 1) = False \<and>
   Prediction ((laser_started False 0 1 1)\<lparr> previous_timestamp_m := 1000000 \<rparr>) 1 =
     Some ((laser_started False 0 1 1)
            \<lparr> previous_timestamp_m := 1000000, Xsig_pred_m := ex_Xsig_pred 1 1 1,
               x_m := [1, 1, 0, 0, 0], P_m := ex_P_pred 1 \<rparr>) \<and>
   ProcessMeasurement (laser_started False 0 1 1) (laser_record 1000000) =
     Some ((laser_started False 0 1 1)
            \<lparr> previous_timestamp_m := 1000000, Xsig_pred_m := ex_Xsig_pred 1 1 1,
               x_m := [553 / 278, 1, 75 / 139, 0, 0], P_m := ex_P_upd 1 \<rparr>)"
proof (intro conjI)
  show "use_laser_m (laser_started False 0 1 1) = False"
    by (simp add: laser_started_fields)
  show "Prediction ((laser_started False 0 1 1)\<lparr> previous_timestamp_m := 1000000 \<rparr>) 1 =
     Some ((laser_started False 0 1 1)
            \<lparr> previous_timestamp_m := 1000000, Xsig_pred_m := ex_Xsig_pred 1 1 1,
               x_m := [1, 1, 0, 0, 0], P_m := ex_P_pred 1 \<rparr>)"
    by (rule Prediction_unit) (simp_all add: laser_started_fields)
  show "ProcessMeasurement (laser_started False 0 1 1) (laser_record 1000000) =
     Some ((laser_started False 0 1 1)
            \<lparr> previous_timestamp_m := 1000000, Xsig_pred_m := ex_Xsig_pred 1 1 1,
               x_m := [553 / 278, 1, 75 / 139, 0, 0], P_m := ex_P_upd 1 \<rparr>)"
    using ProcessMeasurement_unit[of 1 1000000 0 False] by simp
qed

section \<open>Records that go back in time\<close>




section \<open>A predicted covariance that is not positive semi-definite\<close>

lemma s7_fields:
  "x_m s7 = [0, 0, 3, 0, 0]"
  "P_m s7 = P7"
  "std_a_m s7 = 1 / 2"
  "std_yawdd_m s7 = 1"
  "n_x_m s7 = 5"
  "n_aug_m s7 = 7"
  "lambda_m s7 = - 4"
  "weights_m s7 = (- 4 / 3) # replicate 14 (1 / 6)"
  by (simp_all add: s7_def UKF_new_def fill_weights_def zero_vec_def Let_def eval_nat_numeral)

lemma symmetric_P7: "symmetric_mat P7"
  by (simp add: symmetric_mat_def transpose_mat_def cols_def ncols_def col_def P7_def upt_lits)

lemma quad_form_P7:
  "quad_form P7 [a, b, c, d, e] =
     3 / 4 * (a + 4 * d / 3)\<^sup>2 + 3 / 4 * (b + 4 * d / 3)\<^sup>2 + 3 / 4 * (c + 4 * d / 3)\<^sup>2
       + 4 / 3 * d\<^sup>2 + e\<^sup>2 / 12000000"
  by (simp add: quad_form_def P7_def mat_vec_def dot_def power2_eq_square algebra_simps)

lemma pos_def_P7: "pos_def P7"
  unfolding pos_def_def
proof (intro allI impI)
  fix v :: vec
  assume v: "length v = length P7 \<and> v \<noteq> zero_vec (length P7)"
  then have l: "length v = 5" by (simp add: P7_def)
  then obtain a b c d e where ve: "v = [a, b, c, d, e]"
    by (auto simp: length_Suc_conv eval_nat_numeral)
  from v ve have nz: "a \<noteq> 0 \<or> b \<noteq> 0 \<or> c \<noteq> 0 \<or> d \<noteq> 0 \<or> e \<noteq> 0"
    by (auto simp: P7_def zero_vec_def eval_nat_numeral)
  have nn: "0 \<le> (a + 4 * d / 3)\<^sup>2" "0 \<le> (b + 4 * d / 3)\<^sup>2" "0 \<le> (c + 4 * d / 3)\<^sup>2"
    "0 \<le> d\<^sup>2" "0 \<le> e\<^sup>2" by simp_all
  show "0 < quad_form P7 v"
  proof (rule ccontr)
    assume "\<not> 0 < quad_form P7 v"
    then have le: "3 / 4 * (a + 4 * d / 3)\<^sup>2 + 3 / 4 * (b + 4 * d / 3)\<^sup>2
        + 3 / 4 * (c + 4 * d / 3)\<^sup>2 + 4 / 3 * d\<^sup>2 + e\<^sup>2 / 12000000 \<le> 0"
      by (simp add: ve quad_form_P7)
    from le nn have "d\<^sup>2 = 0" by linarith
    then have d: "d = 0" by simp
    from le nn have "e\<^sup>2 = 0" by linarith
    then have e: "e = 0" by simp
    from le nn have "(a + 4 * d / 3)\<^sup>2 = 0" "(b + 4 * d / 3)\<^sup>2 = 0" "(c + 4 * d / 3)\<^sup>2 = 0"
      by linarith+
    with d have "a = 0" "b = 0" "c = 0" by simp_all
    with d e nz show False by simp
  qed
qed

lemma augmented_covariance7:
  "augmented_covariance s7 =
    [[3 / 4, 0, 0, 1, 0, 0, 0], [0, 3 / 4, 0, 1, 0, 0, 0], [0, 0, 3 / 4, 1, 0, 0, 0],
     [1, 1, 1, 16 / 3, 0, 0, 0], [0, 0, 0, 0, 1 / 12000000, 0, 0],
     [0, 0, 0, 0, 0, 1 / 4, 0], [0, 0, 0, 0, 0, 0, 1]]"
  by (simp add: augmented_covariance_def s7_fields P7_def upt_lits)

lemma sqrt_facts7:
  "sqrt (3 / 4) = sqrt 3 / 2" "sqrt (4 / 3) = 2 / sqrt 3"
  "sqrt (1 / 12000000) = 1 / (2000 * sqrt 3)"
proof -
  show "sqrt (3 / 4) = sqrt 3 / 2"
    by (rule real_sqrt_unique) (simp_all add: power2_eq_square)
  show "sqrt (4 / 3) = 2 / sqrt 3"
    by (rule real_sqrt_unique) (simp_all add: power2_eq_square)
  show "sqrt (1 / 12000000) = 1 / (2000 * sqrt 3)"
    by (rule real_sqrt_unique) (simp_all add: power2_eq_square)
qed

lemma llt7:
  "llt_matrixL (augmented_covariance s7) =
    [[sqrt 3 / 2, 0, 0, 0, 0, 0, 0], [0, sqrt 3 / 2, 0, 0, 0, 0, 0],
     [0, 0, sqrt 3 / 2, 0, 0, 0, 0],
     [2 / sqrt 3, 2 / sqrt 3, 2 / sqrt 3, 2 / sqrt 3, 0, 0, 0],
     [0, 0, 0, 0, 1 / (2000 * sqrt 3), 0, 0], [0, 0, 0, 0, 0, 1 / 2, 0],
     [0, 0, 0, 0, 0, 0, 1]]"
  by (simp add: augmented_covariance7 llt_matrixL_def llt_row_def llt_below_def dot_def Let_def
      upt_lits sqrt_quarter sqrt_facts7)

lemma AugmentedSigmaPoints7:
  "AugmentedSigmaPoints s7 =
    [[0, 3 / 2, 0, 0, 0, 0, 0, 0, - (3 / 2), 0, 0, 0, 0, 0, 0],
     [0, 0, 3 / 2, 0, 0, 0, 0, 0, 0, - (3 / 2), 0, 0, 0, 0, 0],
     [3, 3, 3, 9 / 2, 3, 3, 3, 3, 3, 3, 3 / 2, 3, 3, 3, 3],
     [0, 2, 2, 2, 2, 0, 0, 0, - 2, - 2, - 2, - 2, 0, 0, 0],
     [0, 0, 0, 0, 0, 1 / 2000, 0, 0, 0, 0, 0, 0, - (1 / 2000), 0, 0],
     [0, 0, 0, 0, 0, 0, sqrt 3 / 2, 0, 0, 0, 0, 0, 0, - (sqrt 3 / 2), 0],
     [0, 0, 0, 0, 0, 0, 0, sqrt 3, 0, 0, 0, 0, 0, 0, - sqrt 3]]"
  by (simp add: AugmentedSigmaPoints_def llt7 s7_fields ev of_cols_def lin_defs)

lemma SigmaPointPrediction7: "SigmaPointPrediction s7 1 = ex7_Xsig_pred"
  by (simp add: SigmaPointPrediction_def AugmentedSigmaPoints7 s7_fields ev of_cols_def ctrv_def
      col_def sqrt3_facts ex7_Xsig_pred_def)

lemma predicted_mean7:
  "predicted_mean (s7\<lparr> Xsig_pred_m := ex7_Xsig_pred \<rparr>) = [4 * cos 2 - 1, sin 2 / 2, 3, 0, 0]"
  by (simp add: predicted_mean_def ex7_Xsig_pred_def s7_fields ev lin_defs field_simps)

lemma angle_normalization7:
  "angle_normalization 2 = Some 2"
  "angle_normalization (- 2) = Some (- 2)"
  "angle_normalization (1 / 2000) = Some (1 / 2000)"
  "angle_normalization (- (1 / 2000)) = Some (- (1 / 2000))"
  using pi_ge_two by (intro angle_normalization_in_range; linarith)+

lemma px_variance7:
  fixes C r :: real
  assumes "r * r = 3"
  shows "2 * ((4 - 4 * C) * (4 - 4 * C)) / 3 +
         (2 * ((1 - C) * (1 - C)) / 3 +
          ((5 / 2 - C) * (5 / 2 - C) / 6 +
           ((C / 2 + 1) * (C / 2 + 1) / 6 +
            ((4 + (r / 4 - 4 * C)) * (4 + (r / 4 - 4 * C)) / 6 +
             ((- C - 1 / 2) * (- C - 1 / 2) / 6 +
              ((1 - 5 * C / 2) * (1 - 5 * C / 2) / 6 +
               ((4 + (- (r / 4) - 4 * C)) * (4 + (- (r / 4) - 4 * C)) / 6 -
                (16 - 16 * C) * (4 - 4 * C) / 3))))))) =
         13 / 16 + 3 / 4 * (C * C) - 4 * ((C - 1) * (C - 1))"
proof -
  have "(4 + (r / 4 - 4 * C)) * (4 + (r / 4 - 4 * C)) +
        (4 + (- (r / 4) - 4 * C)) * (4 + (- (r / 4) - 4 * C)) =
        2 * ((4 - 4 * C) * (4 - 4 * C)) + (r * r) / 8"
    by (simp add: algebra_simps)
  then have e1: "(4 + (r / 4 - 4 * C)) * (4 + (r / 4 - 4 * C)) / 6 +
        (4 + (- (r / 4) - 4 * C)) * (4 + (- (r / 4) - 4 * C)) / 6 =
        ((4 - 4 * C) * (4 - 4 * C)) / 3 + 1 / 16"
    using assms by (simp add: field_simps)
  have e2: "2 * ((4 - 4 * C) * (4 - 4 * C)) / 3 +
         (2 * ((1 - C) * (1 - C)) / 3 +
          ((5 / 2 - C) * (5 / 2 - C) / 6 +
           ((C / 2 + 1) * (C / 2 + 1) / 6 +
            (((4 - 4 * C) * (4 - 4 * C)) / 3 + 1 / 16 +
             ((- C - 1 / 2) * (- C - 1 / 2) / 6 +
              ((1 - 5 * C / 2) * (1 - 5 * C / 2) / 6 -
                (16 - 16 * C) * (4 - 4 * C) / 3)))))) =
         13 / 16 + 3 / 4 * (C * C) - 4 * ((C - 1) * (C - 1))"
    by (simp add: field_simps)
  show ?thesis using e1 e2 by linarith
qed

lemma predicted_covariance7:
  "\<exists>P. predicted_covariance (s7\<lparr> Xsig_pred_m := ex7_Xsig_pred \<rparr>)
          [4 * cos 2 - 1, sin 2 / 2, 3, 0, 0] = Some P \<and>
       length P = 5 \<and>
       quad_form P [1, 0, 0, 0, 0] = 13 / 16 + 3 / 4 * (cos 2 * cos 2) - 4 * ((cos 2 - 1) * (cos 2 - 1))"
  by (simp add: predicted_covariance_def ex7_Xsig_pred_def s7_fields ev lin_defs normalize_at_def
      angle_normalization7 angle_normalization_sqrt3 quad_form_def dot_def mat_vec_def
      px_variance7)

lemma px_variance7_negative:
  "13 / 16 + 3 / 4 * (cos 2 * cos 2) - 4 * ((cos 2 - 1) * (cos 2 - 1)) < (0::real)"
proof -
  have c: "cos 2 < (0::real)" by (rule cos_two_less_zero)
  have "0 \<le> cos 2 * cos (2::real)" by simp
  moreover have "13 / 16 + 3 / 4 * (cos 2 * cos 2) - 4 * ((cos 2 - 1) * (cos 2 - 1)) =
        - (13 / 4) * (cos 2 * cos 2) + 8 * cos 2 - 51 / (16::real)"
    by (simp add: algebra_simps)
  ultimately show ?thesis using c by linarith
qed

text \<open>
  Claim C7 as stated says that the predicted covariance is positive semi-definite for every
  symmetric positive definite covariance and every time step \<open>\<ge> 0\<close>. The filter \<open>s7\<close> holds
  the symmetric positive definite covariance \<open>P7\<close>; after a predict cycle of one second the
  variance of the first coordinate is negative (about \<open>-7.08\<close>), so the stored covariance is
  not positive semi-definite. The weight of the central sigma point is \<open>-4/3\<close>.
\<close>

theorem predicted_covariance_not_psd_counterexample:
  "P_m s7 = P7 \<and> symmetric_mat P7 \<and> pos_def P7 \<and> (0::real) \<le> 1 \<and>
   map_option (psd \<circ> P_m) (Prediction s7 1) = Some False"
proof -
  obtain P where P: "predicted_covariance (s7\<lparr> Xsig_pred_m := ex7_Xsig_pred \<rparr>)
          [4 * cos 2 - 1, sin 2 / 2, 3, 0, 0] = Some P" "length P = 5"
    "quad_form P [1, 0, 0, 0, 0] = 13 / 16 + 3 / 4 * (cos 2 * cos 2) - 4 * ((cos 2 - 1) * (cos 2 - 1))"
    using predicted_covariance7 by blast
  have "quad_form P [1, 0, 0, 0, 0] < 0"
    using P(3) px_variance7_negative by simp
  then have "\<not> psd P"
    unfolding psd_def using P(2) by (intro notI) (auto dest!: spec[of _ "[1, 0, 0, 0, 0]"])
  then have "map_option (psd \<circ> P_m) (Prediction s7 1) = Some False"
    by (simp add: Prediction_def PredictMeanAndCovariance_def SigmaPointPrediction7
        predicted_mean7 P(1))
  then show ?thesis
    using symmetric_P7 pos_def_P7 by (simp add: s7_fields)
qed

section \<open>A laser update on given sigma points\<close>

text \<open>
  The laser update of a tracking filter whose predicted sigma points, their image \<open>Z\<close>, the
  predicted measurement \<open>zp\<close>, the innovation covariance \<open>[[s0, 0], [0, s1]]\<close> and the cross
  correlation \<open>Tc\<close> are known.
\<close>

lemma UpdateLidar_body_staged:
  assumes Z: "lidar_Zsig s = Z"
    and zp: "mat_vec Z (weights_m s) = zp"
    and S: "lidar_S s Z zp = [[s0, 0], [0, s1]]"
    and Tc: "cross_correlation s 2 Z zp = Some Tc"
  shows "UpdateLidar_body s m =
    Some (s\<lparr> x_m := vec_add (x_m s)
                       (mat_vec (mat_mul Tc (inverse_mat [[s0, 0], [0, s1]]))
                          (vec_sub (raw_measurements_m m) zp)),
             P_m := mat_sub (P_m s)
                       (mat_mul (mat_mul (mat_mul Tc (inverse_mat [[s0, 0], [0, s1]]))
                                   [[s0, 0], [0, s1]])
                          (transpose_mat (mat_mul Tc (inverse_mat [[s0, 0], [0, s1]])))) \<rparr>,
          nis_value (vec_sub (raw_measurements_m m) zp) [[s0, 0], [0, s1]])"
  by (simp add: UpdateLidar_body_def Let_def Z zp S UpdateState_def Tc)

section \<open>The state stored by the update\<close>

text \<open>
  Claim C2, as amended. \<open>UpdateState\<close> stores \<open>x + K (z - z_pred)\<close> with the gain
  \<open>K = Tc S\<^sup>-\<^sup>1\<close> as it is computed: no coefficient of the new state is wrapped, the yaw
  no more than the others. It returns \<open>z - z_pred\<close>.
\<close>

theorem UpdateState_stores_sum:
  "\<exists>Tc. cross_correlation s n_z Zsig z_pred = Some Tc \<and>
     UpdateState s n_z z Zsig S z_pred =
       Some (s\<lparr> x_m := vec_add (x_m s)
                          (mat_vec (mat_mul Tc (inverse_mat S)) (vec_sub z z_pred)),
                P_m := mat_sub (P_m s)
                          (mat_mul (mat_mul (mat_mul Tc (inverse_mat S)) S)
                             (transpose_mat (mat_mul Tc (inverse_mat S)))) \<rparr>,
             vec_sub z z_pred)"
proof -
  obtain Tc where "cross_correlation s n_z Zsig z_pred = Some Tc"
    using cross_correlation_total by blast
  then show ?thesis by (simp add: UpdateState_def Let_def)
qed

lemma ex2_fields:
  "x_m ex2_filter = [0, 0, 0, 3, 0]"
  "P_m ex2_filter = ex2_P"
  "Xsig_pred_m ex2_filter = ex2_Xsig_pred"
  "std_laspx_m ex2_filter = 3 / 20"
  "std_laspy_m ex2_filter = 3 / 20"
  "n_x_m ex2_filter = 5"
  "n_aug_m ex2_filter = 7"
  "weights_m ex2_filter = (- 4 / 3) # replicate 14 (1 / 6)"
  by (simp_all add: ex2_filter_def tracking_fields)

lemma lidar_Zsig_ex2: "lidar_Zsig ex2_filter = ex2_Zsig"
  by (simp add: lidar_Zsig_def ex2_fields ex2_Xsig_pred_def ex2_Zsig_def ev of_cols_def)

lemma lidar_z_pred_ex2: "mat_vec ex2_Zsig (weights_m ex2_filter) = [0, 0]"
  by (simp add: ex2_fields ex2_Zsig_def ev mat_vec_def dot_def)

lemma lidar_S_ex2: "lidar_S ex2_filter ex2_Zsig [0, 0] = [[427 / 1200, 0], [0, 9 / 400]]"
  by (simp add: lidar_S_def ex2_fields ex2_Zsig_def ev lin_defs)

lemma cross_correlation_ex2:
  "cross_correlation ex2_filter 2 ex2_Zsig [0, 0] =
     Some [[1 / 3, 0], [0, 0], [0, 0], [1 / 3, 0], [0, 0]]"
  by (simp add: cross_correlation_def ex2_fields ex2_Xsig_pred_def ex2_Zsig_def ev lin_defs
      normalize_at_def angle_normalization_small)

lemma UpdateLidar_body_ex2:
  "UpdateLidar_body ex2_filter (laser_at 2 0) =
     Some (ex2_filter\<lparr> x_m := [800 / 427, 0, 0, 2081 / 427, 0],
                        P_m := [[9 / 427, 0, 0, 9 / 427, 0], [0, 0, 0, 0, 0], [0, 0, 0, 0, 0],
                                [9 / 427, 0, 0, 9 / 427, 0], [0, 0, 0, 0, 0]] \<rparr>,
           4800 / 427)"
  by (simp add: UpdateLidar_body_staged[OF lidar_Zsig_ex2 lidar_z_pred_ex2 lidar_S_ex2
        cross_correlation_ex2]
      laser_at_def ex2_fields ex2_P_def inverse_mat2 nis_value_def mat_mul_def mat_vec_def
      dot_def cols_def ncols_def transpose_mat_def lin_defs ev)

text \<open>
  Claim C2 as stated says that the yaw stored by a measurement update lies in \<open>(-pi, pi]\<close>.
  The filter \<open>ex2_filter\<close> has the yaw 3; the laser record \<open>(2, 0)\<close> moves it by
  \<open>800/427\<close>, and the yaw stored is \<open>2081/427\<close>, more than \<open>pi\<close>.
\<close>

theorem yaw_after_update_counterexample:
  "map_option x_m (UpdateLidar ex2_filter (laser_at 2 0)) =
     Some [800 / 427, 0, 0, 2081 / 427, 0] \<and>
   pi < 2081 / 427"
  using pi_less_4 by (simp add: UpdateLidar_def UpdateLidar_body_ex2)


section \<open>The laser residual in the cross correlation\<close>

lemma pi_ge_three: "3 \<le> pi"
proof -
  have "sin (pi / 6) \<le> pi / 6" by (rule sin_x_le_x) simp
  then show ?thesis by (simp add: sin_30)
qed

lemma sqrt3_tight: "8 / 5 < sqrt 3" "sqrt 3 < 48 / 25"
proof -
  show "8 / 5 < sqrt 3" by (rule real_less_rsqrt) (simp add: power2_eq_square)
  show "sqrt 3 < 48 / 25" by (rule real_less_lsqrt) (simp_all add: power2_eq_square)
qed

lemma angle_normalization_ex3:
  "angle_normalization (sqrt 3 * 5 / 2) = Some (sqrt 3 * 5 / 2 - 2 * pi)"
  "angle_normalization (- (sqrt 3 * 5 / 2)) = Some (- (sqrt 3 * 5 / 2) + 2 * pi)"
  "angle_normalization (25 * sqrt 3 / 16) = Some (25 * sqrt 3 / 16)"
  "angle_normalization (- (25 * sqrt 3 / 16)) = Some (- (25 * sqrt 3 / 16))"
  "angle_normalization (25 * sqrt 3 / 8) = Some (25 * sqrt 3 / 8 - 2 * pi)"
  "angle_normalization (- (25 * sqrt 3 / 8)) = Some (- (25 * sqrt 3 / 8) + 2 * pi)"
proof -
  note b = sqrt3_tight pi_ge_three pi_less_4
  show "angle_normalization (sqrt 3 * 5 / 2) = Some (sqrt 3 * 5 / 2 - 2 * pi)"
    using b by (intro angle_normalization_above) linarith+
  show "angle_normalization (- (sqrt 3 * 5 / 2)) = Some (- (sqrt 3 * 5 / 2) + 2 * pi)"
    using b by (intro angle_normalization_below) linarith+
  show "angle_normalization (25 * sqrt 3 / 16) = Some (25 * sqrt 3 / 16)"
    using b by (intro angle_normalization_in_range) linarith+
  show "angle_normalization (- (25 * sqrt 3 / 16)) = Some (- (25 * sqrt 3 / 16))"
    using b by (intro angle_normalization_in_range) linarith+
  show "angle_normalization (25 * sqrt 3 / 8) = Some (25 * sqrt 3 / 8 - 2 * pi)"
    using b by (intro angle_normalization_above) linarith+
  show "angle_normalization (- (25 * sqrt 3 / 8)) = Some (- (25 * sqrt 3 / 8) + 2 * pi)"
    using b by (intro angle_normalization_below) linarith+
qed

lemma radar_started_fields:
  "x_m radar_started = [0, 1, 0, pi / 2, 0]"
  "P_m radar_started = identity_mat 5"
  "std_a_m radar_started = 1 / 2"
  "std_yawdd_m radar_started = 1"
  "std_laspx_m radar_started = 3 / 20"
  "std_laspy_m radar_started = 3 / 20"
  "n_x_m radar_started = 5"
  "n_aug_m radar_started = 7"
  "lambda_m radar_started = - 4"
  "weights_m radar_started = (- 4 / 3) # replicate 14 (1 / 6)"
  "is_initialized_m radar_started = True"
  "previous_timestamp_m radar_started = 0"
  by (simp_all add: radar_started_def Initialize_def UKF_new_def fill_weights_def zero_vec_def
      Let_def eval_nat_numeral)

lemma AugmentedSigmaPoints_ex3:
  assumes "x_m s = [0, 1, 0, pi / 2, 0]" "P_m s = identity_mat 5" "std_a_m s = 1 / 2"
    "std_yawdd_m s = 1" "n_aug_m s = 7" "lambda_m s = - 4"
  shows "AugmentedSigmaPoints s =
    [[0, sqrt 3, 0, 0, 0, 0, 0, 0, - sqrt 3, 0, 0, 0, 0, 0, 0],
     [1, 1, 1 + sqrt 3, 1, 1, 1, 1, 1, 1, 1 - sqrt 3, 1, 1, 1, 1, 1],
     [0, 0, 0, sqrt 3, 0, 0, 0, 0, 0, 0, - sqrt 3, 0, 0, 0, 0],
     [pi / 2, pi / 2, pi / 2, pi / 2, pi / 2 + sqrt 3, pi / 2, pi / 2, pi / 2,
      pi / 2, pi / 2, pi / 2, pi / 2 - sqrt 3, pi / 2, pi / 2, pi / 2],
     [0, 0, 0, 0, 0, sqrt 3, 0, 0, 0, 0, 0, 0, - sqrt 3, 0, 0],
     [0, 0, 0, 0, 0, 0, sqrt 3 / 2, 0, 0, 0, 0, 0, 0, - (sqrt 3 / 2), 0],
     [0, 0, 0, 0, 0, 0, 0, sqrt 3, 0, 0, 0, 0, 0, 0, - sqrt 3]]"
  by (simp add: AugmentedSigmaPoints_def augmented_covariance_unit llt_unit assms ev
      of_cols_def lin_defs)

lemma SigmaPointPrediction_ex3:
  assumes "x_m s = [0, 1, 0, pi / 2, 0]" "P_m s = identity_mat 5" "std_a_m s = 1 / 2"
    "std_yawdd_m s = 1" "n_aug_m s = 7" "lambda_m s = - 4" "n_x_m s = 5"
  shows "SigmaPointPrediction s (5 / 2) = ex3_Xsig_pred"
  by (simp add: SigmaPointPrediction_def AugmentedSigmaPoints_ex3[OF assms(1-6)] assms ev
      of_cols_def ctrv_def sqrt3_facts col_def ex3_Xsig_pred_def)

lemma predicted_mean_ex3:
  assumes "Xsig_pred_m s = ex3_Xsig_pred" "n_aug_m s = 7" "n_x_m s = 5"
    "weights_m s = (- 4 / 3) # replicate 14 (1 / 6)"
  shows "predicted_mean s = [0, 1, 0, pi / 2, 0]"
  by (simp add: predicted_mean_def assms ex3_Xsig_pred_def ev lin_defs field_simps)

lemma lidar_Zsig_ex3:
  assumes "Xsig_pred_m s = ex3_Xsig_pred" "n_aug_m s = 7"
  shows "lidar_Zsig s = ex3_Zsig"
  by (simp add: lidar_Zsig_def assms ex3_Xsig_pred_def ex3_Zsig_def ev of_cols_def)

lemma lidar_z_pred_ex3: "mat_vec ex3_Zsig (- (4 / 3) # replicate 14 (1 / 6)) = [0, 1]"
  by (simp add: ex3_Zsig_def ev mat_vec_def dot_def field_simps)

lemma lidar_S_ex3:
  assumes "n_aug_m s = 7" "weights_m s = (- 4 / 3) # replicate 14 (1 / 6)"
    "std_laspx_m s = 3 / 20" "std_laspy_m s = 3 / 20"
  shows "lidar_S s ex3_Zsig [0, 1] = [[409 / 400, 0], [0, 2481 / 256 + 9 / 400]]"
  by (simp add: lidar_S_def assms ex3_Zsig_def ev lin_defs sqrt3_facts)

lemma cross_correlation_ex3:
  assumes "Xsig_pred_m s = ex3_Xsig_pred" "n_aug_m s = 7" "n_x_m s = 5"
    "weights_m s = (- 4 / 3) # replicate 14 (1 / 6)" "x_m s = [0, 1, 0, pi / 2, 0]"
  shows "cross_correlation s 2 ex3_Zsig [0, 1] =
    Some [[1, 0], [0, 2481 / 256 - 5 * sqrt 3 * pi / 3], [0, 285 / 64 - 2 * sqrt 3 * pi / 3],
          [0, 0], [0, 0]]"
proof -
  have "cross_correlation s 2 ex3_Zsig [0, 1] =
    Some [[1, 0],
          [0, 881 / 256 + (sqrt 3 * 5 * (sqrt 3 * 5 / 2 - 2 * pi) / 12 -
                           sqrt 3 * 5 * (2 * pi - sqrt 3 * 5 / 2) / 12)],
          [0, 125 / 64 + (sqrt 3 * (sqrt 3 * 5 / 2 - 2 * pi) / 6 -
                          sqrt 3 * (2 * pi - sqrt 3 * 5 / 2) / 6)],
          [0, 0], [0, 0]]"
    by (simp add: cross_correlation_def assms ex3_Xsig_pred_def ex3_Zsig_def ev lin_defs
        sqrt3_facts normalize_at_def angle_normalization_sqrt3 angle_normalization_ex3)
  moreover have "881 / 256 + (sqrt 3 * 5 * (sqrt 3 * 5 / 2 - 2 * pi) / 12 -
                           sqrt 3 * 5 * (2 * pi - sqrt 3 * 5 / 2) / 12) =
      2481 / 256 - 5 * sqrt 3 * pi / 3"
    by (simp add: field_simps)
  moreover have "125 / 64 + (sqrt 3 * (sqrt 3 * 5 / 2 - 2 * pi) / 6 -
                          sqrt 3 * (2 * pi - sqrt 3 * 5 / 2) / 6) =
      285 / 64 - 2 * sqrt 3 * pi / 3"
    by (simp add: field_simps)
  ultimately show ?thesis by simp
qed

lemma Prediction_ex3:
  "\<exists>P. Prediction (radar_started\<lparr> previous_timestamp_m := 2500000 \<rparr>) (5 / 2) =
         Some (ex3_filter P)"
proof -
  let ?s0 = "radar_started\<lparr> previous_timestamp_m := 2500000 \<rparr>"
  let ?s1 = "?s0\<lparr> Xsig_pred_m := ex3_Xsig_pred \<rparr>"
  have X: "SigmaPointPrediction ?s0 (5 / 2) = ex3_Xsig_pred"
    by (rule SigmaPointPrediction_ex3) (simp_all add: radar_started_fields)
  have m: "predicted_mean ?s1 = [0, 1, 0, pi / 2, 0]"
    by (rule predicted_mean_ex3) (simp_all add: radar_started_fields)
  obtain P where "predicted_covariance ?s1 [0, 1, 0, pi / 2, 0] = Some P"
    using predicted_covariance_total by blast
  then have "Prediction ?s0 (5 / 2) = Some (ex3_filter P)"
    by (simp add: Prediction_def PredictMeanAndCovariance_def X m ex3_filter_def)
  then show ?thesis by blast
qed

lemma ex3_fields:
  "x_m (ex3_filter P) = [0, 1, 0, pi / 2, 0]"
  "Xsig_pred_m (ex3_filter P) = ex3_Xsig_pred"
  "std_laspx_m (ex3_filter P) = 3 / 20"
  "std_laspy_m (ex3_filter P) = 3 / 20"
  "n_x_m (ex3_filter P) = 5"
  "n_aug_m (ex3_filter P) = 7"
  "weights_m (ex3_filter P) = (- 4 / 3) # replicate 14 (1 / 6)"
  by (simp_all add: ex3_filter_def radar_started_fields)

lemma cross_correlation_ex3_small: "2481 / 256 - 5 * sqrt 3 * pi / 3 < 2"
proof -
  have "8 / 5 * 3 \<le> sqrt 3 * pi"
    using sqrt3_tight(1) pi_ge_three by (intro mult_mono) simp_all
  then show ?thesis by simp
qed

text \<open>
  Claim C3 on a filter that has processed a first radar record \<open>(1, pi / 2, pi / 2)\<close> at time 0
  and receives a laser record 2.5 seconds later. After the prediction two sigma points lie
  \<open>5 sqrt 3 / 2\<close> (about 4.33 metres, more than \<open>pi\<close>) from the predicted measurement along
  \<open>py\<close>. The innovation covariance of the laser update is accumulated from the plain
  residuals and gets \<open>2481/256\<close> (plus the noise \<open>9/400\<close>) for \<open>py\<close>. The cross correlation is
  accumulated in \<open>UpdateState\<close>, which runs the angle loops on coefficient 1 of the residual,
  here a length: these two residuals become \<open>5 sqrt 3 / 2 - 2 pi\<close> and its opposite, and the
  coefficient of \<open>py\<close> with \<open>py\<close> is \<open>2481/256 - 5 sqrt 3 pi / 3\<close>, less than 2, instead of
  \<open>2481/256\<close>.
\<close>

theorem laser_cross_correlation_wraps:
  "\<exists>P. Prediction (radar_started\<lparr> previous_timestamp_m := 2500000 \<rparr>) (5 / 2) =
         Some (ex3_filter P) \<and>
       mat_vec (lidar_Zsig (ex3_filter P)) (weights_m (ex3_filter P)) = [0, 1] \<and>
       lidar_S (ex3_filter P) (lidar_Zsig (ex3_filter P)) [0, 1] =
         [[409 / 400, 0], [0, 2481 / 256 + 9 / 400]] \<and>
       cross_correlation (ex3_filter P) 2 (lidar_Zsig (ex3_filter P)) [0, 1] =
         Some [[1, 0], [0, 2481 / 256 - 5 * sqrt 3 * pi / 3],
               [0, 285 / 64 - 2 * sqrt 3 * pi / 3], [0, 0], [0, 0]] \<and>
       2481 / 256 - 5 * sqrt 3 * pi / 3 < 2"
proof -
  obtain P where P: "Prediction (radar_started\<lparr> previous_timestamp_m := 2500000 \<rparr>) (5 / 2) =
         Some (ex3_filter P)"
    using Prediction_ex3 by blast
  have Z: "lidar_Zsig (ex3_filter P) = ex3_Zsig"
    by (rule lidar_Zsig_ex3) (simp_all add: ex3_fields)
  have zp: "mat_vec (lidar_Zsig (ex3_filter P)) (weights_m (ex3_filter P)) = [0, 1]"
    by (simp add: Z ex3_fields lidar_z_pred_ex3)
  have S: "lidar_S (ex3_filter P) (lidar_Zsig (ex3_filter P)) [0, 1] =
         [[409 / 400, 0], [0, 2481 / 256 + 9 / 400]]"
    unfolding Z by (rule lidar_S_ex3) (simp_all add: ex3_fields)
  have Tc: "cross_correlation (ex3_filter P) 2 (lidar_Zsig (ex3_filter P)) [0, 1] =
         Some [[1, 0], [0, 2481 / 256 - 5 * sqrt 3 * pi / 3],
               [0, 285 / 64 - 2 * sqrt 3 * pi / 3], [0, 0], [0, 0]]"
    unfolding Z by (rule cross_correlation_ex3) (simp_all add: ex3_fields)
  from P zp S Tc cross_correlation_ex3_small show ?thesis by blast
qed

section \<open>The consistency statistic\<close>

text \<open>
  Claim C9, as amended. Each update function computes \<open>(z - z_pred)\<^sup>T S\<^sup>-\<^sup>1 (z - z_pred)\<close> in
  its local variable \<^verbatim>\<open>nis\<close> and returns without storing it: the filter it leaves differs
  from the one it started on in the state and the covariance only.
\<close>

theorem nis_is_local:
  "(\<exists>x P. UpdateLidar_body s m =
            Some (s\<lparr> x_m := x, P_m := P \<rparr>,
                  nis_value (vec_sub (raw_measurements_m m)
                               (mat_vec (lidar_Zsig s) (weights_m s)))
                    (lidar_S s (lidar_Zsig s) (mat_vec (lidar_Zsig s) (weights_m s)))) \<and>
          UpdateLidar s m = Some (s\<lparr> x_m := x, P_m := P \<rparr>)) \<and>
   (\<exists>x P S. radar_S s (radar_Zsig s) (mat_vec (radar_Zsig s) (weights_m s)) = Some S \<and>
          UpdateRadar_body s m =
            Some (s\<lparr> x_m := x, P_m := P \<rparr>,
                  nis_value (vec_sub (raw_measurements_m m)
                               (mat_vec (radar_Zsig s) (weights_m s))) S) \<and>
          UpdateRadar s m = Some (s\<lparr> x_m := x, P_m := P \<rparr>))"
proof (intro conjI)
  let ?zp = "mat_vec (lidar_Zsig s) (weights_m s)"
  obtain x P where
    "UpdateState s 2 (raw_measurements_m m) (lidar_Zsig s) (lidar_S s (lidar_Zsig s) ?zp) ?zp =
       Some (s\<lparr> x_m := x, P_m := P \<rparr>, vec_sub (raw_measurements_m m) ?zp)"
    using UpdateState_frame by blast
  then have "UpdateLidar_body s m =
            Some (s\<lparr> x_m := x, P_m := P \<rparr>,
                  nis_value (vec_sub (raw_measurements_m m) ?zp)
                    (lidar_S s (lidar_Zsig s) ?zp)) \<and>
          UpdateLidar s m = Some (s\<lparr> x_m := x, P_m := P \<rparr>)"
    by (simp add: UpdateLidar_def UpdateLidar_body_def Let_def)
  then show "\<exists>x P. UpdateLidar_body s m =
            Some (s\<lparr> x_m := x, P_m := P \<rparr>,
                  nis_value (vec_sub (raw_measurements_m m) ?zp)
                    (lidar_S s (lidar_Zsig s) ?zp)) \<and>
          UpdateLidar s m = Some (s\<lparr> x_m := x, P_m := P \<rparr>)"
    by blast
next
  let ?zp = "mat_vec (radar_Zsig s) (weights_m s)"
  obtain S where S: "radar_S s (radar_Zsig s) ?zp = Some S"
    using radar_S_total by blast
  obtain x P where
    "UpdateState s 3 (raw_measurements_m m) (radar_Zsig s) S ?zp =
       Some (s\<lparr> x_m := x, P_m := P \<rparr>, vec_sub (raw_measurements_m m) ?zp)"
    using UpdateState_frame by blast
  with S have "radar_S s (radar_Zsig s) ?zp = Some S \<and>
          UpdateRadar_body s m =
            Some (s\<lparr> x_m := x, P_m := P \<rparr>,
                  nis_value (vec_sub (raw_measurements_m m) ?zp) S) \<and>
          UpdateRadar s m = Some (s\<lparr> x_m := x, P_m := P \<rparr>)"
    by (simp add: UpdateRadar_def UpdateRadar_body_def Let_def)
  then show "\<exists>x P S. radar_S s (radar_Zsig s) ?zp = Some S \<and>
          UpdateRadar_body s m =
            Some (s\<lparr> x_m := x, P_m := P \<rparr>,
                  nis_value (vec_sub (raw_measurements_m m) ?zp) S) \<and>
          UpdateRadar s m = Some (s\<lparr> x_m := x, P_m := P \<rparr>)"
    by blast
qed

lemma ex9_fields:
  "x_m ex9_filter = [1, 1, 0, 0, 0]"
  "P_m ex9_filter = ex9_P"
  "Xsig_pred_m ex9_filter = ex9_Xsig_pred"
  "std_laspx_m ex9_filter = 3 / 20"
  "std_laspy_m ex9_filter = 3 / 20"
  "n_x_m ex9_filter = 5"
  "n_aug_m ex9_filter = 7"
  "weights_m ex9_filter = (- 4 / 3) # replicate 14 (1 / 6)"
  by (simp_all add: ex9_filter_def tracking_fields)

lemma lidar_Zsig_ex9: "lidar_Zsig ex9_filter = ex9_Zsig"
  by (simp add: lidar_Zsig_def ex9_fields ex9_Xsig_pred_def ex9_Zsig_def ev of_cols_def)

lemma lidar_z_pred_ex9: "mat_vec ex9_Zsig (weights_m ex9_filter) = [1, 1]"
  by (simp add: ex9_fields ex9_Zsig_def ev mat_vec_def dot_def)

lemma lidar_S_ex9: "lidar_S ex9_filter ex9_Zsig [1, 1] = [[9 / 400, 0], [0, 9 / 400]]"
  by (simp add: lidar_S_def ex9_fields ex9_Zsig_def ev lin_defs)

lemma cross_correlation_ex9:
  "cross_correlation ex9_filter 2 ex9_Zsig [1, 1] =
     Some [[0, 0], [0, 0], [0, 0], [0, 0], [0, 0]]"
  by (simp add: cross_correlation_def ex9_fields ex9_Xsig_pred_def ex9_Zsig_def ev lin_defs
      normalize_at_def angle_normalization_small)

lemma nis_value_ex9:
  "nis_value [a - 1, b - 1] [[9 / 400, 0], [0, 9 / 400]] =
     (a - 1) * (a - 1) * 400 / 9 + (b - 1) * (b - 1) * 400 / 9"
  by (simp add: nis_value_def inverse_mat2 mat_vec_def dot_def cols_def ncols_def
      transpose_mat_def lin_defs ev algebra_simps)

lemma UpdateLidar_body_ex9:
  "UpdateLidar_body ex9_filter (laser_at a b) =
     Some (ex9_filter, (a - 1) * (a - 1) * 400 / 9 + (b - 1) * (b - 1) * 400 / 9)"
proof -
  have "UpdateLidar_body ex9_filter (laser_at a b) =
     Some (ex9_filter\<lparr> x_m := [1, 1, 0, 0, 0], P_m := ex9_P \<rparr>,
           (a - 1) * (a - 1) * 400 / 9 + (b - 1) * (b - 1) * 400 / 9)"
    by (simp add: UpdateLidar_body_staged[OF lidar_Zsig_ex9 lidar_z_pred_ex9 lidar_S_ex9
          cross_correlation_ex9]
        laser_at_def ex9_fields ex9_P_def inverse_mat2 nis_value_ex9 mat_mul_def mat_vec_def
        dot_def cols_def ncols_def transpose_mat_def lin_defs ev)
  moreover have "ex9_filter\<lparr> x_m := [1, 1, 0, 0, 0], P_m := ex9_P \<rparr> = ex9_filter"
    by (simp add: ex9_filter_def tracking_def)
  ultimately show ?thesis by simp
qed

text \<open>
  Claim C9 as stated says that the statistic of each update is exposed. The laser records
  \<open>(2, 1)\<close> and \<open>(3, 1)\<close> leave the filter \<open>ex9_filter\<close> in the same state, so that nothing
  the filter holds tells one update from the other; their statistics are \<open>400/9\<close> and
  \<open>1600/9\<close>.
\<close>

theorem nis_not_exposed_counterexample:
  "UpdateLidar ex9_filter (laser_at 2 1) = UpdateLidar ex9_filter (laser_at 3 1) \<and>
   map_option snd (UpdateLidar_body ex9_filter (laser_at 2 1)) = Some (400 / 9) \<and>
   map_option snd (UpdateLidar_body ex9_filter (laser_at 3 1)) = Some (1600 / 9)"
  by (simp add: UpdateLidar_def UpdateLidar_body_ex9)

section \<open>The innovation of the radar update\<close>

lemma arctan_sqrt3: "arctan (sqrt 3) = pi / 3"
proof (rule arctan_unique)
  show "- (pi / 2) < pi / 3" using pi_gt_zero by linarith
  show "pi / 3 < pi / 2" using pi_gt_zero by linarith
  show "tan (pi / 3) = sqrt 3" by (rule tan_60)
qed

lemma sqrt3_signs:
  "sqrt 3 - 1 > 0" "\<not> sqrt 3 < 1" "\<not> sqrt 3 \<le> 1" "sqrt 3 < 4" "\<not> 4 < sqrt 3"
  "\<not> 4 \<le> sqrt 3" "sqrt 3 / 4 < 1" "\<bar>sqrt 3 - 1\<bar> = sqrt 3 - 1" "\<not> sqrt 3 < - 1"
  "\<bar>sqrt 3 / 4 - 1\<bar> = 1 - sqrt 3 / 4" "\<bar>- 1 - sqrt 3\<bar> = 1 + sqrt 3"
  "\<bar>- 1 - sqrt 3 / 4\<bar> = 1 + sqrt 3 / 4" "- 1 < sqrt 3" "\<not> sqrt 3 < - 4" "- 4 < sqrt 3"
  using sqrt3_facts(2,3) by linarith+

lemma ex6_fields:
  "Xsig_pred_m ex6_filter = ex_Xsig_pred (- 1) 0 1"
  "x_m ex6_filter = [- 1, 0, 0, 0, 0]"
  "n_aug_m ex6_filter = 7"
  "n_x_m ex6_filter = 5"
  "weights_m ex6_filter = (- 4 / 3) # replicate 14 (1 / 6)"
  by (simp_all add: ex6_filter_def laser_started_fields)

lemma Prediction_ex6:
  "Prediction ((laser_started True 0 (- 1) 0)\<lparr> previous_timestamp_m := 1000000 \<rparr>) 1 =
     Some ex6_filter"
  unfolding ex6_filter_def
  by (rule Prediction_unit) (simp_all add: laser_started_fields)

lemma range_rate_facts:
  "(sqrt 3 / 4 - 1) * sqrt 3 / (2 - sqrt 3 / 2) = - (sqrt 3 / 2)"
  "- ((- 1 - sqrt 3) * sqrt 3 / (1 + sqrt 3)) = sqrt 3"
  "- ((- 1 - sqrt 3 / 4) * sqrt 3 / (2 + sqrt 3 / 2)) = sqrt 3 / 2"
proof -
  have n: "2 - sqrt 3 / 2 \<noteq> 0" "1 + sqrt 3 \<noteq> 0" "2 + sqrt 3 / 2 \<noteq> 0"
    using sqrt3_facts(2,3) by linarith+
  show "(sqrt 3 / 4 - 1) * sqrt 3 / (2 - sqrt 3 / 2) = - (sqrt 3 / 2)"
    using n(1) by (simp add: field_simps)
  show "- ((- 1 - sqrt 3) * sqrt 3 / (1 + sqrt 3)) = sqrt 3"
    using n(2) by (simp add: field_simps)
  show "- ((- 1 - sqrt 3 / 4) * sqrt 3 / (2 + sqrt 3 / 2)) = sqrt 3 / 2"
    using n(3) by (simp add: field_simps)
qed

lemma radar_Zsig_ex6: "radar_Zsig ex6_filter = ex6_Zsig"
  by (simp add: radar_Zsig_def ex6_fields ex_Xsig_pred_def ex6_Zsig_def ev of_cols_def atan2_def
      arctan_sqrt3 arctan_minus sqrt3_facts sqrt3_signs range_rate_facts)

lemma radar_z_pred_ex6: "mat_vec ex6_Zsig (weights_m ex6_filter) = ex6_z_pred"
  by (simp add: ex6_fields ex6_Zsig_def ex6_z_pred_def ev mat_vec_def dot_def field_simps)

text \<open>
  Claim C6 on a target that crosses the negative \<open>x\<close> axis. The filter has processed a first
  laser record \<open>(-1, 0)\<close> and predicted one second ahead; the predicted bearing is
  \<open>pi / 3\<close>. For the radar record \<open>(1, -3, 0)\<close> the residual \<open>z - z_pred\<close> that
  \<open>UpdateState\<close> multiplies by the gain, and returns, has the bearing \<open>- 3 - pi / 3\<close>, less
  than \<open>- pi\<close>: it is not wrapped (wrapped it would be \<open>5 pi / 3 - 3\<close>, of the other sign).
  The residuals of the sigma points in the same function, and in \<open>radar_S\<close>, are wrapped.
\<close>

theorem radar_innovation_not_wrapped:
  "Prediction ((laser_started True 0 (- 1) 0)\<lparr> previous_timestamp_m := 1000000 \<rparr>) 1 =
     Some ex6_filter \<and>
   mat_vec (radar_Zsig ex6_filter) (weights_m ex6_filter) = ex6_z_pred \<and>
   (\<exists>S x P. radar_S ex6_filter (radar_Zsig ex6_filter) ex6_z_pred = Some S \<and>
      UpdateState ex6_filter 3 (raw_measurements_m ex6_record) (radar_Zsig ex6_filter) S
          ex6_z_pred =
        Some (ex6_filter\<lparr> x_m := x, P_m := P \<rparr>,
              [1 / 3 - 2 * sqrt 3 / 3, - 3 - pi / 3, - (sqrt 3 / 3)]) \<and>
      UpdateRadar_body ex6_filter ex6_record =
        Some (ex6_filter\<lparr> x_m := x, P_m := P \<rparr>,
              nis_value [1 / 3 - 2 * sqrt 3 / 3, - 3 - pi / 3, - (sqrt 3 / 3)] S)) \<and>
   - 3 - pi / 3 < - pi"
proof (intro conjI)
  show "Prediction ((laser_started True 0 (- 1) 0)\<lparr> previous_timestamp_m := 1000000 \<rparr>) 1 =
     Some ex6_filter"
    by (rule Prediction_ex6)
  show zp: "mat_vec (radar_Zsig ex6_filter) (weights_m ex6_filter) = ex6_z_pred"
    by (simp add: radar_Zsig_ex6 radar_z_pred_ex6)
  obtain S where S: "radar_S ex6_filter (radar_Zsig ex6_filter) ex6_z_pred = Some S"
    using radar_S_total by blast
  obtain x P where U: "UpdateState ex6_filter 3 (raw_measurements_m ex6_record)
      (radar_Zsig ex6_filter) S ex6_z_pred =
      Some (ex6_filter\<lparr> x_m := x, P_m := P \<rparr>,
            vec_sub (raw_measurements_m ex6_record) ex6_z_pred)"
    using UpdateState_frame by blast
  have d: "vec_sub (raw_measurements_m ex6_record) ex6_z_pred =
      [1 / 3 - 2 * sqrt 3 / 3, - 3 - pi / 3, - (sqrt 3 / 3)]"
    by (simp add: ex6_record_def ex6_z_pred_def vec_sub_def)
  have "UpdateRadar_body ex6_filter ex6_record =
        Some (ex6_filter\<lparr> x_m := x, P_m := P \<rparr>,
              nis_value [1 / 3 - 2 * sqrt 3 / 3, - 3 - pi / 3, - (sqrt 3 / 3)] S)"
    using S U by (simp add: UpdateRadar_body_def Let_def zp d)
  with S U d show "\<exists>S x P. radar_S ex6_filter (radar_Zsig ex6_filter) ex6_z_pred = Some S \<and>
      UpdateState ex6_filter 3 (raw_measurements_m ex6_record) (radar_Zsig ex6_filter) S
          ex6_z_pred =
        Some (ex6_filter\<lparr> x_m := x, P_m := P \<rparr>,
              [1 / 3 - 2 * sqrt 3 / 3, - 3 - pi / 3, - (sqrt 3 / 3)]) \<and>
      UpdateRadar_body ex6_filter ex6_record =
        Some (ex6_filter\<lparr> x_m := x, P_m := P \<rparr>,
              nis_value [1 / 3 - 2 * sqrt 3 / 3, - 3 - pi / 3, - (sqrt 3 / 3)] S)"
    by auto
  show "- 3 - pi / 3 < - pi"
    using pi_less_4 by simp
qed


section \<open>Properties of the binary64 arithmetic\<close>

lemma pow2_powr: "pow2 e = 2 powr (real_of_int e)"
proof (cases "0 \<le> e")
  case True
  then have "2 powr real_of_int e = 2 powr real (nat e)" by simp
  also have "\<dots> = 2 ^ nat e" by (simp add: powr_realpow)
  finally show ?thesis using True by (simp add: pow2_def)
next
  case False
  then have "2 powr real_of_int e = 2 powr (- real (nat (- e)))" by simp
  also have "\<dots> = 1 / 2 ^ nat (- e)" by (simp add: powr_minus powr_realpow divide_inverse)
  finally show ?thesis using False by (simp add: pow2_def)
qed

lemma pow2_pos: "0 < pow2 e"
  by (simp add: pow2_powr)

lemma pow2_add: "pow2 (a + b) = pow2 a * pow2 b"
  by (simp add: pow2_powr powr_add)

lemma pow2_mono: "a \<le> b \<Longrightarrow> pow2 a \<le> pow2 b"
  by (simp add: pow2_powr)

lemma pow2_nat: "pow2 (int n) = 2 ^ n"
  by (simp add: pow2_def)

lemma pow2_neg_nat: "pow2 (- int n) = 1 / 2 ^ n"
proof (cases n)
  case 0
  then show ?thesis by (simp add: pow2_def)
next
  case (Suc k)
  have "nat (int k + 1) = Suc k" by simp
  then show ?thesis using Suc by (simp add: pow2_def)
qed

lemma bit_length_bounds:
  "0 < n \<Longrightarrow> 2 ^ (bit_length n - 1) \<le> n \<and> n < 2 ^ bit_length n"
proof (induction n rule: bit_length.induct)
  case (1 n)
  show ?case
  proof (cases "n div 2 = 0")
    case True
    with 1 have "n = 1" by (simp add: div_eq_0_iff) 
    then show ?thesis by (simp add: bit_length.simps)
  next
    case False
    with 1 have IH: "2 ^ (bit_length (n div 2) - 1) \<le> n div 2" "n div 2 < 2 ^ bit_length (n div 2)"
      by simp_all
    have b: "bit_length n = Suc (bit_length (n div 2))"
      using 1 by (subst bit_length.simps) simp
    have pos: "0 < bit_length (n div 2)"
      using False by (subst bit_length.simps) simp
    then have "(2::nat) ^ bit_length (n div 2) = 2 * 2 ^ (bit_length (n div 2) - 1)"
      by (cases "bit_length (n div 2)") simp_all
    with IH(1) have "2 ^ bit_length (n div 2) \<le> 2 * (n div 2)" by simp
    then have lo: "2 ^ bit_length (n div 2) \<le> n" by linarith
    from IH(2) have "2 * (n div 2) + 2 \<le> 2 * 2 ^ bit_length (n div 2)" by simp
    then have hi: "n < 2 * 2 ^ bit_length (n div 2)" by linarith
    from lo hi b show ?thesis by simp
  qed
qed

lemma bit_length_pos: "0 < n \<Longrightarrow> 0 < bit_length n"
  by (subst bit_length.simps) simp

lemma exponent_of_bounds:
  assumes "x \<noteq> 0"
  shows "pow2 (exponent_of x) \<le> \<bar>x\<bar>" and "\<bar>x\<bar> < pow2 (exponent_of x + 1)"
proof -
  define a where "a = \<bar>x\<bar>"
  have a: "0 < a" using assms by (simp add: a_def)
  have "pow2 (exponent_of x) \<le> a \<and> a < pow2 (exponent_of x + 1)"
  proof (cases "1 \<le> a")
    case True
    define n where "n = nat \<lfloor>a\<rfloor>"
    have n: "0 < n" using True by (simp add: n_def)
    have e: "exponent_of x = int (bit_length n) - 1"
      using True by (simp add: exponent_of_def a_def n_def Let_def)
    have bl: "0 < bit_length n" using n by (rule bit_length_pos)
    then have e': "exponent_of x = int (bit_length n - 1)" using e by simp
    have nle: "real n \<le> a" using True by (simp add: n_def)
    have alt: "a < real n + 1" using True by (simp add: n_def)
    from bit_length_bounds[OF n] have l1: "2 ^ (bit_length n - 1) \<le> n"
      and h1: "Suc n \<le> 2 ^ bit_length n" by simp_all
    from l1 have "real (2 ^ (bit_length n - 1)) \<le> real n" by (rule of_nat_mono)
    then have lo: "(2::real) ^ (bit_length n - 1) \<le> real n" by simp
    from h1 have "real (Suc n) \<le> real (2 ^ bit_length n)" by (rule of_nat_mono)
    then have hi: "real n + 1 \<le> 2 ^ bit_length n" by simp
    have "exponent_of x + 1 = int (bit_length n)" using e by simp
    then have "pow2 (exponent_of x + 1) = 2 ^ bit_length n" by (simp add: pow2_nat)
    moreover have "pow2 (exponent_of x) = 2 ^ (bit_length n - 1)" by (simp add: e' pow2_nat)
    ultimately show ?thesis using lo hi nle alt by linarith
  next
    case False
    define m where "m = nat (\<lceil>1 / a\<rceil> - 1)"
    have inv: "1 < 1 / a" using a False by simp
    then have c2: "2 \<le> \<lceil>1 / a\<rceil>" by linarith
    then have m: "0 < m" by (simp add: m_def)
    have mlt: "real m < 1 / a" using c2 by (simp add: m_def) linarith
    have mge: "1 / a \<le> real m + 1" using c2 by (simp add: m_def) linarith
    have e: "exponent_of x = - int (bit_length m)"
      using False by (simp add: exponent_of_def a_def m_def Let_def)
    have bl: "0 < bit_length m" using m by (rule bit_length_pos)
    from bit_length_bounds[OF m] have l1: "2 ^ (bit_length m - 1) \<le> m"
      and h1: "Suc m \<le> 2 ^ bit_length m" by simp_all
    from l1 have "real (2 ^ (bit_length m - 1)) \<le> real m" by (rule of_nat_mono)
    then have lo: "(2::real) ^ (bit_length m - 1) \<le> real m" by simp
    from h1 have "real (Suc m) \<le> real (2 ^ bit_length m)" by (rule of_nat_mono)
    then have hi: "real m + 1 \<le> 2 ^ bit_length m" by simp
    have p1: "pow2 (exponent_of x) = 1 / 2 ^ bit_length m"
      by (simp only: e pow2_neg_nat)
    have "exponent_of x + 1 = - int (bit_length m - 1)" using bl e by simp
    then have p2: "pow2 (exponent_of x + 1) = 1 / 2 ^ (bit_length m - 1)"
      by (simp only: pow2_neg_nat)
    have "1 / a \<le> 2 ^ bit_length m" using mge hi by linarith
    then have "1 \<le> 2 ^ bit_length m * a" using a by (simp add: field_simps)
    then have A: "1 / 2 ^ bit_length m \<le> a" by (simp add: field_simps)
    have "2 ^ (bit_length m - 1) < 1 / a" using lo mlt by linarith
    then have "2 ^ (bit_length m - 1) * a < 1" using a by (simp add: field_simps)
    then have B: "a < 1 / 2 ^ (bit_length m - 1)" by (simp add: field_simps)
    from A B p1 p2 show ?thesis by simp
  qed
  then show "pow2 (exponent_of x) \<le> \<bar>x\<bar>" and "\<bar>x\<bar> < pow2 (exponent_of x + 1)"
    by (simp_all add: a_def)
qed

lemma round_half_even_error: "\<bar>real_of_int (round_half_even y) - y\<bar> \<le> 1 / 2"
  by (simp add: round_half_even_def Let_def)
lemma pow2_half: "pow2 (e - 52) / 2 = pow2 (e - 53)"
proof -
  have "pow2 (e - 52) = pow2 (e - 53) * pow2 1" by (simp add: pow2_add[symmetric])
  then show ?thesis by (simp add: pow2_def)
qed

lemma pow2_less_cancel: "pow2 a < pow2 b \<Longrightarrow> a < b"
  using pow2_mono[of b a] by linarith

lemma round_to_double_core:
  assumes "x \<noteq> 0" and e: "e = max (exponent_of x) (- 1022)"
    and room: "\<bar>x\<bar> + pow2 (e - 53) < pow2 1024"
  shows "\<exists>r. round_to_double x = Fin r \<and> \<bar>r - x\<bar> \<le> pow2 (e - 53)"
proof -
  define q where "q = pow2 (e - 52)"
  define r where "r = real_of_int (round_half_even (x / q)) * q"
  have q: "0 < q" by (simp add: q_def pow2_pos)
  have "r - x = (real_of_int (round_half_even (x / q)) - x / q) * q"
    using q by (simp add: r_def left_diff_distrib)
  then have "\<bar>r - x\<bar> = \<bar>real_of_int (round_half_even (x / q)) - x / q\<bar> * q"
    using q by (simp add: abs_mult)
  also have "\<dots> \<le> 1 / 2 * q"
    using round_half_even_error[of "x / q"] q by (intro mult_right_mono) simp_all
  also have "\<dots> = pow2 (e - 53)" by (simp add: q_def pow2_half)
  finally have err: "\<bar>r - x\<bar> \<le> pow2 (e - 53)" .
  then have "\<bar>r\<bar> < pow2 1024" using room by linarith
  then have "round_to_double x = Fin r"
    using assms(1) e by (simp add: round_to_double_def Let_def q_def r_def)
  with err show ?thesis by blast
qed

lemma round_to_double_finite:
  assumes "\<bar>x\<bar> < pow2 k" and "k \<le> 1023"
  shows "\<exists>r. round_to_double x = Fin r \<and> \<bar>r - x\<bar> \<le> pow2 (max k (- 1021) - 54)"
proof (cases "x = 0")
  case True
  then show ?thesis using pow2_pos[of "max k (- 1021) - 54"] by (simp add: round_to_double_def)
next
  case False
  define e where "e = max (exponent_of x) (- 1022)"
  have "pow2 (exponent_of x) < pow2 k"
    using exponent_of_bounds(1)[OF False] assms(1) by linarith
  then have "exponent_of x < k" by (rule pow2_less_cancel)
  then have ek: "e - 53 \<le> max k (- 1021) - 54" by (simp add: e_def)
  then have le: "pow2 (e - 53) \<le> pow2 (max k (- 1021) - 54)" by (rule pow2_mono)
  have "max k (- 1021) - 54 \<le> 1023" using assms(2) by simp
  then have "pow2 (max k (- 1021) - 54) \<le> pow2 1023" by (rule pow2_mono)
  moreover have "pow2 k \<le> pow2 1023" using assms(2) by (rule pow2_mono)
  moreover have "pow2 1024 = 2 * pow2 1023"
    using pow2_add[of 1 1023] by (simp add: pow2_def)
  ultimately have "\<bar>x\<bar> + pow2 (e - 53) < pow2 1024" using le assms(1) by linarith
  from round_to_double_core[OF False e_def this] le show ?thesis
    by (meson order_trans)
qed

lemma round_to_double_relative:
  assumes "\<bar>x\<bar> \<le> pow2 1023"
  shows "\<exists>r. round_to_double x = Fin r \<and> \<bar>r - x\<bar> \<le> \<bar>x\<bar> / 2 ^ 53 + 1 / 2 ^ 1075"
proof (cases "x = 0")
  case True
  then show ?thesis by (simp add: round_to_double_def)
next
  case False
  define e where "e = max (exponent_of x) (- 1022)"
  have le: "pow2 (e - 53) \<le> \<bar>x\<bar> / 2 ^ 53 + 1 / 2 ^ 1075"
  proof (cases "- 1022 \<le> exponent_of x")
    case True
    then have "pow2 (e - 53) = pow2 (exponent_of x) * pow2 (- 53)"
      by (simp add: e_def max_def pow2_add[symmetric])
    also have "\<dots> \<le> \<bar>x\<bar> * pow2 (- 53)"
      using exponent_of_bounds(1)[OF False] pow2_pos[of "- 53"] by (intro mult_right_mono) simp_all
    also have "\<dots> = \<bar>x\<bar> / 2 ^ 53" by (simp add: pow2_def)
    finally show ?thesis by simp
  next
    case False
    then have "pow2 (e - 53) = pow2 (- 1075)" by (simp add: e_def max_def)
    also have "\<dots> = 1 / 2 ^ 1075" by (simp add: pow2_def)
    finally show ?thesis by simp
  qed
  have "pow2 1023 / 2 ^ 53 + 1 / 2 ^ 1075 < pow2 1023" by (simp add: pow2_def)
  moreover have "\<bar>x\<bar> / 2 ^ 53 \<le> pow2 1023 / 2 ^ 53" using assms by (simp add: divide_right_mono)
  moreover have "pow2 1024 = 2 * pow2 1023"
    using pow2_add[of 1 1023] by (simp add: pow2_def)
  ultimately have "\<bar>x\<bar> + pow2 (e - 53) < pow2 1024" using le assms by linarith
  from round_to_double_core[OF \<open>x \<noteq> 0\<close> e_def this] le show ?thesis
    by (meson order_trans)
qed

text \<open>
  Rounding at a known exponent: the rule that evaluates the arithmetic on explicit numbers.
\<close>

lemma exponent_of_unique:
  assumes "pow2 e \<le> \<bar>x\<bar>" and "\<bar>x\<bar> < pow2 (e + 1)"
  shows "exponent_of x = e"
proof -
  have x: "x \<noteq> 0" using assms(1) pow2_pos[of e] by auto
  have "pow2 (exponent_of x) < pow2 (e + 1)"
    using exponent_of_bounds(1)[OF x] assms(2) by linarith
  then have a: "exponent_of x < e + 1" by (rule pow2_less_cancel)
  have "pow2 e < pow2 (exponent_of x + 1)"
    using exponent_of_bounds(2)[OF x] assms(1) by linarith
  then have "e < exponent_of x + 1" by (rule pow2_less_cancel)
  with a show ?thesis by simp
qed

lemma round_to_double_zero: "round_to_double 0 = Fin 0"
  by (simp add: round_to_double_def)

lemma round_to_double_at:
  assumes "pow2 e \<le> \<bar>x\<bar>" and "\<bar>x\<bar> < pow2 (e + 1)"
  shows "round_to_double x =
     (let q = pow2 (max e (- 1022) - 52);
          r = real_of_int (round_half_even (x / q)) * q
      in if pow2 1024 \<le> \<bar>r\<bar> then (if 0 < x then PInf else NInf) else Fin r)"
proof -
  have x: "x \<noteq> 0" using assms(1) pow2_pos[of e] by auto
  show ?thesis using x exponent_of_unique[OF assms] by (simp add: round_to_double_def)
qed

lemmas dev = round_half_even_def pow2_def Let_def round_to_double_zero


subsection \<open>The angle loops on binary64\<close>

lemma M_PI_value: "M_PI = Fin (884279719003555 / 2 ^ 48)"
  by (simp add: M_PI_def dev round_to_double_at[where e = 1])

lemma two_M_PI_value: "fmul (Fin 2) M_PI = Fin (884279719003555 / 2 ^ 47)"
  by (simp add: M_PI_value dev round_to_double_at[where e = 2])

lemma fneg_M_PI_value: "fneg M_PI = Fin (- (884279719003555 / 2 ^ 48))"
  by (simp add: M_PI_value)

lemma sub_loop_d_stuck:
  assumes "fgt a M_PI" and "fsub a (fmul (Fin 2) M_PI) = a"
  shows "sub_loop_d a = None"
proof -
  have "sub_loop_d b = Some y \<Longrightarrow> b \<noteq> a" for b y
  proof (rule sub_loop_d.raw_induct[where P = "\<lambda>b y. b \<noteq> a"])
    fix f b y
    assume IH: "\<And>x y. f x = Some y \<Longrightarrow> x \<noteq> a"
      and st: "(if fgt b M_PI then f (fsub b (fmul (Fin 2) M_PI)) else Some b) = Some y"
    show "b \<noteq> a"
    proof
      assume "b = a"
      with st assms have "f a = Some y" by simp
      with IH show False by blast
    qed
  qed
  then show ?thesis by (cases "sub_loop_d a") auto
qed

lemma add_loop_d_stuck:
  assumes "flt a (fneg M_PI)" and "fadd a (fmul (Fin 2) M_PI) = a"
  shows "add_loop_d a = None"
proof -
  have "add_loop_d b = Some y \<Longrightarrow> b \<noteq> a" for b y
  proof (rule add_loop_d.raw_induct[where P = "\<lambda>b y. b \<noteq> a"])
    fix f b y
    assume IH: "\<And>x y. f x = Some y \<Longrightarrow> x \<noteq> a"
      and st: "(if flt b (fneg M_PI) then f (fadd b (fmul (Fin 2) M_PI)) else Some b) = Some y"
    show "b \<noteq> a"
    proof
      assume "b = a"
      with st assms have "f a = Some y" by simp
      with IH show False by blast
    qed
  qed
  then show ?thesis by (cases "add_loop_d a") auto
qed

lemma sub_loop_d_returns:
  "a \<le> real n \<Longrightarrow> \<bar>a\<bar> \<le> 2 ^ 56 \<Longrightarrow>
   \<exists>y. sub_loop_d (Fin a) = Some (Fin y) \<and> \<bar>y\<bar> \<le> max \<bar>a\<bar> 8"
proof (induction n arbitrary: a rule: less_induct)
  case (less n)
  show ?case
  proof (cases "fgt (Fin a) M_PI")
    case False
    then have "sub_loop_d (Fin a) = Some (Fin a)" by (subst sub_loop_d.simps) simp
    then show ?thesis by simp
  next
    case True
    then have big: "884279719003555 / 2 ^ 48 < a" by (simp add: fgt_def M_PI_value)
    define x where "x = a - 884279719003555 / 2 ^ 47"
    have "\<bar>x\<bar> < pow2 56" using big less.prems(2) by (simp add: x_def pow2_def)
    from round_to_double_finite[OF this] obtain r where
      r: "round_to_double x = Fin r" and err: "\<bar>r - x\<bar> \<le> pow2 2" by auto
    have step: "fsub (Fin a) (fmul (Fin 2) M_PI) = Fin r"
      using r by (simp add: two_M_PI_value fsub_def x_def)
    have e4: "\<bar>r - x\<bar> \<le> 4" using err by (simp add: pow2_def)
    have "3 < a" using big by simp
    then have n4: "4 \<le> n" using less.prems(1) by linarith
    have up: "r \<le> a - 2" using e4 by (simp add: x_def)
    have low: "- 8 \<le> r" using e4 big by (simp add: x_def)
    have "r \<le> real (n - 2)" using up less.prems(1) n4 by (simp add: of_nat_diff)
    moreover have rb: "\<bar>r\<bar> \<le> max \<bar>a\<bar> 8" using up low by linarith
    moreover have "\<bar>r\<bar> \<le> 2 ^ 56" using rb less.prems(2) by simp
    moreover have "n - 2 < n" using n4 by simp
    ultimately obtain y where "sub_loop_d (Fin r) = Some (Fin y)" "\<bar>y\<bar> \<le> max \<bar>r\<bar> 8"
      using less.IH by blast
    moreover have "sub_loop_d (Fin a) = sub_loop_d (Fin r)"
      using True step by (subst sub_loop_d.simps) simp
    ultimately show ?thesis using rb by auto
  qed
qed

lemma add_loop_d_returns:
  "- real n \<le> a \<Longrightarrow> \<bar>a\<bar> \<le> 2 ^ 56 \<Longrightarrow>
   \<exists>y. add_loop_d (Fin a) = Some (Fin y) \<and> \<bar>y\<bar> \<le> max \<bar>a\<bar> 8"
proof (induction n arbitrary: a rule: less_induct)
  case (less n)
  show ?case
  proof (cases "flt (Fin a) (fneg M_PI)")
    case False
    then have "add_loop_d (Fin a) = Some (Fin a)" by (subst add_loop_d.simps) simp
    then show ?thesis by simp
  next
    case True
    then have big: "a < - (884279719003555 / 2 ^ 48)" by (simp add: fneg_M_PI_value)
    define x where "x = a + 884279719003555 / 2 ^ 47"
    have "\<bar>x\<bar> < pow2 56" using big less.prems(2) by (simp add: x_def pow2_def)
    from round_to_double_finite[OF this] obtain r where
      r: "round_to_double x = Fin r" and err: "\<bar>r - x\<bar> \<le> pow2 2" by auto
    have step: "fadd (Fin a) (fmul (Fin 2) M_PI) = Fin r"
      using r by (simp add: two_M_PI_value x_def)
    have e4: "\<bar>r - x\<bar> \<le> 4" using err by (simp add: pow2_def)
    have "a < - 3" using big by simp
    then have n4: "4 \<le> n" using less.prems(1) by linarith
    have low: "a + 2 \<le> r" using e4 by (simp add: x_def)
    have up: "r \<le> 8" using e4 big by (simp add: x_def)
    have "- real (n - 2) \<le> r" using low less.prems(1) n4 by (simp add: of_nat_diff)
    moreover have rb: "\<bar>r\<bar> \<le> max \<bar>a\<bar> 8" using up low by linarith
    moreover have "\<bar>r\<bar> \<le> 2 ^ 56" using rb less.prems(2) by simp
    moreover have "n - 2 < n" using n4 by simp
    ultimately obtain y where "add_loop_d (Fin r) = Some (Fin y)" "\<bar>y\<bar> \<le> max \<bar>r\<bar> 8"
      using less.IH by blast
    moreover have "add_loop_d (Fin a) = add_loop_d (Fin r)"
      using True step by (subst add_loop_d.simps) simp
    ultimately show ?thesis using rb by auto
  qed
qed

lemma sub_loop_d_in_range:
  assumes "\<bar>a\<bar> \<le> 2 ^ 56"
  shows "\<exists>y. sub_loop_d (Fin a) = Some (Fin y) \<and> \<bar>y\<bar> \<le> max \<bar>a\<bar> 8"
proof -
  have "a \<le> real (nat \<lceil>a\<rceil>)" by linarith
  then show ?thesis using assms by (rule sub_loop_d_returns)
qed

lemma add_loop_d_in_range:
  assumes "\<bar>a\<bar> \<le> 2 ^ 56"
  shows "\<exists>y. add_loop_d (Fin a) = Some (Fin y) \<and> \<bar>y\<bar> \<le> max \<bar>a\<bar> 8"
proof -
  have "- real (nat \<lceil>- a\<rceil>) \<le> a" by linarith
  then show ?thesis using assms by (rule add_loop_d_returns)
qed

lemma angle_normalization_d_bound:
  assumes "\<bar>a\<bar> \<le> 2 ^ 56"
  shows "\<exists>y. angle_normalization_d (Fin a) = Some (Fin y) \<and> \<bar>y\<bar> \<le> max \<bar>a\<bar> 8"
proof -
  from sub_loop_d_in_range[OF assms] obtain y where
    y: "sub_loop_d (Fin a) = Some (Fin y)" "\<bar>y\<bar> \<le> max \<bar>a\<bar> 8" by blast
  then have "\<bar>y\<bar> \<le> 2 ^ 56" using assms by simp
  from add_loop_d_in_range[OF this] obtain z where
    z: "add_loop_d (Fin y) = Some (Fin z)" "\<bar>z\<bar> \<le> max \<bar>y\<bar> 8" by blast
  have "\<bar>z\<bar> \<le> max \<bar>a\<bar> 8" using y(2) z(2) by linarith
  with y z show ?thesis by (simp add: angle_normalization_d_def)
qed

lemma angle_normalization_d_returns:
  assumes "angle_in_range a"
  shows "\<exists>y. angle_normalization_d a = Some y"
proof (cases a)
  case (Fin v)
  with assms have v: "\<bar>v\<bar> \<le> 2 ^ 56" by (simp add: angle_in_range_def)
  from angle_normalization_d_bound[OF v] show ?thesis using Fin by blast
next
  case NaN
  have "sub_loop_d NaN = Some NaN"
    by (subst sub_loop_d.simps) (simp add: fgt_def M_PI_value)
  moreover have "add_loop_d NaN = Some NaN"
    by (subst add_loop_d.simps) simp
  ultimately show ?thesis using NaN by (simp add: angle_normalization_d_def)
qed (use assms in \<open>simp_all add: angle_in_range_def\<close>)

lemma normalize_at_d_returns:
  "angle_in_range (v ! k) \<Longrightarrow> \<exists>v'. normalize_at_d k v = Some v'"
  using angle_normalization_d_returns[of "v ! k"] by (auto simp: normalize_at_d_def)

lemma fold_option_returns:
  "(\<And>i P. i \<in> set xs \<Longrightarrow> \<exists>P'. f i (Some P) = Some P') \<Longrightarrow>
   \<exists>P'. fold f xs (Some P) = Some P'"
proof (induction xs arbitrary: P)
  case Nil
  show ?case by simp
next
  case (Cons i xs)
  from Cons.prems[of i P] obtain P1 where "f i (Some P) = Some P1" by auto
  moreover from Cons.IH[of P1] Cons.prems obtain P2 where "fold f xs (Some P1) = Some P2"
    by (metis list.set_intros(2))
  ultimately show ?case by simp
qed

lemma predicted_covariance_d_returns:
  assumes "\<forall>i<2 * n_aug_d s + 1. angle_in_range (dvec_sub (dcol (Xsig_pred_d s) i) x ! 3)"
  shows "\<exists>P. predicted_covariance_d s x = Some P"
  unfolding predicted_covariance_d_def
proof (rule fold_option_returns)
  fix i P
  assume "i \<in> set [0..<2 * n_aug_d s + 1]"
  with assms have "angle_in_range (dvec_sub (dcol (Xsig_pred_d s) i) x ! 3)" by auto
  from normalize_at_d_returns[OF this] obtain d where
    "normalize_at_d 3 (dvec_sub (dcol (Xsig_pred_d s) i) x) = Some d" by blast
  then show "\<exists>P'. do {
               P \<leftarrow> Some P;
               x_diff \<leftarrow> normalize_at_d 3 (dvec_sub (dcol (Xsig_pred_d s) i) x);
               Some (dmat_add P (douter (dvec_scale (weights_d s ! i) x_diff) x_diff))
             } = Some P'" by simp
qed

lemma radar_S_d_returns:
  assumes "\<forall>i<2 * n_aug_d s + 1. angle_in_range (dvec_sub (dcol Zsig i) z_pred ! 1)"
  shows "\<exists>S. radar_S_d s Zsig z_pred = Some S"
proof -
  define F where
    "F = fold (\<lambda>i So. do {
                    S \<leftarrow> So;
                    z_diff \<leftarrow> normalize_at_d 1 (dvec_sub (dcol Zsig i) z_pred);
                    Some (dmat_add S (douter (dvec_scale (weights_d s ! i) z_diff) z_diff))
                  })
              [0..<2 * n_aug_d s + 1] (Some (dzero_mat 3 3))"
  have "\<exists>S. F = Some S"
    unfolding F_def
  proof (rule fold_option_returns)
    fix i S
    assume "i \<in> set [0..<2 * n_aug_d s + 1]"
    with assms have "angle_in_range (dvec_sub (dcol Zsig i) z_pred ! 1)" by auto
    from normalize_at_d_returns[OF this] obtain d where
      "normalize_at_d 1 (dvec_sub (dcol Zsig i) z_pred) = Some d" by blast
    then show "\<exists>P'. do {
                 S \<leftarrow> Some S;
                 z_diff \<leftarrow> normalize_at_d 1 (dvec_sub (dcol Zsig i) z_pred);
                 Some (dmat_add S (douter (dvec_scale (weights_d s ! i) z_diff) z_diff))
               } = Some P'" by simp
  qed
  then obtain S where "F = Some S" by blast
  then show ?thesis unfolding radar_S_d_def F_def[symmetric] by simp
qed

lemma cross_correlation_d_returns:
  assumes "\<forall>i<2 * n_aug_d s + 1. angle_in_range (dvec_sub (dcol Zsig i) z_pred ! 1)"
    and "\<forall>i<2 * n_aug_d s + 1. angle_in_range (dvec_sub (dcol (Xsig_pred_d s) i) (x_d s) ! 3)"
  shows "\<exists>Tc. cross_correlation_d s n_z Zsig z_pred = Some Tc"
  unfolding cross_correlation_d_def
proof (rule fold_option_returns)
  fix i Tc
  assume i: "i \<in> set [0..<2 * n_aug_d s + 1]"
  with assms(1) have "angle_in_range (dvec_sub (dcol Zsig i) z_pred ! 1)" by auto
  from normalize_at_d_returns[OF this] obtain dz where
    dz: "normalize_at_d 1 (dvec_sub (dcol Zsig i) z_pred) = Some dz" by blast
  from i assms(2) have "angle_in_range (dvec_sub (dcol (Xsig_pred_d s) i) (x_d s) ! 3)" by auto
  from normalize_at_d_returns[OF this] obtain dx where
    dx: "normalize_at_d 3 (dvec_sub (dcol (Xsig_pred_d s) i) (x_d s)) = Some dx" by blast
  from dz dx show "\<exists>P'. do {
               Tc \<leftarrow> Some Tc;
               z_diff \<leftarrow> normalize_at_d 1 (dvec_sub (dcol Zsig i) z_pred);
               x_diff \<leftarrow> normalize_at_d 3 (dvec_sub (dcol (Xsig_pred_d s) i) (x_d s));
               Some (dmat_add Tc (douter (dvec_scale (weights_d s ! i) x_diff) z_diff))
             } = Some P'" by simp
qed


subsection \<open>The weights of the constructor on binary64\<close>

lemma lambda_d_value: "double_of_int (- 4) = Fin (- 4)"
  by (simp add: double_of_int_def dev round_to_double_at[where e = 2])

lemma seven_value: "double_of_int 7 = Fin 7"
  by (simp add: double_of_int_def dev round_to_double_at[where e = 2])

lemma weight_0_value:
  "fdiv (Fin (- 4)) (fadd (Fin (- 4)) (Fin 7)) = Fin (- (6004799503160661 / 2 ^ 52))"
  by (simp add: dev round_to_double_at[where e = 1] round_to_double_at[where e = 0])

lemma weight_value:
  "fdiv (Fin (1 / 2)) (fadd (Fin 7) (Fin (- 4))) = Fin (6004799503160661 / 2 ^ 55)"
  by (simp add: dev round_to_double_at[where e = 1] round_to_double_at[where e = "- 3"])

lemma weights_d_value:
  "weights_d UKF_new_d =
     Fin (- (6004799503160661 / 2 ^ 52)) # replicate 14 (Fin (6004799503160661 / 2 ^ 55))"
  by (simp add: UKF_new_d_def fill_weights_d_def dzero_vec_def Let_def eval_nat_numeral
      lambda_d_value seven_value weight_0_value weight_value del: fdiv.simps fadd.simps)

lemma weights_d_exact_sum:
  "sum_list (map fin_value (weights_d UKF_new_d)) = 1 - 1 / 2 ^ 54"
  by (simp add: weights_d_value eval_nat_numeral)

lemma weights_d_rounded_sum:
  "fold (\<lambda>w acc. fadd acc w) (weights_d UKF_new_d) (Fin 0) = Fin (1 - 1 / 2 ^ 52)"
  by (simp add: weights_d_value eval_nat_numeral dev
      round_to_double_at[where e = 0] round_to_double_at[where e = "- 1"]
      round_to_double_at[where e = "- 2"] round_to_double_at[where e = "- 3"]
      round_to_double_at[where e = "- 54"])

section \<open>The weights in binary64\<close>

text \<open>
  Claim C8, as amended. The constructor sets \<open>n_aug = 7\<close> and \<open>lambda = 3 - n_aug\<close> and
  builds 15 weights: the first is the quotient \<open>lambda / (lambda + n_aug)\<close> rounded to
  binary64, which is \<open>-6004799503160661 / 2\<^sup>5\<^sup>2\<close>, and each of the other 14 is the quotient
  \<open>0.5 / (n_aug + lambda)\<close> rounded to binary64, which is \<open>6004799503160661 / 2\<^sup>5\<^sup>5\<close>. The
  sum of the 15 stored numbers is \<open>1 - 2\<^sup>-\<^sup>5\<^sup>4\<close>, and adding them in binary64 from index 0
  to index 14 gives \<open>1 - 2\<^sup>-\<^sup>5\<^sup>2\<close>.
\<close>

theorem constructor_weights_d:
  "n_aug_d UKF_new_d = 7 \<and>
   lambda_d UKF_new_d = double_of_int (3 - int (n_aug_d UKF_new_d)) \<and>
   length (weights_d UKF_new_d) = 15 \<and>
   weights_d UKF_new_d =
     fdiv (lambda_d UKF_new_d)
       (fadd (lambda_d UKF_new_d) (double_of_int (int (n_aug_d UKF_new_d)))) #
     replicate 14
       (fdiv (Fin (1 / 2)) (fadd (double_of_int (int (n_aug_d UKF_new_d))) (lambda_d UKF_new_d))) \<and>
   weights_d UKF_new_d =
     Fin (- (6004799503160661 / 2 ^ 52)) # replicate 14 (Fin (6004799503160661 / 2 ^ 55)) \<and>
   sum_list (map fin_value (weights_d UKF_new_d)) = 1 - 1 / 2 ^ 54 \<and>
   fold (\<lambda>w acc. fadd acc w) (weights_d UKF_new_d) (Fin 0) = Fin (1 - 1 / 2 ^ 52)"
proof -
  have n: "n_aug_d UKF_new_d = 7" and l: "lambda_d UKF_new_d = Fin (- 4)"
    by (simp_all add: UKF_new_d_def Let_def lambda_d_value)
  have l': "lambda_d UKF_new_d = double_of_int (3 - int (n_aug_d UKF_new_d))"
    unfolding n l by (simp add: lambda_d_value)
  have len: "length (weights_d UKF_new_d) = 15" by (simp add: weights_d_value)
  have w0: "fdiv (lambda_d UKF_new_d)
       (fadd (lambda_d UKF_new_d) (double_of_int (int (n_aug_d UKF_new_d)))) =
     Fin (- (6004799503160661 / 2 ^ 52))"
    unfolding n l by (simp only: of_nat_numeral seven_value weight_0_value)
  have w: "fdiv (Fin (1 / 2)) (fadd (double_of_int (int (n_aug_d UKF_new_d))) (lambda_d UKF_new_d)) =
     Fin (6004799503160661 / 2 ^ 55)"
    unfolding n l by (simp only: of_nat_numeral seven_value weight_value)
  show ?thesis
    unfolding w0 w
    using n l' len weights_d_value weights_d_exact_sum weights_d_rounded_sum
    by (intro conjI)
qed

text \<open>
  Claim C8 as stated says that the sum of the 15 weights is exactly 1. Neither the sum of
  the stored numbers nor the sum computed in binary64 is 1.
\<close>

theorem weights_sum_counterexample:
  "sum_list (map fin_value (weights_d UKF_new_d)) \<noteq> 1 \<and>
   fold (\<lambda>w acc. fadd acc w) (weights_d UKF_new_d) (Fin 0) \<noteq> Fin 1"
  by (simp add: weights_d_exact_sum weights_d_rounded_sum)

section \<open>The end of the angle loops in binary64\<close>

lemma ex10_fields:
  "n_aug_d ex10_filter = 7"
  "x_d ex10_filter = [Fin 0, Fin 0, Fin 0, Fin 0, Fin 0]"
  "Xsig_pred_d ex10_filter =
     [replicate 15 (Fin 0), replicate 15 (Fin 0), replicate 15 (Fin 0),
      replicate 15 (Fin 10), replicate 15 (Fin 0)]"
  by (simp_all add: ex10_filter_def UKF_new_d_def dzero_vec_def Let_def eval_nat_numeral)

lemma ex17_fields:
  "n_aug_d ex17_filter = 7"
  "Xsig_pred_d ex17_filter =
     [replicate 15 (Fin 0), replicate 15 (Fin 0), replicate 15 (Fin 0),
      replicate 15 (Fin (10 ^ 17)), replicate 15 (Fin 0)]"
  by (simp_all add: ex17_filter_def UKF_new_d_def dzero_vec_def Let_def)

lemma stuck_value: "fsub (Fin (10 ^ 17)) (fmul (Fin 2) M_PI) = Fin (10 ^ 17)"
  by (simp add: two_M_PI_value fsub_def dev round_to_double_at[where e = 56])

lemma stuck_value_neg: "fadd (Fin (- (10 ^ 17))) (fmul (Fin 2) M_PI) = Fin (- (10 ^ 17))"
  by (simp add: two_M_PI_value dev round_to_double_at[where e = 56])

lemma sub_loop_d_stuck_at: "sub_loop_d (Fin (10 ^ 17)) = None"
  by (rule sub_loop_d_stuck) (simp add: fgt_def M_PI_value, rule stuck_value)

lemma add_loop_d_stuck_at: "add_loop_d (Fin (- (10 ^ 17))) = None"
  by (rule add_loop_d_stuck) (simp add: fneg_M_PI_value, rule stuck_value_neg)

lemma fold_bind_None:
  "fold (\<lambda>i Po. Po \<bind> g i) xs None = None"
  by (induction xs) simp_all

text \<open>
  Claim C10, as amended. Each of the two angle loops ends for every finite angle of
  magnitude at most \<open>2\<^sup>5\<^sup>6\<close>, and so do the two in sequence. The covariance prediction,
  the accumulation of the radar innovation covariance and the accumulation of the cross
  correlation return when each angle difference they normalize is finite of magnitude at
  most \<open>2\<^sup>5\<^sup>6\<close> or is not a number.
\<close>

theorem angle_loops_return_in_range:
  assumes "\<bar>a\<bar> \<le> 2 ^ 56"
    and "\<forall>i<2 * n_aug_d s + 1. angle_in_range (dvec_sub (dcol (Xsig_pred_d s) i) x ! 3)"
    and "\<forall>i<2 * n_aug_d s + 1. angle_in_range (dvec_sub (dcol Zsig i) z_pred ! 1)"
    and "\<forall>i<2 * n_aug_d s + 1. angle_in_range (dvec_sub (dcol (Xsig_pred_d s) i) (x_d s) ! 3)"
  shows "(\<exists>y. sub_loop_d (Fin a) = Some y) \<and>
         (\<exists>y. add_loop_d (Fin a) = Some y) \<and>
         (\<exists>y. angle_normalization_d (Fin a) = Some y) \<and>
         (\<exists>P. predicted_covariance_d s x = Some P) \<and>
         (\<exists>S. radar_S_d s Zsig z_pred = Some S) \<and>
         (\<exists>Tc. cross_correlation_d s n_z Zsig z_pred = Some Tc)"
proof (intro conjI)
  show "\<exists>y. sub_loop_d (Fin a) = Some y"
    using sub_loop_d_in_range[OF assms(1)] by blast
  show "\<exists>y. add_loop_d (Fin a) = Some y"
    using add_loop_d_in_range[OF assms(1)] by blast
  have "angle_in_range (Fin a)" using assms(1) by (simp add: angle_in_range_def)
  then show "\<exists>y. angle_normalization_d (Fin a) = Some y"
    using angle_normalization_d_returns by blast
  show "\<exists>P. predicted_covariance_d s x = Some P"
    using assms(2) by (rule predicted_covariance_d_returns)
  show "\<exists>S. radar_S_d s Zsig z_pred = Some S"
    using assms(3) by (rule radar_S_d_returns)
  show "\<exists>Tc. cross_correlation_d s n_z Zsig z_pred = Some Tc"
    using assms(3) assms(4) by (rule cross_correlation_d_returns)
qed

text \<open>
  The theorem on the angle 10, on the filter whose predicted sigma points all have the yaw
  10 about the state zero, and on radar sigma points that are all zero.
\<close>

theorem angle_loops_return_in_range_witness:
  "\<bar>10 :: real\<bar> \<le> 2 ^ 56 \<and>
   map (\<lambda>i. dvec_sub (dcol (Xsig_pred_d ex10_filter) i) (dzero_vec 5) ! 3)
     [0..<2 * n_aug_d ex10_filter + 1] = replicate 15 (Fin 10) \<and>
   map (\<lambda>i. dvec_sub (dcol ex10_Zsig i) (dzero_vec 3) ! 1)
     [0..<2 * n_aug_d ex10_filter + 1] = replicate 15 (Fin 0) \<and>
   (\<exists>y. angle_normalization_d (Fin 10) = Some y) \<and>
   (\<exists>P. predicted_covariance_d ex10_filter (dzero_vec 5) = Some P) \<and>
   (\<exists>S. radar_S_d ex10_filter ex10_Zsig (dzero_vec 3) = Some S) \<and>
   (\<exists>Tc. cross_correlation_d ex10_filter 3 ex10_Zsig (dzero_vec 3) = Some Tc)"
proof -
  have ten: "fsub (Fin 10) (Fin 0) = Fin 10"
    by (simp add: fsub_def dev round_to_double_at[where e = 3])
  have zero: "fsub (Fin 0) (Fin 0) = Fin 0"
    by (simp add: fsub_def dev)
  have z5: "dzero_vec 5 = [Fin 0, Fin 0, Fin 0, Fin 0, Fin 0]"
    and z3: "dzero_vec 3 = [Fin 0, Fin 0, Fin 0]"
    by (simp_all add: dzero_vec_def eval_nat_numeral)
  have X: "\<forall>i<2 * n_aug_d ex10_filter + 1.
      dvec_sub (dcol (Xsig_pred_d ex10_filter) i) (dzero_vec 5) ! 3 = Fin 10"
    by (simp add: ex10_fields dvec_sub_def dcol_def z5 ten zero)
  have Z: "\<forall>i<2 * n_aug_d ex10_filter + 1.
      dvec_sub (dcol ex10_Zsig i) (dzero_vec 3) ! 1 = Fin 0"
    by (simp add: ex10_fields ex10_Zsig_def dvec_sub_def dcol_def z3 zero)
  have a: "\<bar>10 :: real\<bar> \<le> 2 ^ 56" by simp
  have hX: "\<forall>i<2 * n_aug_d ex10_filter + 1.
      angle_in_range (dvec_sub (dcol (Xsig_pred_d ex10_filter) i) (dzero_vec 5) ! 3)"
    using X by (simp add: angle_in_range_def)
  have hZ: "\<forall>i<2 * n_aug_d ex10_filter + 1.
      angle_in_range (dvec_sub (dcol ex10_Zsig i) (dzero_vec 3) ! 1)"
    using Z by (simp add: angle_in_range_def)
  have hx: "\<forall>i<2 * n_aug_d ex10_filter + 1.
      angle_in_range (dvec_sub (dcol (Xsig_pred_d ex10_filter) i) (x_d ex10_filter) ! 3)"
    using X by (simp add: angle_in_range_def ex10_fields z5)
  have n: "2 * n_aug_d ex10_filter + 1 = 15" by (simp add: ex10_fields)
  have mX: "map (\<lambda>i. dvec_sub (dcol (Xsig_pred_d ex10_filter) i) (dzero_vec 5) ! 3)
     [0..<2 * n_aug_d ex10_filter + 1] = replicate 15 (Fin 10)"
    using X unfolding n by (simp add: list_eq_iff_nth_eq)
  have mZ: "map (\<lambda>i. dvec_sub (dcol ex10_Zsig i) (dzero_vec 3) ! 1)
     [0..<2 * n_aug_d ex10_filter + 1] = replicate 15 (Fin 0)"
    using Z unfolding n by (simp add: list_eq_iff_nth_eq)
  show ?thesis
    using a mX mZ angle_loops_return_in_range[OF a hX hZ hx, of 3] by blast
qed

text \<open>
  Claim C10 as stated says that the loops end for every finite angle. They do not on the
  angle \<open>10\<^sup>1\<^sup>7\<close>: neighbouring binary64 numbers of that size are 16 apart, so
  \<open>10\<^sup>1\<^sup>7 - 2 * M_PI\<close> rounds to \<open>10\<^sup>1\<^sup>7\<close> again and the first loop never ends; the
  second loop does the same on \<open>-10\<^sup>1\<^sup>7\<close>, and the covariance prediction on sigma points
  with that yaw does not return.
\<close>

theorem angle_loop_stuck_counterexample:
  "fsub (Fin (10 ^ 17)) (fmul (Fin 2) M_PI) = Fin (10 ^ 17) \<and>
   sub_loop_d (Fin (10 ^ 17)) = None \<and>
   add_loop_d (Fin (- (10 ^ 17))) = None \<and>
   angle_normalization_d (Fin (10 ^ 17)) = None \<and>
   predicted_covariance_d ex17_filter (dzero_vec 5) = None"
proof -
  have r: "fsub (Fin (10 ^ 17)) (Fin 0) = Fin (10 ^ 17)"
    by (simp add: fsub_def dev round_to_double_at[where e = 56])
  have z5: "dzero_vec 5 = [Fin 0, Fin 0, Fin 0, Fin 0, Fin 0]"
    by (simp add: dzero_vec_def eval_nat_numeral)
  have "dvec_sub (dcol (Xsig_pred_d ex17_filter) 0) (dzero_vec 5) ! 3 = Fin (10 ^ 17)"
    using r by (simp add: ex17_fields dvec_sub_def dcol_def z5)
  then have "normalize_at_d 3 (dvec_sub (dcol (Xsig_pred_d ex17_filter) 0) (dzero_vec 5)) = None"
    by (simp only: normalize_at_d_def angle_normalization_d_def sub_loop_d_stuck_at) simp
  then have "predicted_covariance_d ex17_filter (dzero_vec 5) = None"
    by (simp add: predicted_covariance_d_def ex17_fields upt_rec[of 0] fold_bind_None)
  with stuck_value sub_loop_d_stuck_at add_loop_d_stuck_at show ?thesis
    by (simp only: angle_normalization_d_def) simp
qed

section \<open>Rounding errors of the covariance accumulation\<close>

lemma fmul_bounded:
  assumes a: "\<bar>a\<bar> \<le> A" and b: "\<bar>b\<bar> \<le> B" and lo: "1 \<le> A * B" and hi: "A * B \<le> 2 ^ 1000"
  shows "\<exists>t. fmul (Fin a) (Fin b) = Fin t \<and> \<bar>t - a * b\<bar> \<le> A * B / 2 ^ 52"
proof -
  have A: "0 \<le> A" using a by linarith
  have ab: "\<bar>a * b\<bar> \<le> A * B"
    unfolding abs_mult using a b A by (intro mult_mono) simp_all
  have "(2::real) ^ 1000 \<le> pow2 1023" by (simp add: pow2_def)
  then have "\<bar>a * b\<bar> \<le> pow2 1023" using ab hi by linarith
  from round_to_double_relative[OF this] obtain t where
    t: "round_to_double (a * b) = Fin t" and e: "\<bar>t - a * b\<bar> \<le> \<bar>a * b\<bar> / 2 ^ 53 + 1 / 2 ^ 1075"
    by blast
  have "\<bar>a * b\<bar> / 2 ^ 53 \<le> A * B / 2 ^ 53" using ab by (simp add: divide_right_mono)
  moreover have "(1::real) / 2 ^ 1075 \<le> 1 / 2 ^ 53" by simp
  moreover have "1 / 2 ^ 53 \<le> A * B / 2 ^ 53" using lo by (simp add: divide_right_mono)
  moreover have "A * B / 2 ^ 53 + A * B / 2 ^ 53 = A * B / 2 ^ 52" by simp
  ultimately have "\<bar>t - a * b\<bar> \<le> A * B / 2 ^ 52" using e by linarith
  with t show ?thesis by simp
qed

lemma fadd_bounded:
  assumes ab: "\<bar>a\<bar> + \<bar>b\<bar> \<le> C" and lo: "1 \<le> C" and hi: "C \<le> 2 ^ 1000"
  shows "\<exists>t. fadd (Fin a) (Fin b) = Fin t \<and> \<bar>t - (a + b)\<bar> \<le> C / 2 ^ 52"
proof -
  have s: "\<bar>a + b\<bar> \<le> C" using ab by linarith
  have "(2::real) ^ 1000 \<le> pow2 1023" by (simp add: pow2_def)
  then have "\<bar>a + b\<bar> \<le> pow2 1023" using s hi by linarith
  from round_to_double_relative[OF this] obtain t where
    t: "round_to_double (a + b) = Fin t" and e: "\<bar>t - (a + b)\<bar> \<le> \<bar>a + b\<bar> / 2 ^ 53 + 1 / 2 ^ 1075"
    by blast
  have "\<bar>a + b\<bar> / 2 ^ 53 \<le> C / 2 ^ 53" using s by (simp add: divide_right_mono)
  moreover have "(1::real) / 2 ^ 1075 \<le> 1 / 2 ^ 53" by simp
  moreover have "1 / 2 ^ 53 \<le> C / 2 ^ 53" using lo by (simp add: divide_right_mono)
  moreover have "C / 2 ^ 53 + C / 2 ^ 53 = C / 2 ^ 52" by simp
  ultimately have "\<bar>t - (a + b)\<bar> \<le> C / 2 ^ 52" using e by linarith
  with t show ?thesis by simp
qed
lemma covariance_entry_step:
  assumes w: "\<bar>w\<bar> \<le> 2" and a: "\<bar>a\<bar> \<le> D" and b: "\<bar>b\<bar> \<le> D"
    and D1: "1 \<le> D" and D2: "D \<le> 2 ^ 60" and k: "k \<le> 14"
    and e: "\<bar>e\<bar> \<le> 2 * real k * (D * D)"
    and p: "\<bar>p - e\<bar> \<le> 37 * real k * (D * D) / 2 ^ 52"
  shows "\<exists>s. fadd (Fin p) (fmul (fmul (Fin w) (Fin a)) (Fin b)) = Fin s \<and>
             \<bar>s - (e + w * a * b)\<bar> \<le> 37 * real (Suc k) * (D * D) / 2 ^ 52"
proof -
  have p52: "(2::real) ^ 52 = 4503599627370496" by simp
  define Q where "Q = D * D"
  define X where "X = real k * Q"
  have "1 * 1 \<le> D * D" using D1 by (intro mult_mono) simp_all
  then have Q1: "1 \<le> Q" by (simp add: Q_def)
  have "D * D \<le> 2 ^ 60 * 2 ^ 60" using D1 D2 by (intro mult_mono) simp_all
  then have Q2: "Q \<le> 2 ^ 120" by (simp add: Q_def)
  have X0: "0 \<le> X" and X14: "X \<le> 14 * Q"
    using k Q1 by (simp_all add: X_def mult_right_mono)
  have wa: "\<bar>w * a\<bar> \<le> 2 * D"
    unfolding abs_mult using w a by (intro mult_mono) simp_all
  have "(2::real) ^ 60 * 2 \<le> 2 ^ 1000" by simp
  then have "2 * D \<le> 2 ^ 1000" using D2 by linarith
  from fmul_bounded[OF w a _ this] D1 obtain t0 where
    t0: "fmul (Fin w) (Fin a) = Fin t0" and e0: "\<bar>t0 - w * a\<bar> \<le> 2 * D / 2 ^ 52" by auto
  have t0b: "\<bar>t0\<bar> \<le> 3 * D" using e0[unfolded p52] wa D1 by linarith
  have "(2::real) ^ 120 * 3 \<le> 2 ^ 1000" by simp
  then have h2: "3 * D * D \<le> 2 ^ 1000" using Q2 by (simp add: Q_def)
  have l2: "1 \<le> 3 * D * D" using Q1 by (simp add: Q_def)
  from fmul_bounded[OF t0b b l2 h2] obtain t where
    t: "fmul (Fin t0) (Fin b) = Fin t" and e1: "\<bar>t - t0 * b\<bar> \<le> 3 * D * D / 2 ^ 52" by auto
  have "\<bar>(t0 - w * a) * b\<bar> \<le> (2 * D / 2 ^ 52) * D"
    unfolding abs_mult using e0 b D1 by (intro mult_mono) simp_all
  then have e2: "\<bar>t0 * b - w * a * b\<bar> \<le> 2 * Q / 2 ^ 52"
    by (simp add: Q_def left_diff_distrib)
  have e1': "\<bar>t - t0 * b\<bar> \<le> 3 * Q / 2 ^ 52" using e1 by (simp add: Q_def)
  have e3: "\<bar>t - w * a * b\<bar> \<le> 5 * Q / 2 ^ 52"
    using e1'[unfolded p52] e2[unfolded p52] unfolding p52 by linarith
  have "\<bar>w * a * b\<bar> \<le> 2 * D * D"
    unfolding abs_mult[of "w * a" b] using wa b D1 by (intro mult_mono) simp_all
  then have wab: "\<bar>w * a * b\<bar> \<le> 2 * Q" by (simp add: Q_def)
  have tb: "\<bar>t\<bar> \<le> 3 * Q" using e3[unfolded p52] wab Q1 by linarith
  have pe: "\<bar>p - e\<bar> \<le> 37 * X / 2 ^ 52" using p by (simp add: X_def Q_def)
  have eb: "\<bar>e\<bar> \<le> 2 * X" using e by (simp add: X_def Q_def)
  have pb: "\<bar>p\<bar> \<le> 29 * Q" using pe[unfolded p52] eb X0 X14 by linarith
  have c: "\<bar>p\<bar> + \<bar>t\<bar> \<le> 32 * Q" using pb tb by linarith
  have "(2::real) ^ 120 * 32 \<le> 2 ^ 1000" by simp
  then have h3: "32 * Q \<le> 2 ^ 1000" using Q2 by linarith
  have l3: "1 \<le> 32 * Q" using Q1 by linarith
  from fadd_bounded[OF c l3 h3] obtain s where
    s: "fadd (Fin p) (Fin t) = Fin s" and e4: "\<bar>s - (p + t)\<bar> \<le> 32 * Q / 2 ^ 52" by auto
  have "\<bar>s - (e + w * a * b)\<bar> \<le> \<bar>s - (p + t)\<bar> + \<bar>p - e\<bar> + \<bar>t - w * a * b\<bar>"
    by linarith
  also have "\<dots> \<le> 32 * Q / 2 ^ 52 + 37 * X / 2 ^ 52 + 5 * Q / 2 ^ 52"
    using e4 pe e3 by (intro add_mono)
  also have "\<dots> = (37 * X + 37 * Q) / 2 ^ 52"
    by (simp add: add_divide_distrib)
  finally have "\<bar>s - (e + w * a * b)\<bar> \<le> (37 * X + 37 * Q) / 2 ^ 52" .
  also have "37 * X + 37 * Q = 37 * real (Suc k) * (D * D)"
    by (simp add: X_def Q_def algebra_simps)
  finally have "\<bar>s - (e + w * a * b)\<bar> \<le> 37 * real (Suc k) * (D * D) / 2 ^ 52" .
  with t0 t s show ?thesis by simp
qed
lemma bounded_by_iff: "bounded_by M a \<longleftrightarrow> (\<exists>v. a = Fin v \<and> \<bar>v\<bar> \<le> M)"
  by (cases a) (simp_all add: bounded_by_def)

lemma bounded_by_mono: "bounded_by M a \<Longrightarrow> M \<le> N \<Longrightarrow> bounded_by N a"
  by (auto simp: bounded_by_iff)

lemma cov_update_length:
  assumes "length P = n" and "\<forall>r<n. length (P ! r) = n" and "length d = n"
  shows "length (dmat_add P (douter (dvec_scale w d) d)) = n"
    and "\<forall>r<n. length (dmat_add P (douter (dvec_scale w d) d) ! r) = n"
  using assms by (simp_all add: dmat_add_def dvec_add_def douter_def dvec_scale_def)

lemma cov_update_nth:
  assumes "length P = n" and "\<forall>r<n. length (P ! r) = n" and "length d = n"
    and "r < n" and "c < n"
  shows "dmat_add P (douter (dvec_scale w d) d) ! r ! c =
         fadd (P ! r ! c) (fmul (fmul w (d ! r)) (d ! c))"
  using assms by (simp add: dmat_add_def dvec_add_def douter_def dvec_scale_def)

lemma mean_update_length:
  assumes "length x = n" and "length X = n"
  shows "length (dvec_add x (dvec_scale w (dcol X i))) = n"
  using assms by (simp add: dvec_add_def dvec_scale_def dcol_def)

lemma mean_update_nth:
  assumes "length x = n" and "length X = n" and "r < n"
  shows "dvec_add x (dvec_scale w (dcol X i)) ! r = fadd (x ! r) (fmul w (X ! r ! i))"
  using assms by (simp add: dvec_add_def dvec_scale_def dcol_def)

lemma residual_length:
  assumes "length x = n" and "length X = n"
  shows "length (dvec_sub (dcol X i) x) = n"
  using assms by (simp add: dvec_sub_def dcol_def)

lemma residual_nth:
  assumes "length x = n" and "length X = n" and "r < n"
  shows "dvec_sub (dcol X i) x ! r = fsub (X ! r ! i) (x ! r)"
  using assms by (simp add: dvec_sub_def dcol_def)

lemma fsub_bounded:
  assumes a: "bounded_by Ma a" and b: "bounded_by Mb b"
    and lo: "1 \<le> Ma + Mb" and hi: "Ma + Mb \<le> 2 ^ 60"
  shows "bounded_by ((Ma + Mb) * (1 + 1 / 2 ^ 52)) (fsub a b)"
proof -
  from a b obtain u v where u: "a = Fin u" "\<bar>u\<bar> \<le> Ma" and v: "b = Fin v" "\<bar>v\<bar> \<le> Mb"
    by (auto simp: bounded_by_iff)
  have c: "\<bar>u\<bar> + \<bar>- v\<bar> \<le> Ma + Mb" using u v by simp
  have "(2::real) ^ 60 \<le> 2 ^ 1000" by simp
  then have h: "Ma + Mb \<le> 2 ^ 1000" using hi by linarith
  from fadd_bounded[OF c lo h] obtain t where
    t: "fadd (Fin u) (Fin (- v)) = Fin t" and e: "\<bar>t - (u + - v)\<bar> \<le> (Ma + Mb) / 2 ^ 52" by auto
  have "\<bar>t\<bar> \<le> (Ma + Mb) + (Ma + Mb) / 2 ^ 52" using e c by linarith
  also have "\<dots> = (Ma + Mb) * (1 + 1 / 2 ^ 52)" by (simp add: algebra_simps)
  finally show ?thesis using t u v by (simp add: fsub_def bounded_by_iff)
qed

lemma mean_entry_step:
  assumes w: "bounded_by 2 w" and X: "bounded_by M v" and x: "bounded_by (4 * real k * M) a"
    and M1: "1 \<le> M" and M2: "M \<le> 2 ^ 60" and k: "k \<le> 14"
  shows "bounded_by (4 * real (Suc k) * M) (fadd a (fmul w v))"
proof -
  have p52: "(2::real) ^ 52 = 4503599627370496" by simp
  from w X x obtain w' v' a' where
    w': "w = Fin w'" "\<bar>w'\<bar> \<le> 2" and v': "v = Fin v'" "\<bar>v'\<bar> \<le> M"
    and a': "a = Fin a'" "\<bar>a'\<bar> \<le> 4 * real k * M"
    by (auto simp: bounded_by_iff)
  define Y where "Y = real k * M"
  have Y0: "0 \<le> Y" and Y14: "Y \<le> 14 * M"
    using k M1 by (simp_all add: Y_def mult_right_mono)
  have "(2::real) ^ 60 * 2 \<le> 2 ^ 1000" by simp
  then have h1: "2 * M \<le> 2 ^ 1000" using M2 by linarith
  from fmul_bounded[OF w'(2) v'(2) _ h1] M1 obtain t where
    t: "fmul (Fin w') (Fin v') = Fin t" and e: "\<bar>t - w' * v'\<bar> \<le> 2 * M / 2 ^ 52" by auto
  have "\<bar>w' * v'\<bar> \<le> 2 * M"
    unfolding abs_mult using w'(2) v'(2) by (intro mult_mono) simp_all
  then have tb: "\<bar>t\<bar> \<le> 3 * M" using e[unfolded p52] M1 by linarith
  have ab: "\<bar>a'\<bar> \<le> 4 * Y" using a'(2) by (simp add: Y_def)
  have c: "\<bar>a'\<bar> + \<bar>t\<bar> \<le> 4 * Y + 3 * M" using ab tb by linarith
  have "(2::real) ^ 60 * 59 \<le> 2 ^ 1000" by simp
  then have h2: "4 * Y + 3 * M \<le> 2 ^ 1000" using Y14 M2 by linarith
  have l2: "1 \<le> 4 * Y + 3 * M" using Y0 M1 by linarith
  from fadd_bounded[OF c l2 h2] obtain s where
    s: "fadd (Fin a') (Fin t) = Fin s" and e2: "\<bar>s - (a' + t)\<bar> \<le> (4 * Y + 3 * M) / 2 ^ 52"
    by auto
  have "(4 * Y + 3 * M) / 2 ^ 52 \<le> 59 * M / 2 ^ 52"
    using Y14 by (intro divide_right_mono) simp_all
  moreover have "59 * M / 2 ^ 52 \<le> M" using M1 by simp
  ultimately have "\<bar>s - (a' + t)\<bar> \<le> M" using e2 by linarith
  then have "\<bar>s\<bar> \<le> 4 * Y + 4 * M" using c by linarith
  also have "\<dots> = 4 * real (Suc k) * M" by (simp add: Y_def algebra_simps)
  finally show ?thesis using s t w' v' a' by (simp add: bounded_by_iff)
qed
lemma fold_upt_Suc: "fold f [0..<Suc k] a = f k (fold f [0..<k] a)"
  by simp

lemma predicted_mean_d_bounded:
  assumes n: "length (Xsig_pred_d s) = n_x_d s"
    and Xb: "list_all (list_all (bounded_by M)) (Xsig_pred_d s)"
    and Xl: "list_all (\<lambda>row. length row = 2 * n_aug_d s + 1) (Xsig_pred_d s)"
    and wl: "length (weights_d s) = 2 * n_aug_d s + 1"
    and wb: "list_all (bounded_by 2) (weights_d s)"
    and na: "n_aug_d s \<le> 7" and M1: "1 \<le> M" and M2: "M \<le> 2 ^ 50"
  shows "length (predicted_mean_d s) = n_x_d s \<and>
         (\<forall>r<n_x_d s. bounded_by (60 * M) (predicted_mean_d s ! r))"
proof -
  define m where "m = 2 * n_aug_d s + 1"
  define f where
    "f = (\<lambda>i x. dvec_add x (dvec_scale (weights_d s ! i) (dcol (Xsig_pred_d s) i)))"
  define F where "F = (\<lambda>k. fold f [0..<k] (dzero_vec (n_x_d s)))"
  have m15: "m \<le> 15" using na by (simp add: m_def)
  have "(2::real) ^ 50 \<le> 2 ^ 60" by simp
  then have M60: "M \<le> 2 ^ 60" using M2 by linarith
  have inv: "k \<le> m \<Longrightarrow> length (F k) = n_x_d s \<and>
               (\<forall>r<n_x_d s. bounded_by (4 * real k * M) (F k ! r))" for k
  proof (induction k)
    case 0
    show ?case by (simp add: F_def dzero_vec_def bounded_by_def)
  next
    case (Suc k)
    then have IH: "length (F k) = n_x_d s"
      "\<forall>r<n_x_d s. bounded_by (4 * real k * M) (F k ! r)" and km: "k < m" by simp_all
    have k14: "k \<le> 14" using km m15 by simp
    have step: "F (Suc k) = f k (F k)" unfolding F_def by (rule fold_upt_Suc)
    have w: "bounded_by 2 (weights_d s ! k)"
      using wb km wl by (simp add: list_all_length m_def)
    have len: "length (F (Suc k)) = n_x_d s"
      unfolding step f_def using IH(1) n by (rule mean_update_length)
    have "bounded_by (4 * real (Suc k) * M) (F (Suc k) ! r)" if r: "r < n_x_d s" for r
    proof -
      have "length (Xsig_pred_d s ! r) = m" using Xl r n by (simp add: list_all_length m_def)
      then have v: "bounded_by M (Xsig_pred_d s ! r ! k)"
        using Xb r n km by (simp add: list_all_length)
      have "F (Suc k) ! r = fadd (F k ! r) (fmul (weights_d s ! k) (Xsig_pred_d s ! r ! k))"
        unfolding step f_def using IH(1) n r by (rule mean_update_nth)
      moreover have "bounded_by (4 * real k * M) (F k ! r)" using IH(2) r by simp
      ultimately show ?thesis using mean_entry_step[OF w v _ M1 M60 k14] by simp
    qed
    with len show ?case by simp
  qed
  have mean: "predicted_mean_d s = F m" by (simp add: predicted_mean_d_def F_def f_def m_def)
  have "4 * real m * M \<le> 60 * M" using m15 M1 by simp
  with inv[of m] show ?thesis unfolding mean by (auto intro: bounded_by_mono)
qed

lemma residual_bounded:
  assumes n: "length X = n" and x: "length x = n" and n3: "3 < n"
    and Xb: "\<forall>r<n. bounded_by M (X ! r ! i)" and xb: "\<forall>r<n. bounded_by Mx (x ! r)"
    and lo: "1 \<le> M + Mx" and D: "(M + Mx) * (1 + 1 / 2 ^ 52) \<le> D"
    and D8: "8 \<le> D" and D56: "D \<le> 2 ^ 56"
  shows "\<exists>d. normalize_at_d 3 (dvec_sub (dcol X i) x) = Some d \<and> length d = n \<and>
             (\<forall>r<n. bounded_by D (d ! r))"
proof -
  define v where "v = dvec_sub (dcol X i) x"
  have len: "length v = n" unfolding v_def using x n by (rule residual_length)
  have "M + Mx \<le> D" using D lo by (simp add: algebra_simps) 
  then have hi: "M + Mx \<le> 2 ^ 60" using D56 by simp
  have vb: "bounded_by D (v ! r)" if r: "r < n" for r
  proof -
    have "v ! r = fsub (X ! r ! i) (x ! r)" unfolding v_def using x n r by (rule residual_nth)
    moreover have "bounded_by ((M + Mx) * (1 + 1 / 2 ^ 52)) (fsub (X ! r ! i) (x ! r))"
      using Xb xb r lo hi by (intro fsub_bounded) simp_all
    ultimately show ?thesis using D by (auto intro: bounded_by_mono)
  qed
  from vb[OF n3] obtain a where a: "v ! 3 = Fin a" "\<bar>a\<bar> \<le> D" by (auto simp: bounded_by_iff)
  then have "\<bar>a\<bar> \<le> 2 ^ 56" using D56 by linarith
  from angle_normalization_d_bound[OF this] obtain y where
    y: "angle_normalization_d (Fin a) = Some (Fin y)" "\<bar>y\<bar> \<le> max \<bar>a\<bar> 8" by blast
  have yb: "\<bar>y\<bar> \<le> D" using y(2) a(2) D8 by linarith
  have norm: "normalize_at_d 3 v = Some (v[3 := Fin y])"
    using a(1) y(1) by (simp add: normalize_at_d_def)
  have "bounded_by D (v[3 := Fin y] ! r)" if r: "r < n" for r
    using vb[OF r] yb r len by (cases "r = 3") (simp_all add: bounded_by_iff)
  with norm len show ?thesis unfolding v_def by simp
qed
lemma covariance_sum_commute: "covariance_sum s x r c = covariance_sum s x c r"
  by (simp add: covariance_sum_def Let_def mult.commute mult.left_commute)

lemma predicted_covariance_d_near:
  assumes x: "length x = n_x_d s"
    and wl: "length (weights_d s) = 2 * n_aug_d s + 1"
    and wb: "list_all (bounded_by 2) (weights_d s)"
    and na: "n_aug_d s \<le> 7"
    and R: "\<forall>i<2 * n_aug_d s + 1. \<exists>d.
              normalize_at_d 3 (dvec_sub (dcol (Xsig_pred_d s) i) x) = Some d \<and>
              length d = n_x_d s \<and> (\<forall>r<n_x_d s. bounded_by D (d ! r))"
    and D1: "1 \<le> D" and D2: "D \<le> 2 ^ 60"
  shows "\<exists>P. predicted_covariance_d s x = Some P \<and> length P = n_x_d s \<and>
             (\<forall>r<n_x_d s. length (P ! r) = n_x_d s) \<and>
             (\<forall>r<n_x_d s. \<forall>c<n_x_d s. \<exists>p. P ! r ! c = Fin p \<and>
                \<bar>p - covariance_sum s x r c\<bar> \<le> 555 * (D * D) / 2 ^ 52)"
proof -
  define n where "n = n_x_d s"
  define m where "m = 2 * n_aug_d s + 1"
  define f where
    "f = (\<lambda>i Po. do {
             P \<leftarrow> Po;
             x_diff \<leftarrow> normalize_at_d 3 (dvec_sub (dcol (Xsig_pred_d s) i) x);
             Some (dmat_add P (douter (dvec_scale (weights_d s ! i) x_diff) x_diff))
           })"
  define F where "F = (\<lambda>k. fold f [0..<k] (Some (dzero_mat n n)))"
  define tm where
    "tm = (\<lambda>r c i. (let d = the (normalize_at_d 3 (dvec_sub (dcol (Xsig_pred_d s) i) x))
                        in fin_value (weights_d s ! i) * fin_value (d ! r) * fin_value (d ! c)))"
  define E where "E = (\<lambda>k r c. sum_list (map (tm r c) [0..<k]))"
  define Inv where
    "Inv = (\<lambda>k P. length P = n \<and> (\<forall>r<n. length (P ! r) = n) \<and>
              (\<forall>r<n. \<forall>c<n. \<bar>E k r c\<bar> \<le> 2 * real k * (D * D) \<and>
                 (\<exists>p. P ! r ! c = Fin p \<and> \<bar>p - E k r c\<bar> \<le> 37 * real k * (D * D) / 2 ^ 52)))"
  have m15: "m \<le> 15" using na by (simp add: m_def)
  have ESuc: "E (Suc k) r c = E k r c + tm r c k" for k r c
    by (simp add: E_def)
  have inv: "k \<le> m \<Longrightarrow> \<exists>P. F k = Some P \<and> Inv k P" for k
  proof (induction k)
    case 0
    have "Inv 0 (dzero_mat n n)" by (simp add: Inv_def dzero_mat_def E_def)
    then show ?case by (simp add: F_def)
  next
    case (Suc k)
    then obtain P where P: "F k = Some P" "Inv k P" and km: "k < m" by auto
    have k14: "k \<le> 14" using km m15 by simp
    from R km obtain d where
      d: "normalize_at_d 3 (dvec_sub (dcol (Xsig_pred_d s) k) x) = Some d"
         "length d = n" "\<forall>r<n. bounded_by D (d ! r)"
      unfolding m_def n_def by blast
    from wb km wl obtain w where w: "weights_d s ! k = Fin w" "\<bar>w\<bar> \<le> 2"
      by (auto simp: list_all_length m_def bounded_by_iff)
    define P' where "P' = dmat_add P (douter (dvec_scale (Fin w) d) d)"
    have "F (Suc k) = f k (F k)" unfolding F_def by (rule fold_upt_Suc)
    then have step: "F (Suc k) = Some P'" using P(1) d(1) w(1) by (simp add: f_def P'_def)
    from P(2) have lP: "length P = n" "\<forall>r<n. length (P ! r) = n" by (simp_all add: Inv_def)
    have l1: "length P' = n" and l2: "\<forall>r<n. length (P' ! r) = n"
      unfolding P'_def using lP d(2) by (rule cov_update_length)+
    have entry: "\<bar>E (Suc k) r c\<bar> \<le> 2 * real (Suc k) * (D * D) \<and>
                 (\<exists>p. P' ! r ! c = Fin p \<and>
                      \<bar>p - E (Suc k) r c\<bar> \<le> 37 * real (Suc k) * (D * D) / 2 ^ 52)"
      if r: "r < n" and c: "c < n" for r c
    proof -
      from P(2) r c obtain p where
        e: "\<bar>E k r c\<bar> \<le> 2 * real k * (D * D)"
        and p: "P ! r ! c = Fin p" "\<bar>p - E k r c\<bar> \<le> 37 * real k * (D * D) / 2 ^ 52"
        unfolding Inv_def by blast
      from d(3) r obtain a where a: "d ! r = Fin a" "\<bar>a\<bar> \<le> D"
        unfolding bounded_by_iff by blast
      from d(3) c obtain b where b: "d ! c = Fin b" "\<bar>b\<bar> \<le> D"
        unfolding bounded_by_iff by blast
      have t: "tm r c k = w * a * b"
        by (simp add: tm_def d(1) w(1) a(1) b(1))
      have rc: "P' ! r ! c = fadd (Fin p) (fmul (fmul (Fin w) (Fin a)) (Fin b))"
        unfolding P'_def using cov_update_nth[OF lP d(2) r c] p(1) a(1) b(1) by simp
      from covariance_entry_step[OF w(2) a(2) b(2) D1 D2 k14 e p(2)] obtain p' where
        p': "P' ! r ! c = Fin p'"
            "\<bar>p' - (E k r c + w * a * b)\<bar> \<le> 37 * real (Suc k) * (D * D) / 2 ^ 52"
        unfolding rc by blast
      have "\<bar>w * a * b\<bar> \<le> 2 * D * D"
        unfolding abs_mult using w(2) a(2) b(2) D1 by (intro mult_mono) simp_all
      then have "\<bar>E k r c + w * a * b\<bar> \<le> 2 * real k * (D * D) + 2 * (D * D)" using e by simp
      also have "\<dots> = 2 * real (Suc k) * (D * D)" by (simp add: algebra_simps)
      finally have e': "\<bar>E k r c + w * a * b\<bar> \<le> 2 * real (Suc k) * (D * D)" .
      from p' e' show ?thesis unfolding ESuc t by blast
    qed
    have "Inv (Suc k) P'" unfolding Inv_def using l1 l2 entry by blast
    with step show ?case by blast
  qed
  from inv[of m] obtain P where P: "F m = Some P" "Inv m P" by auto
  have cov: "predicted_covariance_d s x = F m"
    by (simp add: predicted_covariance_d_def F_def f_def m_def n_def)
  have Em: "E m r c = covariance_sum s x r c" for r c
    by (simp add: E_def tm_def covariance_sum_def m_def)
  have near: "\<exists>p. P ! r ! c = Fin p \<and> \<bar>p - covariance_sum s x r c\<bar> \<le> 555 * (D * D) / 2 ^ 52"
    if r: "r < n" and c: "c < n" for r c
  proof -
    from P(2) r c obtain p where
      p: "P ! r ! c = Fin p" "\<bar>p - E m r c\<bar> \<le> 37 * real m * (D * D) / 2 ^ 52"
      unfolding Inv_def by blast
    have "real m * (D * D) \<le> 15 * (D * D)"
      using m15 by (intro mult_right_mono) simp_all
    then have "37 * real m * (D * D) \<le> 555 * (D * D)" by linarith
    then have "37 * real m * (D * D) / 2 ^ 52 \<le> 555 * (D * D) / 2 ^ 52"
      by (rule divide_right_mono) simp
    with p(2) have "\<bar>p - E m r c\<bar> \<le> 555 * (D * D) / 2 ^ 52" by (rule order_trans)
    with p(1) show ?thesis unfolding Em by blast
  qed
  from P(2) have "length P = n" "\<forall>r<n. length (P ! r) = n" by (simp_all add: Inv_def)
  with near cov P(1) show ?thesis unfolding n_def by auto
qed

section \<open>The predicted covariance in binary64\<close>

lemma ex_pair_fields:
  "n_x_d ex_pair_filter = 5"
  "n_aug_d ex_pair_filter = 7"
  "weights_d ex_pair_filter =
     Fin (- (6004799503160661 / 2 ^ 52)) # replicate 14 (Fin (6004799503160661 / 2 ^ 55))"
  "Xsig_pred_d ex_pair_filter =
       [[Fin 0, Fin 3, Fin 0, Fin 0, Fin 0, Fin 0, Fin 0, Fin 0,
         Fin (- 3), Fin 0, Fin 0, Fin 0, Fin 0, Fin 0, Fin 0],
        [Fin 0, Fin 0, Fin 0, Fin 0, Fin 0, Fin 0, Fin 0, Fin 0,
         Fin 0, Fin 0, Fin 0, Fin 0, Fin 0, Fin 0, Fin 0],
        [Fin 0, Fin 7, Fin 0, Fin 0, Fin 0, Fin 0, Fin 0, Fin 0,
         Fin (- 7), Fin 0, Fin 0, Fin 0, Fin 0, Fin 0, Fin 0],
        [Fin 0, Fin 0, Fin 0, Fin 0, Fin 0, Fin 0, Fin 0, Fin 0,
         Fin 0, Fin 0, Fin 0, Fin 0, Fin 0, Fin 0, Fin 0],
        [Fin 0, Fin 0, Fin 0, Fin 0, Fin 0, Fin 0, Fin 0, Fin 0,
         Fin 0, Fin 0, Fin 0, Fin 0, Fin 0, Fin 0, Fin 0]]"
proof -
  have "weights_d ex_pair_filter = weights_d UKF_new_d" by (simp add: ex_pair_filter_def)
  then show "weights_d ex_pair_filter =
     Fin (- (6004799503160661 / 2 ^ 52)) # replicate 14 (Fin (6004799503160661 / 2 ^ 55))"
    by (simp only: weights_d_value)
qed (simp_all add: ex_pair_filter_def UKF_new_d_def Let_def)

lemmas upt15 = upt_rec[of 0 15] upt_rec[of 1 15] upt_rec[of 2 15] upt_rec[of 3 15]
  upt_rec[of 4 15] upt_rec[of 5 15] upt_rec[of 6 15] upt_rec[of 7 15] upt_rec[of 8 15]
  upt_rec[of 9 15] upt_rec[of 10 15] upt_rec[of 11 15] upt_rec[of 12 15] upt_rec[of 13 15]
  upt_rec[of 14 15] upt_rec[of 15 15]

lemmas rd_at = round_to_double_at[where e = "- 2"] round_to_double_at[where e = "- 1"]
  round_to_double_at[where e = 0] round_to_double_at[where e = 1]
  round_to_double_at[where e = 2] round_to_double_at[where e = 3]
  round_to_double_at[where e = 4]

lemma predicted_mean_d_ex_pair:
  "predicted_mean_d ex_pair_filter = [Fin 0, Fin 0, Fin 0, Fin 0, Fin 0]"
  by (simp add: predicted_mean_d_def ex_pair_fields upt15 dzero_vec_def dvec_add_def
      dvec_scale_def dcol_def eval_nat_numeral dev rd_at)

lemma fsub_zero: "fsub (Fin 0) (Fin 0) = Fin 0"
  by (simp add: fsub_def dev)

lemma normalization_zero: "angle_normalization_d (Fin 0) = Some (Fin 0)"
proof -
  have "sub_loop_d (Fin 0) = Some (Fin 0)"
    by (subst sub_loop_d.simps) (simp add: fgt_def M_PI_value)
  moreover have "add_loop_d (Fin 0) = Some (Fin 0)"
    by (subst add_loop_d.simps) (simp add: fneg_M_PI_value)
  ultimately show ?thesis by (simp add: angle_normalization_d_def)
qed

lemma predicted_covariance_d_ex_pair:
  "predicted_covariance_d ex_pair_filter [Fin 0, Fin 0, Fin 0, Fin 0, Fin 0] = Some ex_pair_P"
  by (simp add: predicted_covariance_d_def ex_pair_fields upt15 dzero_mat_def dvec_sub_def
      dmat_add_def dvec_add_def douter_def dvec_scale_def dcol_def normalize_at_d_def
      normalization_zero eval_nat_numeral fsub_def dev rd_at ex_pair_P_def)

text \<open>
  Claim C7, as amended. Take a filter with a state of more than 3 coefficients, at most 15
  sigma points, weights that are finite of magnitude at most 2 (those of the constructor
  are) and predicted sigma points whose coefficients are all finite of magnitude at most
  \<open>M\<close>, with \<open>1 \<le> M \<le> 2\<^sup>5\<^sup>0\<close>. Then the weighted recombination of the predict cycle
  returns, and the predicted covariance is a square matrix of finite numbers; each
  coefficient \<open>(r, c)\<close> is within \<open>M\<^sup>2 / 2\<^sup>3\<^sup>0\<close> of the weighted sum of the products of
  the state differences, so the matrix is symmetric up to rounding:
  \<open>\<bar>P r c - P c r\<bar> \<le> M\<^sup>2 / 2\<^sup>2\<^sup>9\<close>. Neither exact symmetry nor positive
  semi-definiteness is claimed.
\<close>

theorem PredictMeanAndCovariance_d_nearly_symmetric:
  assumes "length (Xsig_pred_d s) = n_x_d s" and "3 < n_x_d s"
    and "list_all (\<lambda>row. length row = 2 * n_aug_d s + 1) (Xsig_pred_d s)"
    and "list_all (list_all (bounded_by M)) (Xsig_pred_d s)"
    and "length (weights_d s) = 2 * n_aug_d s + 1"
    and "list_all (bounded_by 2) (weights_d s)"
    and "n_aug_d s \<le> 7" and "1 \<le> M" and "M \<le> 2 ^ 50"
  shows "\<exists>x P. PredictMeanAndCovariance_d s = Some (x, P) \<and> length P = n_x_d s \<and>
           (\<forall>r<n_x_d s. length (P ! r) = n_x_d s) \<and>
           (\<forall>r<n_x_d s. \<forall>c<n_x_d s. \<exists>p q. P ! r ! c = Fin p \<and> P ! c ! r = Fin q \<and>
              \<bar>p - covariance_sum s x r c\<bar> \<le> M * M / 2 ^ 30 \<and>
              \<bar>p - q\<bar> \<le> M * M / 2 ^ 29)"
proof -
  define x where "x = predicted_mean_d s"
  define D where "D = 62 * M"
  have mean: "length x = n_x_d s" "\<forall>r<n_x_d s. bounded_by (60 * M) (x ! r)"
    unfolding x_def
    using predicted_mean_d_bounded[OF assms(1) assms(4) assms(3) assms(5) assms(6) assms(7)
        assms(8) assms(9)] by simp_all
  have p50: "(2::real) ^ 50 = 1125899906842624" by simp
  have D1: "1 \<le> D" and D8: "8 \<le> D" and D56: "D \<le> 2 ^ 56" and D60: "D \<le> 2 ^ 60"
    using assms(8) assms(9)[unfolded p50] by (simp_all add: D_def)
  have DD: "(M + 60 * M) * (1 + 1 / 2 ^ 52) \<le> D"
    using assms(8) by (simp add: D_def)
  have lo: "1 \<le> M + 60 * M" using assms(8) by simp
  have R: "\<forall>i<2 * n_aug_d s + 1. \<exists>d.
              normalize_at_d 3 (dvec_sub (dcol (Xsig_pred_d s) i) x) = Some d \<and>
              length d = n_x_d s \<and> (\<forall>r<n_x_d s. bounded_by D (d ! r))"
  proof (intro allI impI)
    fix i assume i: "i < 2 * n_aug_d s + 1"
    have Xb: "\<forall>r<n_x_d s. bounded_by M (Xsig_pred_d s ! r ! i)"
      using assms(1) assms(3) assms(4) i by (simp add: list_all_length)
    show "\<exists>d. normalize_at_d 3 (dvec_sub (dcol (Xsig_pred_d s) i) x) = Some d \<and>
              length d = n_x_d s \<and> (\<forall>r<n_x_d s. bounded_by D (d ! r))"
      using residual_bounded[OF assms(1) mean(1) assms(2) Xb mean(2) lo DD D8 D56] .
  qed
  from predicted_covariance_d_near[OF mean(1) assms(5) assms(6) assms(7) R D1 D60]
  obtain P where P: "predicted_covariance_d s x = Some P" "length P = n_x_d s"
    "\<forall>r<n_x_d s. length (P ! r) = n_x_d s"
    "\<forall>r<n_x_d s. \<forall>c<n_x_d s. \<exists>p. P ! r ! c = Fin p \<and>
        \<bar>p - covariance_sum s x r c\<bar> \<le> 555 * (D * D) / 2 ^ 52"
    by blast
  have "555 * (D * D) / 2 ^ 52 = 2133420 * (M * M) / 2 ^ 52" by (simp add: D_def)
  also have "\<dots> \<le> 4194304 * (M * M) / 2 ^ 52"
    by (intro divide_right_mono mult_right_mono) simp_all
  also have "\<dots> = M * M / 2 ^ 30" by simp
  finally have le: "555 * (D * D) / 2 ^ 52 \<le> M * M / 2 ^ 30" .
  have near: "\<exists>p q. P ! r ! c = Fin p \<and> P ! c ! r = Fin q \<and>
        \<bar>p - covariance_sum s x r c\<bar> \<le> M * M / 2 ^ 30 \<and> \<bar>p - q\<bar> \<le> M * M / 2 ^ 29"
    if r: "r < n_x_d s" and c: "c < n_x_d s" for r c
  proof -
    from P(4) r c obtain p where
      p: "P ! r ! c = Fin p" "\<bar>p - covariance_sum s x r c\<bar> \<le> 555 * (D * D) / 2 ^ 52"
      by blast
    from P(4) r c obtain q where
      q: "P ! c ! r = Fin q" "\<bar>q - covariance_sum s x c r\<bar> \<le> 555 * (D * D) / 2 ^ 52"
      by blast
    have pe: "\<bar>p - covariance_sum s x r c\<bar> \<le> M * M / 2 ^ 30" using p(2) le by linarith
    have qe: "\<bar>q - covariance_sum s x r c\<bar> \<le> M * M / 2 ^ 30"
      using q(2) le covariance_sum_commute[of s x r c] by linarith
    have "\<bar>p - q\<bar> \<le> M * M / 2 ^ 30 + M * M / 2 ^ 30" using pe qe by linarith
    also have "\<dots> = M * M / 2 ^ 29" by simp
    finally show ?thesis using p(1) q(1) pe by blast
  qed
  have "PredictMeanAndCovariance_d s = Some (x, P)"
    using P(1) by (simp add: PredictMeanAndCovariance_d_def x_def)
  with P(2) P(3) near show ?thesis by blast
qed

text \<open>
  The theorem on the constructed filter whose predicted sigma points are zero but for the
  columns 1 and 8, \<open>(3, 0, 7, 0, 0)\<close> and \<open>(-3, 0, -7, 0, 0)\<close>, with \<open>M = 7\<close>, at the
  coefficients \<open>(0, 2)\<close> and \<open>(2, 0)\<close>.
\<close>

theorem PredictMeanAndCovariance_d_nearly_symmetric_witness:
  "length (Xsig_pred_d ex_pair_filter) = n_x_d ex_pair_filter \<and>
   3 < n_x_d ex_pair_filter \<and>
   list_all (\<lambda>row. length row = 2 * n_aug_d ex_pair_filter + 1) (Xsig_pred_d ex_pair_filter) \<and>
   list_all (list_all (bounded_by 7)) (Xsig_pred_d ex_pair_filter) \<and>
   length (weights_d ex_pair_filter) = 2 * n_aug_d ex_pair_filter + 1 \<and>
   list_all (bounded_by 2) (weights_d ex_pair_filter) \<and>
   n_aug_d ex_pair_filter \<le> 7 \<and>
   (\<exists>x P p q. PredictMeanAndCovariance_d ex_pair_filter = Some (x, P) \<and>
      P ! 0 ! 2 = Fin p \<and> P ! 2 ! 0 = Fin q \<and>
      \<bar>p - covariance_sum ex_pair_filter x 0 2\<bar> \<le> 7 * 7 / 2 ^ 30 \<and>
      \<bar>p - q\<bar> \<le> 7 * 7 / 2 ^ 29)"
proof -
  have h1: "length (Xsig_pred_d ex_pair_filter) = n_x_d ex_pair_filter"
    and h2: "3 < n_x_d ex_pair_filter"
    and h3: "list_all (\<lambda>row. length row = 2 * n_aug_d ex_pair_filter + 1)
               (Xsig_pred_d ex_pair_filter)"
    and h4: "list_all (list_all (bounded_by 7)) (Xsig_pred_d ex_pair_filter)"
    and h5: "length (weights_d ex_pair_filter) = 2 * n_aug_d ex_pair_filter + 1"
    and h6: "list_all (bounded_by 2) (weights_d ex_pair_filter)"
    and h7: "n_aug_d ex_pair_filter \<le> 7"
    by (simp_all add: ex_pair_fields bounded_by_def list_all_length nth_Cons')
  have n: "n_x_d ex_pair_filter = 5" by (simp add: ex_pair_fields)
  from PredictMeanAndCovariance_d_nearly_symmetric[OF h1 h2 h3 h4 h5 h6 h7, unfolded n]
  obtain x P where P: "PredictMeanAndCovariance_d ex_pair_filter = Some (x, P)"
    "\<forall>r<5. \<forall>c<5. \<exists>p q. P ! r ! c = Fin p \<and> P ! c ! r = Fin q \<and>
       \<bar>p - covariance_sum ex_pair_filter x r c\<bar> \<le> 7 * 7 / 2 ^ 30 \<and>
       \<bar>p - q\<bar> \<le> 7 * 7 / 2 ^ 29"
    by auto
  from P(2) have "\<exists>p q. P ! 0 ! 2 = Fin p \<and> P ! 2 ! 0 = Fin q \<and>
       \<bar>p - covariance_sum ex_pair_filter x 0 2\<bar> \<le> 7 * 7 / 2 ^ 30 \<and>
       \<bar>p - q\<bar> \<le> 7 * 7 / 2 ^ 29"
    by simp
  with P(1) h1 h2 h3 h4 h5 h6 h7 show ?thesis by blast
qed

text \<open>
  On that filter the predicted mean is zero and the predicted covariance is not symmetric:
  coefficient \<open>(0, 2)\<close> adds \<open>(w * 3) * 7\<close> twice and is 7, coefficient \<open>(2, 0)\<close> adds
  \<open>(w * 7) * 3\<close> twice and is \<open>7 - 2\<^sup>-\<^sup>5\<^sup>0\<close>, for the weight \<open>w\<close> nearest to \<open>1/6\<close>.
\<close>

lemma predicted_covariance_d_not_symmetric:
  "PredictMeanAndCovariance_d ex_pair_filter =
     Some ([Fin 0, Fin 0, Fin 0, Fin 0, Fin 0], ex_pair_P) \<and>
   ex_pair_P ! 0 ! 2 = Fin 7 \<and>
   ex_pair_P ! 2 ! 0 = Fin (7 - 1 / 2 ^ 50) \<and>
   dtranspose ex_pair_P \<noteq> ex_pair_P"
proof -
  have "PredictMeanAndCovariance_d ex_pair_filter =
     Some ([Fin 0, Fin 0, Fin 0, Fin 0, Fin 0], ex_pair_P)"
    by (simp add: PredictMeanAndCovariance_d_def predicted_mean_d_ex_pair
        predicted_covariance_d_ex_pair)
  moreover have "dtranspose ex_pair_P \<noteq> ex_pair_P"
    by (simp add: dtranspose_def dcol_def ex_pair_P_def upt_rec[of 0 5] upt_rec[of 1 5]
        upt_rec[of 2 5] upt_rec[of 3 5] upt_rec[of 4 5] upt_rec[of 5 5])
  ultimately show ?thesis by (simp add: ex_pair_P_def)
qed
end
